theory Spec2Isabelle
  imports Main "HOL-Library.Word"
begin

section \<open>JavaScript strings and arrays\<close>

text \<open>
  A JavaScript string is a sequence of UTF-16 code units. \<open>String.prototype.indexOf\<close>,
  \<open>lastIndexOf\<close>, \<open>slice\<close>, \<open>includes\<close> and \<open>endsWith\<close> count code units;
  \<open>Array.from(str)\<close> iterates by code point, pairing a high surrogate with the low
  surrogate that follows it.
\<close>

type_synonym code_unit = "16 word"
type_synonym jsstring = "code_unit list"

definition js :: "string \<Rightarrow> jsstring" where
  "js s = map of_char s"

definition isHighSurrogate :: "code_unit \<Rightarrow> bool" where
  "isHighSurrogate u = (0xD800 \<le> u \<and> u \<le> 0xDBFF)"

definition isLowSurrogate :: "code_unit \<Rightarrow> bool" where
  "isLowSurrogate u = (0xDC00 \<le> u \<and> u \<le> 0xDFFF)"

text \<open>\<open>arr[i]\<close>: \<open>undefined\<close> (here \<open>None\<close>) outside the array.\<close>

definition at_index :: "'a list \<Rightarrow> int \<Rightarrow> 'a option" where
  "at_index xs i = (if 0 \<le> i \<and> i < int (length xs) then Some (xs ! nat i) else None)"

text \<open>\<open>lines[row] || ''\<close>\<close>

definition lineAt :: "jsstring list \<Rightarrow> int \<Rightarrow> jsstring" where
  "lineAt lines row = (case at_index lines row of Some l \<Rightarrow> l | None \<Rightarrow> [])"

text \<open>
  \<open>Array.prototype.slice(start, end)\<close> and \<open>String.prototype.slice(start, end)\<close>:
  a negative index counts from the end, both ends are clamped, a missing \<open>end\<close> is
  the length.
\<close>

definition rel_index :: "nat \<Rightarrow> int \<Rightarrow> nat" where
  "rel_index len i = (if i < 0 then nat (max (int len + i) 0) else nat (min i (int len)))"

definition slice :: "'a list \<Rightarrow> int \<Rightarrow> int option \<Rightarrow> 'a list" where
  "slice xs start end =
     (let len = length xs;
          k = rel_index len start;
          fin = (case end of None \<Rightarrow> len | Some e \<Rightarrow> rel_index len e)
      in take (fin - k) (drop k xs))"

text \<open>
  \<open>arr.splice(start, deleteCount)\<close>: the start is relative like that of \<open>slice\<close>, a
  negative count deletes nothing.
\<close>

definition splice :: "'a list \<Rightarrow> int \<Rightarrow> int \<Rightarrow> 'a list" where
  "splice xs start deleteCount =
     (let k = rel_index (length xs) start
      in take k xs @ drop (k + nat deleteCount) xs)"

text \<open>
  \<open>s.indexOf(q, pos)\<close>: the least \<open>k \<ge> clamp(pos, 0, len)\<close> at which \<open>q\<close> occurs in
  \<open>s\<close>, else \<open>-1\<close>. \<open>s.lastIndexOf(q, pos)\<close>: the greatest \<open>k \<le> clamp(pos, 0, len)\<close>
  at which \<open>q\<close> occurs, else \<open>-1\<close>; a missing \<open>pos\<close> is \<open>+\<infinity>\<close>.
\<close>

definition occursAt :: "jsstring \<Rightarrow> jsstring \<Rightarrow> nat \<Rightarrow> bool" where
  "occursAt s q k = (k + length q \<le> length s \<and> take (length q) (drop k s) = q)"

fun searchUp :: "(nat \<Rightarrow> bool) \<Rightarrow> nat \<Rightarrow> nat \<Rightarrow> nat option" where
  "searchUp P k 0 = None"
| "searchUp P k (Suc n) = (if P k then Some k else searchUp P (Suc k) n)"

fun searchDown :: "(nat \<Rightarrow> bool) \<Rightarrow> nat \<Rightarrow> nat option" where
  "searchDown P 0 = None"
| "searchDown P (Suc n) = (if P n then Some n else searchDown P n)"

definition indexOf :: "jsstring \<Rightarrow> jsstring \<Rightarrow> int \<Rightarrow> int" where
  "indexOf s q pos =
     (let start = nat (min (max pos 0) (int (length s)))
      in case searchUp (occursAt s q) start (Suc (length s) - start) of
           Some k \<Rightarrow> int k
         | None \<Rightarrow> -1)"

definition lastIndexOf :: "jsstring \<Rightarrow> jsstring \<Rightarrow> int option \<Rightarrow> int" where
  "lastIndexOf s q pos =
     (let start = (case pos of None \<Rightarrow> length s
                             | Some p \<Rightarrow> nat (min (max p 0) (int (length s))))
      in case searchDown (occursAt s q) (Suc start) of
           Some k \<Rightarrow> int k
         | None \<Rightarrow> -1)"

definition newline :: code_unit where
  "newline = 0x0A"

definition includes_newline :: "jsstring \<Rightarrow> bool" where
  "includes_newline s = (newline \<in> set s)"

definition endsWith_newline :: "jsstring \<Rightarrow> bool" where
  "endsWith_newline s = (s \<noteq> [] \<and> last s = newline)"

text \<open>\<open>text.split('\n')\<close>: always at least one part.\<close>

fun split_newline :: "jsstring \<Rightarrow> jsstring list" where
  "split_newline [] = [[]]"
| "split_newline (u # us) =
     (if u = newline then [] # split_newline us
      else (case split_newline us of
              p # ps \<Rightarrow> (u # p) # ps
            | [] \<Rightarrow> [[u]]))"

text \<open>
  \<open>/\s/.test(c)\<close> for a string \<open>c\<close>: some code unit of \<open>c\<close> is ECMAScript white space
  or a line terminator.
\<close>

definition isWhiteSpaceUnit :: "code_unit \<Rightarrow> bool" where
  "isWhiteSpaceUnit u =
     (u = 0x09 \<or> u = 0x0A \<or> u = 0x0B \<or> u = 0x0C \<or> u = 0x0D \<or> u = 0x20 \<or>
      u = 0xA0 \<or> u = 0x1680 \<or> (0x2000 \<le> u \<and> u \<le> 0x200A) \<or> u = 0x2028 \<or>
      u = 0x2029 \<or> u = 0x202F \<or> u = 0x205F \<or> u = 0x3000 \<or> u = 0xFEFF)"

definition test_whitespace :: "jsstring \<Rightarrow> bool" where
  "test_whitespace c = list_ex isWhiteSpaceUnit c"

section \<open>Code-point helpers (utils/textUtils)\<close>

text \<open>
  Modelled from the spec: \<open>utils/textUtils.js\<close> (\<open>toCodePoints\<close>, \<open>cpLen\<close>,
  \<open>cpSlice\<close>) is imported by the reducer and not part of the sources. The spec (4.A)
  gives them as the code-point length of a string and the code-point slice
  \<open>[start, end)\<close> producing a new string; \<open>toCodePoints\<close> is the array of code points,
  each one a string of one code unit or of a surrogate pair.
\<close>

fun toCodePoints :: "jsstring \<Rightarrow> jsstring list" where
  "toCodePoints [] = []"
| "toCodePoints [u] = [[u]]"
| "toCodePoints (u # v # rest) =
     (if isHighSurrogate u \<and> isLowSurrogate v then [u, v] # toCodePoints rest
      else [u] # toCodePoints (v # rest))"

definition cpLen :: "jsstring \<Rightarrow> int" where
  "cpLen s = int (length (toCodePoints s))"

definition cpSlice :: "jsstring \<Rightarrow> int \<Rightarrow> int option \<Rightarrow> jsstring" where
  "cpSlice s start end = concat (slice (toCodePoints s) start end)"

section \<open>Text buffer state (text-buffer.ts)\<close>

text \<open>
  The fields of \<open>TextBufferState\<close> that the reducer reads or writes. An undo entry is
  a snapshot of every field but the stack itself.
\<close>

record UndoEntry =
  u_lines :: "jsstring list"
  u_cursorRow :: int
  u_cursorCol :: int
  u_preferredCol :: "int option"
  u_selectionAnchor :: "(int \<times> int) option"
  u_clipboard :: jsstring
  u_lastSearchQuery :: jsstring

record TextBufferState =
  lines :: "jsstring list"
  cursorRow :: int
  cursorCol :: int
  preferredCol :: "int option"
  selectionAnchor :: "(int \<times> int) option"
  clipboard :: jsstring
  lastSearchQuery :: jsstring
  undoStack :: "UndoEntry list"

definition initialState :: TextBufferState where
  "initialState = \<lparr> lines = [[]], cursorRow = 0, cursorCol = 0, preferredCol = None,
     selectionAnchor = None, clipboard = [], lastSearchQuery = [], undoStack = [] \<rparr>"

text \<open>
  Modelled from the spec: \<open>pushUndo\<close> of \<open>text-buffer.ts\<close> is not part of the sources.
  Spec 4.B: it appends the pre-image to the undo stack; the stack is bounded
  (100 entries) and overflow discards the oldest.
\<close>

definition historyLimit :: nat where
  "historyLimit = 100"

definition snapshot :: "TextBufferState \<Rightarrow> UndoEntry" where
  "snapshot s = \<lparr> u_lines = lines s, u_cursorRow = cursorRow s, u_cursorCol = cursorCol s,
     u_preferredCol = preferredCol s, u_selectionAnchor = selectionAnchor s,
     u_clipboard = clipboard s, u_lastSearchQuery = lastSearchQuery s \<rparr>"

definition pushUndo :: "TextBufferState \<Rightarrow> TextBufferState" where
  "pushUndo s =
     (let st = undoStack s @ [snapshot s]
      in s\<lparr>undoStack := (if length st > historyLimit then tl st else st)\<rparr>)"

text \<open>
  Modelled from the spec: \<open>undo\<close> of the text buffer is not part of the sources.
  Spec 4.B: it pops the latest snapshot and installs it wholesale.
\<close>

definition undo :: "TextBufferState \<Rightarrow> TextBufferState" where
  "undo s =
     (if undoStack s = [] then s
      else let e = last (undoStack s)
           in \<lparr> lines = u_lines e, cursorRow = u_cursorRow e, cursorCol = u_cursorCol e,
                preferredCol = u_preferredCol e, selectionAnchor = u_selectionAnchor e,
                clipboard = u_clipboard e, lastSearchQuery = u_lastSearchQuery e,
                undoStack = butlast (undoStack s) \<rparr>)"

text \<open>
  Modelled from the spec: \<open>replaceRangeInternal\<close> of \<open>text-buffer.ts\<close> is not part of
  the sources. Spec 4.B: it slices \<open>[start_col, end_col)\<close> out of the affected line
  range and splices in the text (which may contain newlines), keeps \<open>lines\<close>
  non-empty, places the cursor at the end of the inserted text and clears
  \<open>preferred_col\<close>. The comment in the reducer gives the prefix as
  \<open>cpSlice(line(startRow), 0, sCol)\<close> and the suffix as \<open>cpSlice(line(endRow), eCol)\<close>.
\<close>

definition replaceRangeInternal ::
  "TextBufferState \<Rightarrow> int \<Rightarrow> int \<Rightarrow> int \<Rightarrow> int \<Rightarrow> jsstring \<Rightarrow> TextBufferState" where
  "replaceRangeInternal s startRow startCol endRow endCol txt =
     (let prefix = cpSlice (lineAt (lines s) startRow) 0 (Some (max startCol 0));
          suffix = cpSlice (lineAt (lines s) endRow) (max endCol 0) None;
          parts = split_newline txt;
          replacement =
            (if length parts = 1 then [prefix @ hd parts @ suffix]
             else (prefix @ hd parts) # butlast (tl parts) @ [last parts @ suffix]);
          newLines = take (nat startRow) (lines s) @ replacement
                       @ drop (nat endRow + 1) (lines s)
      in s\<lparr> lines := newLines,
            cursorRow := max startRow 0 + int (length parts) - 1,
            cursorCol := (if length parts > 1 then 0 else cpLen prefix) + cpLen (last parts),
            preferredCol := None \<rparr>)"

section \<open>Helpers of text-buffer.ts that the reducer imports\<close>

text \<open>
  The word classification, the word searches and the offset conversions are imported
  from \<open>text-buffer.ts\<close>, which is not part of the sources, and the spec does not fix
  what they return; \<open>toUpperCase\<close> and \<open>toLowerCase\<close> are the Unicode case mappings
  of the language. The reducer takes them as a parameter. A character argument is
  an element of a code-point array and may be \<open>undefined\<close> (\<open>None\<close>).
\<close>

record helpers =
  isWordCharStrict :: "jsstring option \<Rightarrow> bool"
  isWordCharWithCombining :: "jsstring option \<Rightarrow> bool"
  isCombiningMark :: "jsstring option \<Rightarrow> bool"
  findNextWordAcrossLines :: "jsstring list \<Rightarrow> int \<Rightarrow> int \<Rightarrow> bool \<Rightarrow> (int \<times> int) option"
  findPrevWordAcrossLines :: "jsstring list \<Rightarrow> int \<Rightarrow> int \<Rightarrow> (int \<times> int) option"
  findWordEndInLine :: "jsstring \<Rightarrow> int \<Rightarrow> int option"
  getLineRangeOffsets :: "int \<Rightarrow> int \<Rightarrow> jsstring list \<Rightarrow> int \<times> int"
  getPositionFromOffsets :: "int \<Rightarrow> int \<Rightarrow> jsstring list \<Rightarrow> (int \<times> int) \<times> (int \<times> int)"
  toUpperCase :: "jsstring \<Rightarrow> jsstring"
  toLowerCase :: "jsstring \<Rightarrow> jsstring"

section \<open>Matching pairs (vim-buffer-actions.ts)\<close>

text \<open>
  \<open>findPairForward\<close>: the inner loop over the columns of one row, from \<open>col\<close>, with the
  depth counter; \<open>Inl col\<close> is the match, \<open>Inr depth\<close> the depth at the end of the row.
\<close>

fun scanRowForward :: "jsstring list \<Rightarrow> int \<Rightarrow> nat \<Rightarrow> jsstring \<Rightarrow> jsstring \<Rightarrow> int + nat" where
  "scanRowForward [] col depth openChar closeChar = Inr depth"
| "scanRowForward (c # cs) col depth openChar closeChar =
     (if c = openChar then scanRowForward cs (col + 1) (Suc depth) openChar closeChar
      else if c = closeChar then
        (case depth of 0 \<Rightarrow> Inl col
                     | Suc d \<Rightarrow> scanRowForward cs (col + 1) d openChar closeChar)
      else scanRowForward cs (col + 1) depth openChar closeChar)"

text \<open>The outer loop over the rows \<open>row, row + 1, ...\<close>; \<open>rest\<close> holds these rows.\<close>

fun scanRowsForward ::
  "jsstring list \<Rightarrow> int \<Rightarrow> int \<Rightarrow> nat \<Rightarrow> jsstring \<Rightarrow> jsstring \<Rightarrow> (int \<times> int) option" where
  "scanRowsForward [] row colStart depth openChar closeChar = None"
| "scanRowsForward (line # rest) row colStart depth openChar closeChar =
     (case scanRowForward (drop (nat colStart) (toCodePoints line)) (max colStart 0) depth
             openChar closeChar of
        Inl col \<Rightarrow> Some (row, col)
      | Inr d \<Rightarrow> scanRowsForward rest (row + 1) 0 d openChar closeChar)"

definition findPairForward ::
  "jsstring list \<Rightarrow> int \<Rightarrow> int \<Rightarrow> jsstring \<Rightarrow> jsstring \<Rightarrow> (int \<times> int) option" where
  "findPairForward lns startRow startCol openChar closeChar =
     (if startRow < 0 then scanRowsForward lns 0 0 0 openChar closeChar
      else scanRowsForward (drop (nat startRow) lns) startRow startCol 0 openChar closeChar)"

text \<open>
  \<open>findPairBackward\<close>: the inner loop visits the columns \<open>n - 1, ..., 0\<close> of one row;
  a column past the end of the row reads \<open>undefined\<close>, which equals neither character.
\<close>

fun scanRowBackward :: "jsstring list \<Rightarrow> nat \<Rightarrow> nat \<Rightarrow> jsstring \<Rightarrow> jsstring \<Rightarrow> int + nat" where
  "scanRowBackward chars 0 depth closeChar openChar = Inr depth"
| "scanRowBackward chars (Suc col) depth closeChar openChar =
     (if at_index chars (int col) = Some closeChar
        then scanRowBackward chars col (Suc depth) closeChar openChar
      else if at_index chars (int col) = Some openChar then
        (case depth of 0 \<Rightarrow> Inl (int col)
                     | Suc d \<Rightarrow> scanRowBackward chars col d closeChar openChar)
      else scanRowBackward chars col depth closeChar openChar)"

text \<open>The outer loop visits the rows \<open>n - 1, ..., 0\<close>; the first one starts at \<open>startCol\<close>.\<close>

fun scanRowsBackward ::
  "jsstring list \<Rightarrow> nat \<Rightarrow> int option \<Rightarrow> nat \<Rightarrow> jsstring \<Rightarrow> jsstring \<Rightarrow> (int \<times> int) option" where
  "scanRowsBackward lns 0 startCol depth closeChar openChar = None"
| "scanRowsBackward lns (Suc row) startCol depth closeChar openChar =
     (let chars = toCodePoints (lineAt lns (int row));
          colStart = (case startCol of Some c \<Rightarrow> c | None \<Rightarrow> int (length chars) - 1)
      in case scanRowBackward chars (nat (colStart + 1)) depth closeChar openChar of
           Inl col \<Rightarrow> Some (int row, col)
         | Inr d \<Rightarrow> scanRowsBackward lns row None d closeChar openChar)"

definition findPairBackward ::
  "jsstring list \<Rightarrow> int \<Rightarrow> int \<Rightarrow> jsstring \<Rightarrow> jsstring \<Rightarrow> (int \<times> int) option" where
  "findPairBackward lns startRow startCol closeChar openChar =
     scanRowsBackward lns (nat (startRow + 1)) (Some startCol) 0 closeChar openChar"

definition pairs :: "jsstring option \<Rightarrow> jsstring option" where
  "pairs c =
     (if c = Some (js ''('') then Some (js '')'')
      else if c = Some (js ''{'') then Some (js ''}'')
      else if c = Some (js ''['') then Some (js '']'')
      else if c = Some (js ''<'') then Some (js ''>'')
      else None)"

definition reversePairs :: "jsstring option \<Rightarrow> jsstring option" where
  "reversePairs c =
     (if c = Some (js '')'') then Some (js ''('')
      else if c = Some (js ''}'') then Some (js ''{'')
      else if c = Some (js '']'') then Some (js ''['')
      else if c = Some (js ''>'') then Some (js ''<'')
      else None)"

text \<open>The scan of the current line for the first bracket at a column \<open>\<ge> i\<close>.\<close>

fun scanForBracket :: "jsstring list \<Rightarrow> int \<Rightarrow> (int \<times> jsstring) option" where
  "scanForBracket [] i = None"
| "scanForBracket (c # cs) i =
     (if pairs (Some c) \<noteq> None \<or> reversePairs (Some c) \<noteq> None then Some (i, c)
      else scanForBracket cs (i + 1))"

definition findMatchingPair :: "jsstring list \<Rightarrow> int \<Rightarrow> int \<Rightarrow> (int \<times> int) option" where
  "findMatchingPair lns crow ccol =
     (let codePoints = toCodePoints (lineAt lns crow);
          char0 = at_index codePoints ccol;
          (activeCol, char) =
            (if pairs char0 = None \<and> reversePairs char0 = None then
               (case scanForBracket (drop (nat (ccol + 1)) codePoints)
                       (max (ccol + 1) 0) of
                  Some (i, c) \<Rightarrow> (i, Some c)
                | None \<Rightarrow> (ccol, char0))
             else (ccol, char0))
      in case char of
           None \<Rightarrow> None
         | Some ch \<Rightarrow>
             (case pairs char of
                Some closeChar \<Rightarrow> findPairForward lns crow (activeCol + 1) ch closeChar
              | None \<Rightarrow>
                  (case reversePairs char of
                     Some openChar \<Rightarrow> findPairBackward lns crow (activeCol - 1) ch openChar
                   | None \<Rightarrow> None)))"

section \<open>The reducer's actions\<close>

datatype direction = forward | backward

datatype find_type = inclusive | exclusive

datatype paste_direction = before | after

datatype movement = move_h | move_j | move_k | move_l

text \<open>
  The \<open>count\<close> and \<open>lineNumber\<close> payloads are the non-negative integers that the
  controller builds from digit keys.
\<close>

datatype VimAction =
    vim_delete_word_forward nat
  | vim_delete_word_backward nat
  | vim_delete_word_end nat
  | vim_change_word_forward nat
  | vim_change_word_backward nat
  | vim_change_word_end nat
  | vim_delete_line nat
  | vim_change_line nat
  | vim_delete_to_end_of_line
  | vim_change_to_end_of_line
  | vim_delete_to_line_start
  | vim_change_movement movement nat
  | vim_move_left nat
  | vim_move_right nat
  | vim_move_up nat
  | vim_move_down nat
  | vim_move_word_forward nat
  | vim_move_word_backward nat
  | vim_move_word_end nat
  | vim_delete_char nat
  | vim_delete_char_before nat
  | vim_toggle_case nat
  | vim_insert_at_cursor
  | vim_append_at_cursor
  | vim_open_line_below
  | vim_open_line_above
  | vim_append_at_line_end
  | vim_insert_at_line_start
  | vim_move_to_line_start
  | vim_move_to_line_end
  | vim_move_to_first_nonwhitespace
  | vim_move_to_first_line
  | vim_move_to_last_line
  | vim_move_to_line nat
  | vim_escape_insert_mode
  | vim_set_selection_anchor
  | vim_clear_selection
  | vim_search jsstring direction
  | vim_search_next direction
  | vim_yank jsstring
  | vim_yank_selection
  | vim_paste paste_direction
  | vim_replace_char jsstring
  | vim_find_char jsstring direction find_type
  | vim_move_to_matching_pair
  | vim_delete_inner_word nat
  | vim_change_inner_word nat
  | vim_yank_inner_word nat

text \<open>
  Reading a property of \<open>undefined\<close> throws a \<open>TypeError\<close>: \<open>lines[i].indexOf\<close> in the
  searches when the cursor row is outside the buffer, \<open>char.toUpperCase()\<close> in
  \<open>vim_toggle_case\<close> when the cursor column is negative.
\<close>

datatype error = TypeError

section \<open>Word deletions\<close>

fun delete_word_forward_loop ::
  "helpers \<Rightarrow> jsstring list \<Rightarrow> nat \<Rightarrow> int \<times> int \<Rightarrow> int \<times> int" where
  "delete_word_forward_loop h lns 0 (endRow, endCol) = (endRow, endCol)"
| "delete_word_forward_loop h lns (Suc n) (endRow, endCol) =
     (case findNextWordAcrossLines h lns endRow endCol True of
        Some (r, c) \<Rightarrow> delete_word_forward_loop h lns n (r, c)
      | None \<Rightarrow>
          (let currentLine = lineAt lns endRow
           in case findWordEndInLine h currentLine endCol of
                Some wordEnd \<Rightarrow> (endRow, wordEnd + 1)
              | None \<Rightarrow> (endRow, cpLen currentLine)))"

definition case_delete_word_forward :: "helpers \<Rightarrow> TextBufferState \<Rightarrow> nat \<Rightarrow> TextBufferState" where
  "case_delete_word_forward h state count =
     (let (endRow, endCol) =
            delete_word_forward_loop h (lines state) count (cursorRow state, cursorCol state)
      in if endRow \<noteq> cursorRow state \<or> endCol \<noteq> cursorCol state
         then replaceRangeInternal (pushUndo state) (cursorRow state) (cursorCol state)
                endRow endCol []
         else state)"

fun word_backward_loop ::
  "helpers \<Rightarrow> jsstring list \<Rightarrow> nat \<Rightarrow> int \<times> int \<Rightarrow> int \<times> int" where
  "word_backward_loop h lns 0 (startRow, startCol) = (startRow, startCol)"
| "word_backward_loop h lns (Suc n) (startRow, startCol) =
     (case findPrevWordAcrossLines h lns startRow startCol of
        Some (r, c) \<Rightarrow> word_backward_loop h lns n (r, c)
      | None \<Rightarrow> (startRow, startCol))"

definition case_delete_word_backward :: "helpers \<Rightarrow> TextBufferState \<Rightarrow> nat \<Rightarrow> TextBufferState" where
  "case_delete_word_backward h state count =
     (let (startRow, startCol) =
            word_backward_loop h (lines state) count (cursorRow state, cursorCol state)
      in if startRow \<noteq> cursorRow state \<or> startCol \<noteq> cursorCol state
         then replaceRangeInternal (pushUndo state) startRow startCol
                (cursorRow state) (cursorCol state) []
         else state)"

text \<open>
  The loop of \<open>vim_delete_word_end\<close>: \<open>Suc n\<close> iterations are left, so \<open>i < count - 1\<close>
  is \<open>0 < n\<close>. The state is \<open>((row, col), (endRow, endCol))\<close>.
\<close>

fun delete_word_end_loop ::
  "helpers \<Rightarrow> jsstring list \<Rightarrow> nat \<Rightarrow> (int \<times> int) \<times> (int \<times> int) \<Rightarrow> int \<times> int" where
  "delete_word_end_loop h lns 0 (pos, fin) = fin"
| "delete_word_end_loop h lns (Suc n) ((row, col), fin) =
     (case findNextWordAcrossLines h lns row col False of
        Some (wr, wc) \<Rightarrow>
          (if 0 < n then
             (case findNextWordAcrossLines h lns wr (wc + 1) True of
                Some (nr, nc) \<Rightarrow> delete_word_end_loop h lns n ((nr, nc), (wr, wc + 1))
              | None \<Rightarrow> (wr, wc + 1))
           else delete_word_end_loop h lns n ((row, col), (wr, wc + 1)))
      | None \<Rightarrow> fin)"

definition case_delete_word_end :: "helpers \<Rightarrow> TextBufferState \<Rightarrow> nat \<Rightarrow> TextBufferState" where
  "case_delete_word_end h state count =
     (let cur = (cursorRow state, cursorCol state);
          (endRow, endCol0) = delete_word_end_loop h (lines state) count (cur, cur);
          endCol = (if endRow < int (length (lines state))
                    then min endCol0 (cpLen (lineAt (lines state) endRow)) else endCol0)
      in if endRow \<noteq> cursorRow state \<or> endCol \<noteq> cursorCol state
         then replaceRangeInternal (pushUndo state) (cursorRow state) (cursorCol state)
                endRow endCol []
         else state)"

section \<open>Line operations\<close>

definition case_delete_line :: "TextBufferState \<Rightarrow> nat \<Rightarrow> TextBufferState" where
  "case_delete_line state count =
     (if length (lines state) = 0 then state
      else
        let linesToDelete = min (int count) (int (length (lines state)) - cursorRow state);
            totalLines = int (length (lines state))
        in if totalLines = 1 \<or> linesToDelete \<ge> totalLines
           then (pushUndo state)\<lparr> lines := [[]], cursorRow := 0, cursorCol := 0,
                                   preferredCol := None \<rparr>
           else
             let nextState = pushUndo state;
                 newLines = splice (lines nextState) (cursorRow state) linesToDelete;
                 newCursorRow = min (cursorRow state) (int (length newLines) - 1)
             in nextState\<lparr> lines := newLines, cursorRow := newCursorRow, cursorCol := 0,
                             preferredCol := None \<rparr>)"

text \<open>
  \<open>getLineRangeOffsets\<close> followed by \<open>getPositionFromOffsets\<close> and
  \<open>replaceRangeInternal\<close> with the empty text, as \<open>vim_change_line\<close> and the \<open>j\<close> and
  \<open>k\<close> cases of \<open>vim_change_movement\<close> do.
\<close>

definition replaceLineRange ::
  "helpers \<Rightarrow> TextBufferState \<Rightarrow> int \<Rightarrow> int \<Rightarrow> TextBufferState" where
  "replaceLineRange h nextState row lineCount =
     (let (startOffset, endOffset) = getLineRangeOffsets h row lineCount (lines nextState);
          ((startRow, startCol), (endRow, endCol)) =
            getPositionFromOffsets h startOffset endOffset (lines nextState)
      in replaceRangeInternal nextState startRow startCol endRow endCol [])"

definition case_change_line :: "helpers \<Rightarrow> TextBufferState \<Rightarrow> nat \<Rightarrow> TextBufferState" where
  "case_change_line h state count =
     (if length (lines state) = 0 then state
      else
        let linesToChange = min (int count) (int (length (lines state)) - cursorRow state)
        in replaceLineRange h (pushUndo state) (cursorRow state) linesToChange)"

definition case_delete_to_end_of_line :: "TextBufferState \<Rightarrow> TextBufferState" where
  "case_delete_to_end_of_line state =
     (let currentLine = lineAt (lines state) (cursorRow state)
      in if cursorCol state < cpLen currentLine
         then replaceRangeInternal (pushUndo state) (cursorRow state) (cursorCol state)
                (cursorRow state) (cpLen currentLine) []
         else state)"

definition case_delete_to_line_start :: "TextBufferState \<Rightarrow> TextBufferState" where
  "case_delete_to_line_start state =
     (if cursorCol state > 0
      then (replaceRangeInternal (pushUndo state) (cursorRow state) 0
              (cursorRow state) (cursorCol state) [])\<lparr> cursorCol := 0 \<rparr>
      else state)"

definition case_change_movement ::
  "helpers \<Rightarrow> TextBufferState \<Rightarrow> movement \<Rightarrow> nat \<Rightarrow> TextBufferState" where
  "case_change_movement h state mv count =
     (let totalLines = int (length (lines state)) in
      case mv of
        move_h \<Rightarrow>
          (let startCol = max 0 (cursorCol state - int count)
           in replaceRangeInternal (pushUndo state) (cursorRow state) startCol
                (cursorRow state) (cursorCol state) [])
      | move_j \<Rightarrow>
          (let linesToChange = min (int count) (totalLines - cursorRow state)
           in if linesToChange > 0 then
                (if totalLines = 1 then
                   (let currentLine = lineAt (lines state) 0
                    in replaceRangeInternal (pushUndo state) 0 0 0 (cpLen currentLine) [])
                 else replaceLineRange h (pushUndo state) (cursorRow state) linesToChange)
              else state)
      | move_k \<Rightarrow>
          (let upLines = min (int count) (cursorRow state + 1)
           in if upLines > 0 then
                (if length (lines state) = 1 then
                   (let currentLine = lineAt (lines state) 0
                    in replaceRangeInternal (pushUndo state) 0 0 0 (cpLen currentLine) [])
                 else
                   (let startRow = max 0 (cursorRow state - int count + 1);
                        linesToChange = cursorRow state - startRow + 1
                    in (replaceLineRange h (pushUndo state) startRow linesToChange)
                         \<lparr> cursorRow := startRow, cursorCol := 0 \<rparr>))
              else state)
      | move_l \<Rightarrow>
          replaceRangeInternal (pushUndo state) (cursorRow state) (cursorCol state)
            (cursorRow state)
            (min (cpLen (lineAt (lines state) (cursorRow state))) (cursorCol state + int count))
            [])"

section \<open>Motions\<close>

fun move_left_loop :: "jsstring list \<Rightarrow> nat \<Rightarrow> int \<times> int \<Rightarrow> int \<times> int" where
  "move_left_loop lns 0 (newRow, newCol) = (newRow, newCol)"
| "move_left_loop lns (Suc n) (newRow, newCol) =
     move_left_loop lns n
       (if newCol > 0 then (newRow, newCol - 1)
        else if newRow > 0 then
          (let prevLineLength = cpLen (lineAt lns (newRow - 1))
           in (newRow - 1, if prevLineLength = 0 then 0 else prevLineLength - 1))
        else (newRow, newCol))"

definition case_move_left :: "TextBufferState \<Rightarrow> nat \<Rightarrow> TextBufferState" where
  "case_move_left state count =
     (let (newRow, newCol) = move_left_loop (lines state) count (cursorRow state, cursorCol state)
      in state\<lparr> cursorRow := newRow, cursorCol := newCol, preferredCol := None \<rparr>)"

text \<open>The \<open>while\<close> loop of \<open>vim_move_right\<close> that steps over combining marks.\<close>

function skipCombiningMarks :: "helpers \<Rightarrow> jsstring list \<Rightarrow> int \<Rightarrow> int \<Rightarrow> int" where
  "skipCombiningMarks h currentLinePoints lineLength newCol =
     (if newCol < int (length currentLinePoints)
         \<and> isCombiningMark h (at_index currentLinePoints newCol)
         \<and> newCol < lineLength - 1
      then skipCombiningMarks h currentLinePoints lineLength (newCol + 1)
      else newCol)"
  by pat_completeness auto
termination
  by (relation "measure (\<lambda>(h, pts, lineLength, newCol). nat (lineLength - newCol))") auto

fun move_right_loop :: "helpers \<Rightarrow> jsstring list \<Rightarrow> nat \<Rightarrow> int \<times> int \<Rightarrow> int \<times> int" where
  "move_right_loop h lns 0 (newRow, newCol) = (newRow, newCol)"
| "move_right_loop h lns (Suc n) (newRow, newCol) =
     move_right_loop h lns n
       (let currentLine = lineAt lns newRow;
            lineLength = cpLen currentLine
        in if lineLength = 0 then
             (if newRow < int (length lns) - 1 then (newRow + 1, 0) else (newRow, newCol))
           else if newCol < lineLength - 1 then
             (newRow, skipCombiningMarks h (toCodePoints currentLine) lineLength (newCol + 1))
           else if newRow < int (length lns) - 1 then (newRow + 1, 0)
           else (newRow, newCol))"

definition case_move_right :: "helpers \<Rightarrow> TextBufferState \<Rightarrow> nat \<Rightarrow> TextBufferState" where
  "case_move_right h state count =
     (let (newRow, newCol) =
            move_right_loop h (lines state) count (cursorRow state, cursorCol state)
      in state\<lparr> cursorRow := newRow, cursorCol := newCol, preferredCol := None \<rparr>)"

text \<open>The part that \<open>vim_move_up\<close> and \<open>vim_move_down\<close> share, after \<open>newRow\<close>.\<close>

definition move_vertical :: "TextBufferState \<Rightarrow> int \<Rightarrow> TextBufferState" where
  "move_vertical state newRow =
     (let targetLineLength = cpLen (lineAt (lines state) newRow);
          newPreferredCol = (case preferredCol state of None \<Rightarrow> cursorCol state | Some p \<Rightarrow> p);
          newCol = min newPreferredCol (if targetLineLength > 0 then targetLineLength - 1 else 0)
      in state\<lparr> cursorRow := newRow, cursorCol := newCol,
                 preferredCol := Some newPreferredCol \<rparr>)"

definition case_move_up :: "TextBufferState \<Rightarrow> nat \<Rightarrow> TextBufferState" where
  "case_move_up state count = move_vertical state (max 0 (cursorRow state - int count))"

definition case_move_down :: "TextBufferState \<Rightarrow> nat \<Rightarrow> TextBufferState" where
  "case_move_down state count =
     move_vertical state (min (int (length (lines state)) - 1) (cursorRow state + int count))"

fun word_forward_loop ::
  "helpers \<Rightarrow> jsstring list \<Rightarrow> bool \<Rightarrow> nat \<Rightarrow> int \<times> int \<Rightarrow> int \<times> int" where
  "word_forward_loop h lns wordStart 0 (row, col) = (row, col)"
| "word_forward_loop h lns wordStart (Suc n) (row, col) =
     (case findNextWordAcrossLines h lns row col wordStart of
        Some (r, c) \<Rightarrow> word_forward_loop h lns wordStart n (r, c)
      | None \<Rightarrow> (row, col))"

definition case_move_word_forward :: "helpers \<Rightarrow> TextBufferState \<Rightarrow> nat \<Rightarrow> TextBufferState" where
  "case_move_word_forward h state count =
     (let (row, col) =
            word_forward_loop h (lines state) True count (cursorRow state, cursorCol state)
      in state\<lparr> cursorRow := row, cursorCol := col, preferredCol := None \<rparr>)"

definition case_move_word_backward :: "helpers \<Rightarrow> TextBufferState \<Rightarrow> nat \<Rightarrow> TextBufferState" where
  "case_move_word_backward h state count =
     (let (row, col) =
            word_backward_loop h (lines state) count (cursorRow state, cursorCol state)
      in state\<lparr> cursorRow := row, cursorCol := col, preferredCol := None \<rparr>)"

text \<open>The \<open>while\<close> loop of \<open>isAtEndOfBaseWord\<close>.\<close>

function skipMarksFrom :: "helpers \<Rightarrow> jsstring list \<Rightarrow> int \<Rightarrow> int" where
  "skipMarksFrom h lineCodePoints i =
     (if i < int (length lineCodePoints) \<and> isCombiningMark h (at_index lineCodePoints i)
      then skipMarksFrom h lineCodePoints (i + 1)
      else i)"
  by pat_completeness auto
termination
  by (relation "measure (\<lambda>(h, pts, i). nat (int (length pts) - i))") auto

definition isAtEndOfBaseWord :: "helpers \<Rightarrow> jsstring list \<Rightarrow> int \<Rightarrow> bool" where
  "isAtEndOfBaseWord h lineCodePoints col =
     (if \<not> isWordCharStrict h (at_index lineCodePoints col) then False
      else
        let i = skipMarksFrom h lineCodePoints (col + 1)
        in i \<ge> int (length lineCodePoints) \<or> \<not> isWordCharStrict h (at_index lineCodePoints i))"

text \<open>
  \<open>vim_move_word_end\<close>: the first iteration looks whether the cursor is already on
  the end of a word; when it is and a next word end exists, the iteration ends there
  (\<open>continue\<close>), otherwise it goes on like every later iteration.
\<close>

definition case_move_word_end :: "helpers \<Rightarrow> TextBufferState \<Rightarrow> nat \<Rightarrow> TextBufferState" where
  "case_move_word_end h state count =
     (let lns = lines state; row = cursorRow state; col = cursorCol state;
          (newRow, newCol) =
            (case count of
               0 \<Rightarrow> (row, col)
             | Suc n \<Rightarrow>
                 (let lineCodePoints = toCodePoints (lineAt lns row);
                      atEndOfWord =
                        (col < int (length lineCodePoints)
                         \<and> isWordCharStrict h (at_index lineCodePoints col)
                         \<and> (col + 1 \<ge> int (length lineCodePoints)
                              \<or> \<not> isWordCharWithCombining h (at_index lineCodePoints (col + 1))
                              \<or> (isWordCharStrict h (at_index lineCodePoints col)
                                    \<and> isAtEndOfBaseWord h lineCodePoints col)))
                  in case (if atEndOfWord then findNextWordAcrossLines h lns row (col + 1) False
                           else None) of
                       Some (r, c) \<Rightarrow> word_forward_loop h lns False n (r, c)
                     | None \<Rightarrow> word_forward_loop h lns False (Suc n) (row, col)))
      in state\<lparr> cursorRow := newRow, cursorCol := newCol, preferredCol := None \<rparr>)"

section \<open>Character operations\<close>

text \<open>
  The ordered selection of \<open>vim_delete_char\<close> and \<open>vim_yank_selection\<close>: the anchor
  first when it is strictly before the cursor.
\<close>

definition orderedSelection ::
  "int \<times> int \<Rightarrow> int \<Rightarrow> int \<Rightarrow> (int \<times> int) \<times> (int \<times> int)" where
  "orderedSelection anchor row col =
     (if fst anchor < row \<or> (fst anchor = row \<and> snd anchor < col)
      then ((fst anchor, snd anchor), (row, col))
      else ((row, col), (fst anchor, snd anchor)))"

definition case_delete_char :: "TextBufferState \<Rightarrow> nat \<Rightarrow> TextBufferState" where
  "case_delete_char state count =
     (case selectionAnchor state of
        Some anchor \<Rightarrow>
          (let nextState = pushUndo state;
               ((startRow, startCol), (endRow, endCol)) =
                 orderedSelection anchor (cursorRow state) (cursorCol state)
           in (replaceRangeInternal nextState startRow startCol endRow (endCol + 1) [])
                \<lparr> selectionAnchor := None \<rparr>)
      | None \<Rightarrow>
          (let currentLine = lineAt (lines state) (cursorRow state);
               lineLength = cpLen currentLine
           in if cursorCol state < lineLength then
                (let deleteCount = min (int count) (lineLength - cursorCol state)
                 in replaceRangeInternal (pushUndo state) (cursorRow state) (cursorCol state)
                      (cursorRow state) (cursorCol state + deleteCount) [])
              else state))"

definition case_delete_char_before :: "TextBufferState \<Rightarrow> nat \<Rightarrow> TextBufferState" where
  "case_delete_char_before state count =
     (if cursorCol state > 0 then
        (let deleteCount = min (int count) (cursorCol state);
             startCol = cursorCol state - deleteCount
         in (replaceRangeInternal (pushUndo state) (cursorRow state) startCol
               (cursorRow state) (cursorCol state) [])\<lparr> cursorCol := startCol \<rparr>)
      else state)"

text \<open>
  The loop of \<open>vim_toggle_case\<close> over the columns \<open>i, ..., i + n - 1\<close>; \<open>char\<close> is
  \<open>undefined\<close> for a negative column and \<open>char.toUpperCase()\<close> throws.
\<close>

fun toggle_loop :: "helpers \<Rightarrow> jsstring list \<Rightarrow> int \<Rightarrow> nat \<Rightarrow> error + jsstring" where
  "toggle_loop h lineCodePoints i 0 = Inr []"
| "toggle_loop h lineCodePoints i (Suc n) =
     (case at_index lineCodePoints i of
        None \<Rightarrow> Inl TypeError
      | Some char \<Rightarrow>
          (case toggle_loop h lineCodePoints (i + 1) n of
             Inl e \<Rightarrow> Inl e
           | Inr t \<Rightarrow>
               Inr ((if char = toUpperCase h char then toLowerCase h char
                     else toUpperCase h char) @ t)))"

definition case_toggle_case :: "helpers \<Rightarrow> TextBufferState \<Rightarrow> nat \<Rightarrow> error + TextBufferState" where
  "case_toggle_case h state count =
     (let lineCodePoints = toCodePoints (lineAt (lines state) (cursorRow state))
      in if cursorCol state < int (length lineCodePoints) then
           (let nextState = pushUndo state;
                endCol = min (cursorCol state + int count) (int (length lineCodePoints))
            in case toggle_loop h lineCodePoints (cursorCol state) (nat (endCol - cursorCol state)) of
                 Inl e \<Rightarrow> Inl e
               | Inr newText \<Rightarrow>
                   Inr ((replaceRangeInternal nextState (cursorRow state) (cursorCol state)
                           (cursorRow state) endCol newText)
                          \<lparr> cursorCol := min endCol (int (length lineCodePoints) - 1) \<rparr>))
         else Inr state)"

definition case_append_at_cursor :: "TextBufferState \<Rightarrow> TextBufferState" where
  "case_append_at_cursor state =
     (let currentLine = lineAt (lines state) (cursorRow state);
          newCol = (if cursorCol state < cpLen currentLine then cursorCol state + 1
                    else cursorCol state)
      in state\<lparr> cursorCol := newCol, preferredCol := None \<rparr>)"

definition case_open_line_below :: "TextBufferState \<Rightarrow> TextBufferState" where
  "case_open_line_below state =
     (let endOfLine = cpLen (lineAt (lines state) (cursorRow state))
      in replaceRangeInternal (pushUndo state) (cursorRow state) endOfLine
           (cursorRow state) endOfLine [newline])"

definition case_open_line_above :: "TextBufferState \<Rightarrow> TextBufferState" where
  "case_open_line_above state =
     (replaceRangeInternal (pushUndo state) (cursorRow state) 0 (cursorRow state) 0 [newline])
       \<lparr> cursorRow := cursorRow state, cursorCol := 0 \<rparr>"

definition case_append_at_line_end :: "TextBufferState \<Rightarrow> TextBufferState" where
  "case_append_at_line_end state =
     state\<lparr> cursorCol := cpLen (lineAt (lines state) (cursorRow state)),
            preferredCol := None \<rparr>"

text \<open>The loop that counts the leading white-space code points of a line.\<close>

fun firstNonWhitespace :: "jsstring list \<Rightarrow> int \<Rightarrow> int" where
  "firstNonWhitespace [] col = col"
| "firstNonWhitespace (c # cs) col =
     (if test_whitespace c then firstNonWhitespace cs (col + 1) else col)"

definition case_move_to_first_nonwhitespace :: "TextBufferState \<Rightarrow> TextBufferState" where
  "case_move_to_first_nonwhitespace state =
     state\<lparr> cursorCol := firstNonWhitespace (toCodePoints (lineAt (lines state) (cursorRow state))) 0,
            preferredCol := None \<rparr>"

definition case_move_to_line_end :: "TextBufferState \<Rightarrow> TextBufferState" where
  "case_move_to_line_end state =
     (let lineLength = cpLen (lineAt (lines state) (cursorRow state))
      in state\<lparr> cursorCol := (if lineLength > 0 then lineLength - 1 else 0),
                 preferredCol := None \<rparr>)"

definition case_move_to_line :: "TextBufferState \<Rightarrow> nat \<Rightarrow> TextBufferState" where
  "case_move_to_line state lineNumber =
     (let targetRow = min (max 0 (int lineNumber - 1)) (int (length (lines state)) - 1)
      in state\<lparr> cursorRow := targetRow, cursorCol := 0, preferredCol := None \<rparr>)"

definition case_escape_insert_mode :: "TextBufferState \<Rightarrow> TextBufferState" where
  "case_escape_insert_mode state =
     state\<lparr> cursorCol := (if cursorCol state > 0 then cursorCol state - 1 else 0),
            preferredCol := None \<rparr>"

section \<open>Search\<close>

text \<open>
  The four row loops of the searches: \<open>n\<close> rows from row \<open>i\<close> in steps of \<open>step\<close>;
  \<open>findIdx\<close> is \<open>line.indexOf(query)\<close> or \<open>line.lastIndexOf(query)\<close>, \<open>accept\<close> the
  extra condition of the wrap-around loops. \<open>lines[i]\<close> outside the buffer is
  \<open>undefined\<close> and the method call on it throws.
\<close>

fun scanLines ::
  "jsstring list \<Rightarrow> (jsstring \<Rightarrow> int) \<Rightarrow> (int \<Rightarrow> int \<Rightarrow> bool) \<Rightarrow> int \<Rightarrow> int \<Rightarrow> nat
     \<Rightarrow> error + (int \<times> int) option" where
  "scanLines lns findIdx accept i step 0 = Inr None"
| "scanLines lns findIdx accept i step (Suc n) =
     (case at_index lns i of
        None \<Rightarrow> Inl TypeError
      | Some line \<Rightarrow>
          (let idx = findIdx line
           in if idx \<noteq> -1 \<and> accept i idx then Inr (Some (i, idx))
              else scanLines lns findIdx accept (i + step) step n))"

text \<open>
  The search of \<open>vim_search\<close>, which \<open>vim_search_next\<close> repeats line by line
  (``duplicating for simplicity''): the found position, if any.
\<close>

definition searchFrom ::
  "jsstring list \<Rightarrow> int \<Rightarrow> int \<Rightarrow> jsstring \<Rightarrow> direction \<Rightarrow> error + (int \<times> int) option" where
  "searchFrom lns row col query dir =
     (let currentLine = lineAt lns row in
      case dir of
        forward \<Rightarrow>
          (let idx = indexOf currentLine query (col + 1)
           in if idx \<noteq> -1 then Inr (Some (row, idx))
              else
                (case scanLines lns (\<lambda>line. indexOf line query 0) (\<lambda>i idx. True)
                        (row + 1) 1 (nat (int (length lns) - (row + 1))) of
                   Inl e \<Rightarrow> Inl e
                 | Inr (Some found) \<Rightarrow> Inr (Some found)
                 | Inr None \<Rightarrow>
                     scanLines lns (\<lambda>line. indexOf line query 0)
                       (\<lambda>i idx. i < row \<or> idx < col) 0 1 (nat (row + 1))))
      | backward \<Rightarrow>
          (let idx = lastIndexOf currentLine query (Some (col - 1))
           in if idx \<noteq> -1 then Inr (Some (row, idx))
              else
                (case scanLines lns (\<lambda>line. lastIndexOf line query None) (\<lambda>i idx. True)
                        (row - 1) (-1) (nat row) of
                   Inl e \<Rightarrow> Inl e
                 | Inr (Some found) \<Rightarrow> Inr (Some found)
                 | Inr None \<Rightarrow>
                     scanLines lns (\<lambda>line. lastIndexOf line query None)
                       (\<lambda>i idx. i > row \<or> idx > col) (int (length lns) - 1) (-1)
                       (nat (int (length lns) - row)))))"

definition case_search ::
  "TextBufferState \<Rightarrow> jsstring \<Rightarrow> direction \<Rightarrow> error + TextBufferState" where
  "case_search state query dir =
     (case searchFrom (lines state) (cursorRow state) (cursorCol state) query dir of
        Inl e \<Rightarrow> Inl e
      | Inr (Some (foundRow, foundCol)) \<Rightarrow>
          Inr (state\<lparr> cursorRow := foundRow, cursorCol := foundCol, preferredCol := None,
                     lastSearchQuery := query \<rparr>)
      | Inr None \<Rightarrow> Inr (state\<lparr> lastSearchQuery := query \<rparr>))"

definition case_search_next :: "TextBufferState \<Rightarrow> direction \<Rightarrow> error + TextBufferState" where
  "case_search_next state dir =
     (if lastSearchQuery state = [] then Inr state
      else
        case searchFrom (lines state) (cursorRow state) (cursorCol state)
               (lastSearchQuery state) dir of
          Inl e \<Rightarrow> Inl e
        | Inr (Some (foundRow, foundCol)) \<Rightarrow>
            Inr (state\<lparr> cursorRow := foundRow, cursorCol := foundCol, preferredCol := None \<rparr>)
        | Inr None \<Rightarrow> Inr state)"

section \<open>Yank and paste\<close>

text \<open>The middle lines of a selection: rows \<open>i, ..., i + n - 1\<close>, each with its newline.\<close>

fun middleLines :: "jsstring list \<Rightarrow> int \<Rightarrow> nat \<Rightarrow> jsstring" where
  "middleLines lns i 0 = []"
| "middleLines lns i (Suc n) = lineAt lns i @ [newline] @ middleLines lns (i + 1) n"

definition yankedText :: "jsstring list \<Rightarrow> int \<times> int \<Rightarrow> int \<Rightarrow> int \<Rightarrow> jsstring" where
  "yankedText lns anchor row col =
     (let ((startRow, startCol), (endRow, endCol)) = orderedSelection anchor row col
      in if startRow = endRow then cpSlice (lineAt lns startRow) startCol (Some (endCol + 1))
         else cpSlice (lineAt lns startRow) startCol None @ [newline]
              @ middleLines lns (startRow + 1) (nat (endRow - (startRow + 1)))
              @ cpSlice (lineAt lns endRow) 0 (Some (endCol + 1)))"

definition case_yank_selection :: "TextBufferState \<Rightarrow> TextBufferState" where
  "case_yank_selection state =
     (case selectionAnchor state of
        None \<Rightarrow> state
      | Some anchor \<Rightarrow>
          state\<lparr> clipboard := yankedText (lines state) anchor (cursorRow state) (cursorCol state) \<rparr>)"

definition case_paste :: "TextBufferState \<Rightarrow> paste_direction \<Rightarrow> TextBufferState" where
  "case_paste state dir =
     (if clipboard state = [] then state
      else
        let nextState = pushUndo state;
            row = cursorRow state; col = cursorCol state;
            clip = clipboard state
        in case dir of
             after \<Rightarrow>
               (let currentLine = lineAt (lines state) row
                in if includes_newline clip \<and> endsWith_newline clip then
                     (let endOfLine = cpLen currentLine
                      in replaceRangeInternal nextState row endOfLine row endOfLine
                           (newline # slice clip 0 (Some (-1))))
                   else
                     (let insertCol = min (col + 1) (cpLen currentLine)
                      in replaceRangeInternal nextState row insertCol row insertCol clip))
           | before \<Rightarrow>
               (if includes_newline clip \<and> endsWith_newline clip
                then replaceRangeInternal nextState row 0 row 0 clip
                else replaceRangeInternal nextState row col row col clip))"

definition case_replace_char :: "TextBufferState \<Rightarrow> jsstring \<Rightarrow> TextBufferState" where
  "case_replace_char state char =
     (let currentLine = lineAt (lines state) (cursorRow state)
      in if cursorCol state < cpLen currentLine
         then replaceRangeInternal (pushUndo state) (cursorRow state) (cursorCol state)
                (cursorRow state) (cursorCol state + 1) char
         else state)"

section \<open>Find character, matching pair, inner word\<close>

fun findCharForward :: "jsstring list \<Rightarrow> jsstring \<Rightarrow> int \<Rightarrow> int" where
  "findCharForward [] char i = -1"
| "findCharForward (c # cs) char i = (if c = char then i else findCharForward cs char (i + 1))"

fun findCharBackward :: "jsstring list \<Rightarrow> jsstring \<Rightarrow> nat \<Rightarrow> int" where
  "findCharBackward pts char 0 = -1"
| "findCharBackward pts char (Suc i) =
     (if at_index pts (int i) = Some char then int i else findCharBackward pts char i)"

definition case_find_char ::
  "TextBufferState \<Rightarrow> jsstring \<Rightarrow> direction \<Rightarrow> find_type \<Rightarrow> TextBufferState" where
  "case_find_char state char dir ftype =
     (let currentLine = lineAt (lines state) (cursorRow state);
          lineCodePoints = toCodePoints currentLine;
          newCol =
            (case dir of
               forward \<Rightarrow>
                 (let startSearchCol = cursorCol state + 1
                  in findCharForward (drop (nat startSearchCol) lineCodePoints) char
                       (max startSearchCol 0))
             | backward \<Rightarrow>
                 (let startSearchCol = cursorCol state - 1
                  in findCharBackward lineCodePoints char (nat (startSearchCol + 1))))
      in if newCol \<noteq> -1 then
           (let finalCol0 =
                  (if ftype = exclusive
                   then (if dir = forward then newCol - 1 else newCol + 1)
                   else newCol);
                finalCol = max 0 (min finalCol0 (cpLen currentLine - 1))
            in state\<lparr> cursorCol := finalCol, preferredCol := None \<rparr>)
         else state)"

definition case_move_to_matching_pair :: "TextBufferState \<Rightarrow> TextBufferState" where
  "case_move_to_matching_pair state =
     (case findMatchingPair (lines state) (cursorRow state) (cursorCol state) of
        Some (r, c) \<Rightarrow> state\<lparr> cursorRow := r, cursorCol := c, preferredCol := None \<rparr>
      | None \<Rightarrow> state)"

text \<open>\<open>checkType\<close> of the inner-word cases: same class as the character under the cursor.\<close>

definition checkType :: "helpers \<Rightarrow> bool \<Rightarrow> jsstring option \<Rightarrow> bool" where
  "checkType h isWordChar char =
     (if char = None \<or> char = Some [] then False
      else
        let isW = (isWordCharStrict h char \<or> isWordCharWithCombining h char)
        in if isWordChar then isW else isW = isWordChar)"

function scanBack :: "helpers \<Rightarrow> bool \<Rightarrow> jsstring list \<Rightarrow> int \<Rightarrow> int" where
  "scanBack h isWordChar pts startCol =
     (if startCol > 0 \<and> checkType h isWordChar (at_index pts (startCol - 1))
      then scanBack h isWordChar pts (startCol - 1)
      else startCol)"
  by pat_completeness auto
termination
  by (relation "measure (\<lambda>(h, w, pts, startCol). nat startCol)") auto

function scanAhead :: "helpers \<Rightarrow> bool \<Rightarrow> jsstring list \<Rightarrow> int \<Rightarrow> int" where
  "scanAhead h isWordChar pts endCol =
     (if endCol < int (length pts) - 1 \<and> checkType h isWordChar (at_index pts (endCol + 1))
      then scanAhead h isWordChar pts (endCol + 1)
      else endCol)"
  by pat_completeness auto
termination
  by (relation "measure (\<lambda>(h, w, pts, endCol). nat (int (length pts) - endCol))") auto

datatype inner_word_op = delete_inner | change_inner | yank_inner

definition case_inner_word :: "helpers \<Rightarrow> TextBufferState \<Rightarrow> inner_word_op \<Rightarrow> TextBufferState" where
  "case_inner_word h state opr =
     (let currentLine = lineAt (lines state) (cursorRow state);
          lineCodePoints = toCodePoints currentLine
      in if length lineCodePoints = 0 then state
         else
           let startCol0 = (if cursorCol state \<ge> int (length lineCodePoints)
                            then int (length lineCodePoints) - 1 else cursorCol state);
               charUnderCursor = at_index lineCodePoints startCol0;
               isWordChar = (isWordCharStrict h charUnderCursor
                             \<or> isWordCharWithCombining h charUnderCursor);
               startCol = scanBack h isWordChar lineCodePoints startCol0;
               endCol = scanAhead h isWordChar lineCodePoints (cursorCol state)
           in if opr = yank_inner
              then state\<lparr> clipboard := cpSlice currentLine startCol (Some (endCol + 1)) \<rparr>
              else replaceRangeInternal (pushUndo state) (cursorRow state) startCol
                     (cursorRow state) (endCol + 1) [])"

section \<open>handleVimAction\<close>

definition handleVimAction ::
  "helpers \<Rightarrow> TextBufferState \<Rightarrow> VimAction \<Rightarrow> error + TextBufferState" where
  "handleVimAction h state action =
     (case action of
        vim_delete_word_forward count \<Rightarrow> Inr (case_delete_word_forward h state count)
      | vim_change_word_forward count \<Rightarrow> Inr (case_delete_word_forward h state count)
      | vim_delete_word_backward count \<Rightarrow> Inr (case_delete_word_backward h state count)
      | vim_change_word_backward count \<Rightarrow> Inr (case_delete_word_backward h state count)
      | vim_delete_word_end count \<Rightarrow> Inr (case_delete_word_end h state count)
      | vim_change_word_end count \<Rightarrow> Inr (case_delete_word_end h state count)
      | vim_delete_line count \<Rightarrow> Inr (case_delete_line state count)
      | vim_change_line count \<Rightarrow> Inr (case_change_line h state count)
      | vim_delete_to_end_of_line \<Rightarrow> Inr (case_delete_to_end_of_line state)
      | vim_change_to_end_of_line \<Rightarrow> Inr (case_delete_to_end_of_line state)
      | vim_delete_to_line_start \<Rightarrow> Inr (case_delete_to_line_start state)
      | vim_change_movement mv count \<Rightarrow> Inr (case_change_movement h state mv count)
      | vim_move_left count \<Rightarrow> Inr (case_move_left state count)
      | vim_move_right count \<Rightarrow> Inr (case_move_right h state count)
      | vim_move_up count \<Rightarrow> Inr (case_move_up state count)
      | vim_move_down count \<Rightarrow> Inr (case_move_down state count)
      | vim_move_word_forward count \<Rightarrow> Inr (case_move_word_forward h state count)
      | vim_move_word_backward count \<Rightarrow> Inr (case_move_word_backward h state count)
      | vim_move_word_end count \<Rightarrow> Inr (case_move_word_end h state count)
      | vim_delete_char count \<Rightarrow> Inr (case_delete_char state count)
      | vim_delete_char_before count \<Rightarrow> Inr (case_delete_char_before state count)
      | vim_toggle_case count \<Rightarrow> case_toggle_case h state count
      | vim_insert_at_cursor \<Rightarrow> Inr state
      | vim_append_at_cursor \<Rightarrow> Inr (case_append_at_cursor state)
      | vim_open_line_below \<Rightarrow> Inr (case_open_line_below state)
      | vim_open_line_above \<Rightarrow> Inr (case_open_line_above state)
      | vim_append_at_line_end \<Rightarrow> Inr (case_append_at_line_end state)
      | vim_insert_at_line_start \<Rightarrow> Inr (case_move_to_first_nonwhitespace state)
      | vim_move_to_line_start \<Rightarrow> Inr (state\<lparr> cursorCol := 0, preferredCol := None \<rparr>)
      | vim_move_to_line_end \<Rightarrow> Inr (case_move_to_line_end state)
      | vim_move_to_first_nonwhitespace \<Rightarrow> Inr (case_move_to_first_nonwhitespace state)
      | vim_move_to_first_line \<Rightarrow>
          Inr (state\<lparr> cursorRow := 0, cursorCol := 0, preferredCol := None \<rparr>)
      | vim_move_to_last_line \<Rightarrow>
          Inr (state\<lparr> cursorRow := int (length (lines state)) - 1, cursorCol := 0,
                     preferredCol := None \<rparr>)
      | vim_move_to_line lineNumber \<Rightarrow> Inr (case_move_to_line state lineNumber)
      | vim_escape_insert_mode \<Rightarrow> Inr (case_escape_insert_mode state)
      | vim_set_selection_anchor \<Rightarrow>
          Inr (state\<lparr> selectionAnchor := Some (cursorRow state, cursorCol state) \<rparr>)
      | vim_clear_selection \<Rightarrow> Inr (state\<lparr> selectionAnchor := None \<rparr>)
      | vim_search query dir \<Rightarrow> case_search state query dir
      | vim_search_next dir \<Rightarrow> case_search_next state dir
      | vim_yank txt \<Rightarrow> Inr (state\<lparr> clipboard := txt \<rparr>)
      | vim_yank_selection \<Rightarrow> Inr (case_yank_selection state)
      | vim_paste dir \<Rightarrow> Inr (case_paste state dir)
      | vim_replace_char char \<Rightarrow> Inr (case_replace_char state char)
      | vim_find_char char dir ftype \<Rightarrow> Inr (case_find_char state char dir ftype)
      | vim_move_to_matching_pair \<Rightarrow> Inr (case_move_to_matching_pair state)
      | vim_delete_inner_word count \<Rightarrow> Inr (case_inner_word h state delete_inner)
      | vim_change_inner_word count \<Rightarrow> Inr (case_inner_word h state change_inner)
      | vim_yank_inner_word count \<Rightarrow> Inr (case_inner_word h state yank_inner))"

section \<open>An instance of the helpers for ASCII text\<close>

text \<open>
  Modelled from the spec: an instance of the helpers that \<open>text-buffer.ts\<close> would
  provide, for running the reducer on concrete buffers. Spec 4.A: a word character
  is a letter, a digit or the underscore, a combining mark attaches to the
  character before it; 4.C: word boundaries follow that classification, cross line
  boundaries and stop at the end of the buffer. Offsets count code points of the
  lines joined by newlines. The theorems below hold for every instance.
\<close>

definition isAsciiWordUnit :: "code_unit \<Rightarrow> bool" where
  "isAsciiWordUnit u =
     ((0x30 \<le> u \<and> u \<le> 0x39) \<or> (0x41 \<le> u \<and> u \<le> 0x5A) \<or> (0x61 \<le> u \<and> u \<le> 0x7A)
      \<or> u = 0x5F)"

definition asciiWordChar :: "jsstring option \<Rightarrow> bool" where
  "asciiWordChar c = (case c of Some [u] \<Rightarrow> isAsciiWordUnit u | _ \<Rightarrow> False)"

definition combiningChar :: "jsstring option \<Rightarrow> bool" where
  "combiningChar c = (case c of Some [u] \<Rightarrow> 0x300 \<le> u \<and> u \<le> 0x36F | _ \<Rightarrow> False)"

definition charClass :: "jsstring option \<Rightarrow> nat" where
  "charClass c =
     (case c of
        None \<Rightarrow> 0
      | Some t \<Rightarrow> if test_whitespace t then 0
                  else if asciiWordChar c \<or> combiningChar c then 1 else 2)"

definition wordStartAt :: "jsstring list \<Rightarrow> nat \<Rightarrow> bool" where
  "wordStartAt pts i =
     (charClass (at_index pts (int i)) \<noteq> 0
      \<and> charClass (at_index pts (int i - 1)) \<noteq> charClass (at_index pts (int i)))"

definition wordEndAt :: "jsstring list \<Rightarrow> nat \<Rightarrow> bool" where
  "wordEndAt pts i =
     (charClass (at_index pts (int i)) \<noteq> 0
      \<and> charClass (at_index pts (int i + 1)) \<noteq> charClass (at_index pts (int i)))"

fun nextInRows ::
  "(jsstring list \<Rightarrow> nat \<Rightarrow> bool) \<Rightarrow> jsstring list \<Rightarrow> int \<Rightarrow> (int \<times> int) option" where
  "nextInRows P [] r = None"
| "nextInRows P (l # ls) r =
     (case searchUp (P (toCodePoints l)) 0 (length (toCodePoints l)) of
        Some i \<Rightarrow> Some (r, int i)
      | None \<Rightarrow> nextInRows P ls (r + 1))"

fun prevInRows ::
  "(jsstring list \<Rightarrow> nat \<Rightarrow> bool) \<Rightarrow> jsstring list \<Rightarrow> nat \<Rightarrow> (int \<times> int) option" where
  "prevInRows P lns 0 = None"
| "prevInRows P lns (Suc r) =
     (let pts = toCodePoints (lineAt lns (int r))
      in case searchDown (P pts) (length pts) of
           Some i \<Rightarrow> Some (int r, int i)
         | None \<Rightarrow> prevInRows P lns r)"

definition asciiFindNextWord ::
  "jsstring list \<Rightarrow> int \<Rightarrow> int \<Rightarrow> bool \<Rightarrow> (int \<times> int) option" where
  "asciiFindNextWord lns row col searchForWordStart =
     (let P = (if searchForWordStart then wordStartAt else wordEndAt);
          pts = toCodePoints (lineAt lns row);
          k = nat (if searchForWordStart then col + 1 else col)
      in case searchUp (P pts) k (length pts - k) of
           Some i \<Rightarrow> Some (row, int i)
         | None \<Rightarrow> nextInRows P (drop (nat (row + 1)) lns) (row + 1))"

definition asciiFindPrevWord :: "jsstring list \<Rightarrow> int \<Rightarrow> int \<Rightarrow> (int \<times> int) option" where
  "asciiFindPrevWord lns row col =
     (let pts = toCodePoints (lineAt lns row)
      in case searchDown (wordStartAt pts) (min (nat col) (length pts)) of
           Some i \<Rightarrow> Some (row, int i)
         | None \<Rightarrow> prevInRows wordStartAt lns (nat row))"

definition asciiFindWordEnd :: "jsstring \<Rightarrow> int \<Rightarrow> int option" where
  "asciiFindWordEnd line col =
     (let pts = toCodePoints line
      in map_option int (searchUp (wordEndAt pts) (nat col) (length pts - nat col)))"

definition offsetOfRow :: "jsstring list \<Rightarrow> int \<Rightarrow> int" where
  "offsetOfRow lns row = (\<Sum>l\<leftarrow>take (nat row) lns. cpLen l + 1)"

definition asciiLineRangeOffsets :: "int \<Rightarrow> int \<Rightarrow> jsstring list \<Rightarrow> int \<times> int" where
  "asciiLineRangeOffsets startRow lineCount lns =
     (let startOffset = offsetOfRow lns startRow;
          rows = take (nat lineCount) (drop (nat startRow) lns)
      in (startOffset, startOffset + (\<Sum>l\<leftarrow>rows. cpLen l) + (int (length rows) - 1)))"

fun positionOfOffset :: "jsstring list \<Rightarrow> int \<Rightarrow> int \<Rightarrow> int \<times> int" where
  "positionOfOffset [] row off = (row, off)"
| "positionOfOffset [l] row off = (row, off)"
| "positionOfOffset (l # m # ls) row off =
     (if off \<le> cpLen l then (row, off) else positionOfOffset (m # ls) (row + 1) (off - cpLen l - 1))"

definition asciiPositionFromOffsets ::
  "int \<Rightarrow> int \<Rightarrow> jsstring list \<Rightarrow> (int \<times> int) \<times> (int \<times> int)" where
  "asciiPositionFromOffsets startOffset endOffset lns =
     (positionOfOffset lns 0 startOffset, positionOfOffset lns 0 endOffset)"

definition asciiUpper :: "jsstring \<Rightarrow> jsstring" where
  "asciiUpper c = map (\<lambda>u. if 0x61 \<le> u \<and> u \<le> 0x7A then u - 0x20 else u) c"

definition asciiLower :: "jsstring \<Rightarrow> jsstring" where
  "asciiLower c = map (\<lambda>u. if 0x41 \<le> u \<and> u \<le> 0x5A then u + 0x20 else u) c"

definition asciiHelpers :: helpers where
  "asciiHelpers =
     \<lparr> isWordCharStrict = asciiWordChar,
       isWordCharWithCombining = (\<lambda>c. asciiWordChar c \<or> combiningChar c),
       isCombiningMark = combiningChar,
       findNextWordAcrossLines = asciiFindNextWord,
       findPrevWordAcrossLines = asciiFindPrevWord,
       findWordEndInLine = asciiFindWordEnd,
       getLineRangeOffsets = asciiLineRangeOffsets,
       getPositionFromOffsets = asciiPositionFromOffsets,
       toUpperCase = asciiUpper,
       toLowerCase = asciiLower \<rparr>"

section \<open>Motion actions and sample states\<close>

text \<open>The motion verbs of the reducer (spec 4.C).\<close>

definition isMotion :: "VimAction \<Rightarrow> bool" where
  "isMotion a =
     (case a of
        vim_move_left n \<Rightarrow> True
      | vim_move_right n \<Rightarrow> True
      | vim_move_up n \<Rightarrow> True
      | vim_move_down n \<Rightarrow> True
      | vim_move_word_forward n \<Rightarrow> True
      | vim_move_word_backward n \<Rightarrow> True
      | vim_move_word_end n \<Rightarrow> True
      | vim_move_to_line_start \<Rightarrow> True
      | vim_move_to_line_end \<Rightarrow> True
      | vim_move_to_first_nonwhitespace \<Rightarrow> True
      | vim_move_to_first_line \<Rightarrow> True
      | vim_move_to_last_line \<Rightarrow> True
      | vim_move_to_line n \<Rightarrow> True
      | vim_move_to_matching_pair \<Rightarrow> True
      | vim_find_char c d t \<Rightarrow> True
      | _ \<Rightarrow> False)"

text \<open>The buffer \<open>["a", "b", "c"]\<close> with the cursor on the second line.\<close>

definition abcState :: TextBufferState where
  "abcState = initialState\<lparr> lines := [js ''a'', js ''b'', js ''c''], cursorRow := 1 \<rparr>"

section \<open>The vim input controller (vim.ts)\<close>

datatype VimMode = NORMAL | INSERT | VISUAL | VISUAL_LINE | COMMAND

datatype operator = op_g | op_d | op_c | op_y

datatype chord = ctrl_x

text \<open>\<open>{char, direction, type}\<close> of \<open>pendingFind\<close> and \<open>lastFind\<close>.\<close>

type_synonym find_spec = "jsstring \<times> direction \<times> find_type"

record VimState =
  mode :: VimMode
  commandBuffer :: jsstring
  count :: nat
  pendingOperator :: "operator option"
  pendingChord :: "chord option"
  pendingReplace :: bool
  pendingInner :: bool
  pendingFind :: "find_spec option"
  lastFind :: "find_spec option"
  lastCommand :: "(string \<times> nat) option"

datatype VimStateAction =
    SET_MODE VimMode
  | SET_COMMAND_BUFFER jsstring
  | SET_COUNT nat
  | INCREMENT_COUNT nat
  | CLEAR_COUNT
  | SET_PENDING_OPERATOR "operator option"
  | SET_PENDING_CHORD "chord option"
  | SET_PENDING_REPLACE bool
  | SET_PENDING_INNER bool
  | SET_PENDING_FIND "find_spec option"
  | SET_LAST_FIND "find_spec option"
  | SET_LAST_COMMAND "(string \<times> nat) option"
  | CLEAR_PENDING_STATES
  | ESCAPE_TO_NORMAL

definition initialVimState :: VimState where
  "initialVimState =
     \<lparr> mode = NORMAL, commandBuffer = [], count = 0, pendingOperator = None,
       pendingChord = None, pendingReplace = False, pendingInner = False,
       pendingFind = None, lastFind = None, lastCommand = None \<rparr>"

text \<open>\<open>{...state, ...createClearPendingState()}\<close>\<close>

definition clearPendingState :: "VimState \<Rightarrow> VimState" where
  "clearPendingState st =
     st\<lparr> count := 0, pendingOperator := None, pendingChord := None, pendingReplace := False,
         pendingInner := False, pendingFind := None, lastFind := None \<rparr>"

definition vimReducer :: "VimState \<Rightarrow> VimStateAction \<Rightarrow> VimState" where
  "vimReducer st action =
     (case action of
        SET_MODE m \<Rightarrow> st\<lparr> mode := m \<rparr>
      | SET_COMMAND_BUFFER b \<Rightarrow> st\<lparr> commandBuffer := b \<rparr>
      | SET_COUNT n \<Rightarrow> st\<lparr> count := n \<rparr>
      | INCREMENT_COUNT digit \<Rightarrow> st\<lparr> count := count st * 10 + digit \<rparr>
      | CLEAR_COUNT \<Rightarrow> st\<lparr> count := 0 \<rparr>
      | SET_PENDING_OPERATOR opr \<Rightarrow> st\<lparr> pendingOperator := opr \<rparr>
      | SET_PENDING_CHORD c \<Rightarrow> st\<lparr> pendingChord := c \<rparr>
      | SET_PENDING_REPLACE p \<Rightarrow> st\<lparr> pendingReplace := p \<rparr>
      | SET_PENDING_INNER p \<Rightarrow> st\<lparr> pendingInner := p \<rparr>
      | SET_PENDING_FIND f \<Rightarrow> st\<lparr> pendingFind := f \<rparr>
      | SET_LAST_FIND f \<Rightarrow> st\<lparr> lastFind := f \<rparr>
      | SET_LAST_COMMAND c \<Rightarrow> st\<lparr> lastCommand := c \<rparr>
      | CLEAR_PENDING_STATES \<Rightarrow> clearPendingState st
      | ESCAPE_TO_NORMAL \<Rightarrow> clearPendingState st)"

record Key =
  name :: string
  sequence :: jsstring
  ctrl :: bool
  meta :: bool
  shift :: bool
  paste :: bool
  insertable :: bool

datatype VimModeStyle = vim_editor | bash_vim

text \<open>
  What the hook gets from outside: the imported helpers of the reducer, the
  \<open>handleInput\<close> and \<open>setText\<close> methods of the text buffer (not part of the sources),
  whether an \<open>onSubmit\<close> callback was passed, \<open>vimEnabled\<close> of the vim-mode context and
  the two settings. \<open>vimModeStyle\<close> is \<open>vim-editor\<close> unless the setting says otherwise.
\<close>

record Env =
  helpersOf :: helpers
  bufferHandleInput :: "Key \<Rightarrow> TextBufferState \<Rightarrow> TextBufferState"
  bufferSetText :: "jsstring \<Rightarrow> TextBufferState \<Rightarrow> TextBufferState"
  onSubmitPresent :: bool
  vimEnabled :: bool
  vimModeStyle :: VimModeStyle
  disableVimCommandMode :: bool

text \<open>
  The state that a key event works on: the reducer state of the hook, the state of
  the text buffer, and the calls made to \<open>onSubmit\<close> and to
  \<open>buffer.openInExternalEditor\<close>. The mode of the vim-mode context is the \<open>mode\<close> of
  the reducer state: \<open>updateMode\<close> sets both.
\<close>

record Editor =
  vim :: VimState
  buffer :: TextBufferState
  submitted :: "jsstring list"
  externalEditorOpened :: nat

type_synonym step = "Editor \<Rightarrow> error + Editor"

text \<open>
  Modelled from the spec: the \<open>vim...\<close> methods of the text buffer (\<open>text-buffer.ts\<close>,
  not part of the sources) dispatch the action of the same name to the reducer
  (spec 2: the controller produces actions for the action handler).
\<close>

definition buf :: "helpers \<Rightarrow> VimAction \<Rightarrow> step" where
  "buf h a e =
     (case handleVimAction h (buffer e) a of
        Inl x \<Rightarrow> Inl x
      | Inr b \<Rightarrow> Inr (e\<lparr> buffer := b \<rparr>))"

definition onBuffer :: "(TextBufferState \<Rightarrow> TextBufferState) \<Rightarrow> step" where
  "onBuffer f e = Inr (e\<lparr> buffer := f (buffer e) \<rparr>)"

definition dispatch :: "VimStateAction \<Rightarrow> step" where
  "dispatch a e = Inr (e\<lparr> vim := vimReducer (vim e) a \<rparr>)"

fun run :: "step list \<Rightarrow> step" where
  "run [] e = Inr e"
| "run (f # fs) e = (case f e of Inl x \<Rightarrow> Inl x | Inr e' \<Rightarrow> run fs e')"

text \<open>Run the statements of a branch, then \<open>return b\<close>.\<close>

definition returning :: "bool \<Rightarrow> step list \<Rightarrow> Editor \<Rightarrow> error + bool \<times> Editor" where
  "returning b steps e = (case run steps e of Inl x \<Rightarrow> Inl x | Inr e' \<Rightarrow> Inr (b, e'))"

definition updateMode :: "VimMode \<Rightarrow> step list" where
  "updateMode m =
     dispatch (SET_MODE m) # (if m \<noteq> COMMAND then [dispatch (SET_COMMAND_BUFFER [])] else [])"

text \<open>\<open>state.count || DEFAULT_COUNT\<close>\<close>

definition getCurrentCount :: "VimState \<Rightarrow> nat" where
  "getCurrentCount st = (if count st = 0 then 1 else count st)"

definition executeCommand :: "helpers \<Rightarrow> string \<Rightarrow> nat \<Rightarrow> step list" where
  "executeCommand h cmdType n =
     (if cmdType = ''dw'' then [buf h (vim_delete_word_forward n)]
      else if cmdType = ''db'' then [buf h (vim_delete_word_backward n)]
      else if cmdType = ''de'' then [buf h (vim_delete_word_end n)]
      else if cmdType = ''cw'' then buf h (vim_change_word_forward n) # updateMode INSERT
      else if cmdType = ''cb'' then buf h (vim_change_word_backward n) # updateMode INSERT
      else if cmdType = ''ce'' then buf h (vim_change_word_end n) # updateMode INSERT
      else if cmdType = ''x'' then [buf h (vim_delete_char n)]
      else if cmdType = ''dd'' then [buf h (vim_delete_line n)]
      else if cmdType = ''cc'' then buf h (vim_change_line n) # updateMode INSERT
      else if cmdType = ''ch'' then buf h (vim_change_movement move_h n) # updateMode INSERT
      else if cmdType = ''cj'' then buf h (vim_change_movement move_j n) # updateMode INSERT
      else if cmdType = ''ck'' then buf h (vim_change_movement move_k n) # updateMode INSERT
      else if cmdType = ''cl'' then buf h (vim_change_movement move_l n) # updateMode INSERT
      else if cmdType = ''D'' then [buf h vim_delete_to_end_of_line]
      else if cmdType = ''C'' then buf h vim_change_to_end_of_line # updateMode INSERT
      else [])"

text \<open>\<open>buffer.text\<close>: the lines joined by newlines.\<close>

fun bufferText :: "jsstring list \<Rightarrow> jsstring" where
  "bufferText [] = []"
| "bufferText [l] = l"
| "bufferText (l # m # ls) = l @ [newline] @ bufferText (m # ls)"

definition handleCommandModeInput :: "Env \<Rightarrow> Key \<Rightarrow> Editor \<Rightarrow> error + bool \<times> Editor" where
  "handleCommandModeInput env key e =
     (let cmd = commandBuffer (vim e) in
      if name key = ''escape'' then returning True (updateMode NORMAL) e
      else if name key = ''return'' then
        returning True
          (updateMode NORMAL @
           (if take 1 cmd = js '':'' then []
            else if take 1 cmd = js ''/'' \<or> take 1 cmd = js ''?'' then
              (let query = slice cmd 1 None;
                   dir = (if take 1 cmd = js ''/'' then forward else backward)
               in if query \<noteq> [] then [buf (helpersOf env) (vim_search query dir)] else [])
            else [])) e
      else if name key = ''backspace'' then
        (if length cmd \<le> 1 then returning True (updateMode NORMAL) e
         else returning True [dispatch (SET_COMMAND_BUFFER (slice cmd 0 (Some (-1))))] e)
      else if sequence key \<noteq> [] \<and> length (sequence key) = 1 then
        returning True [dispatch (SET_COMMAND_BUFFER (cmd @ sequence key))] e
      else returning True [] e)"

text \<open>\<open>buffer.text.trim()\<close> is truthy when some code unit is not white space.\<close>

definition trimmedNonEmpty :: "jsstring \<Rightarrow> bool" where
  "trimmedNonEmpty t = list_ex (\<lambda>u. \<not> isWhiteSpaceUnit u) t"

definition handleInsertModeInput :: "Env \<Rightarrow> Key \<Rightarrow> Editor \<Rightarrow> error + bool \<times> Editor" where
  "handleInsertModeInput env key e =
     (let h = helpersOf env; txt = bufferText (lines (buffer e)) in
      if name key = ''escape'' then
        returning True
          (buf h vim_escape_insert_mode # dispatch ESCAPE_TO_NORMAL # updateMode NORMAL) e
      else if ctrl key \<and> name key = ''w'' then
        returning True [buf h (vim_delete_word_backward 1)] e
      else if ctrl key \<and> name key = ''u'' then
        returning True [buf h vim_delete_to_line_start] e
      else if name key = ''tab'' \<or> (name key = ''return'' \<and> \<not> ctrl key) \<or> name key = ''up''
              \<or> name key = ''down'' \<or> (ctrl key \<and> name key = ''r'') then
        returning False [] e
      else if ctrl key \<and> name key = ''v'' then returning False [] e
      else if sequence key = js ''!'' \<and> length txt = 0 then returning False [] e
      else if name key = ''return'' \<and> \<not> ctrl key \<and> \<not> meta key then
        (if trimmedNonEmpty txt \<and> onSubmitPresent env then
           returning True
             [onBuffer (bufferSetText env []),
              (\<lambda>e'. Inr (e'\<lparr> submitted := submitted e' @ [txt] \<rparr>))] e
         else returning True [] e)
      else returning True [onBuffer (bufferHandleInput env key)] e)"

definition cmdTypeOfMovement :: "movement \<Rightarrow> string" where
  "cmdTypeOfMovement mv =
     (case mv of move_h \<Rightarrow> ''ch'' | move_j \<Rightarrow> ''cj'' | move_k \<Rightarrow> ''ck'' | move_l \<Rightarrow> ''cl'')"

definition handleChangeMovement :: "Env \<Rightarrow> movement \<Rightarrow> Editor \<Rightarrow> error + bool \<times> Editor" where
  "handleChangeMovement env mv e =
     (let n = getCurrentCount (vim e)
      in returning True
           (dispatch CLEAR_COUNT # buf (helpersOf env) (vim_change_movement mv n)
            # updateMode INSERT
            @ [dispatch (SET_LAST_COMMAND (Some (cmdTypeOfMovement mv, n))),
               dispatch (SET_PENDING_OPERATOR None)]) e)"

text \<open>\<open>commandMap[operator][motion]\<close>, for the operators \<open>d\<close> and \<open>c\<close> and a motion key.\<close>

definition handleOperatorMotion :: "Env \<Rightarrow> string \<Rightarrow> Editor \<Rightarrow> error + bool \<times> Editor" where
  "handleOperatorMotion env cmdType e =
     (let n = getCurrentCount (vim e)
      in returning True
           (executeCommand (helpersOf env) cmdType n
            @ [dispatch (SET_LAST_COMMAND (Some (cmdType, n))),
               dispatch CLEAR_COUNT,
               dispatch (SET_PENDING_OPERATOR None)]) e)"

text \<open>\<open>DIGIT_1_TO_9.test(sequence)\<close> and \<open>parseInt(sequence, 10)\<close> of a digit.\<close>

definition isDigit1to9 :: "jsstring \<Rightarrow> bool" where
  "isDigit1to9 s = (case s of [u] \<Rightarrow> 0x31 \<le> u \<and> u \<le> 0x39 | _ \<Rightarrow> False)"

definition parseDigit :: "jsstring \<Rightarrow> nat" where
  "parseDigit s = (case s of [u] \<Rightarrow> unat u - 48 | _ \<Rightarrow> 0)"

definition isVisual :: "VimMode \<Rightarrow> bool" where
  "isVisual m = (m = VISUAL \<or> m = VISUAL_LINE)"

text \<open>
  The \<open>default\<close> branch of the key switch: arrow keys by name, else an unknown
  command.
\<close>

definition handleOtherKey :: "Env \<Rightarrow> Key \<Rightarrow> Editor \<Rightarrow> error + bool \<times> Editor" where
  "handleOtherKey env key e =
     (let h = helpersOf env; st = vim e; repeatCount = getCurrentCount st in
      if name key = ''left'' then
        (if pendingOperator st = Some op_c then handleChangeMovement env move_h e
         else returning True [buf h (vim_move_left repeatCount), dispatch CLEAR_COUNT] e)
      else if name key = ''down'' then
        (if pendingOperator st = Some op_c then handleChangeMovement env move_j e
         else returning True [buf h (vim_move_down repeatCount), dispatch CLEAR_COUNT] e)
      else if name key = ''up'' then
        (if pendingOperator st = Some op_c then handleChangeMovement env move_k e
         else returning True [buf h (vim_move_up repeatCount), dispatch CLEAR_COUNT] e)
      else if name key = ''right'' then
        (if pendingOperator st = Some op_c then handleChangeMovement env move_l e
         else returning True [buf h (vim_move_right repeatCount), dispatch CLEAR_COUNT] e)
      else returning True [dispatch CLEAR_PENDING_STATES] e)"

text \<open>The \<open>switch (normalizedKey.sequence)\<close> of NORMAL and the visual modes.\<close>

definition handleCommandKey :: "Env \<Rightarrow> Key \<Rightarrow> Editor \<Rightarrow> error + bool \<times> Editor" where
  "handleCommandKey env key e =
     (let h = helpersOf env; st = vim e; sq = sequence key;
          repeatCount = getCurrentCount st;
          passToHistory = (vimModeStyle env = bash_vim \<and> mode st = NORMAL
                           \<and> pendingOperator st = None)
      in
      if sq = js ''v'' then
        returning True
          ((if mode st = NORMAL then updateMode VISUAL @ [buf h vim_set_selection_anchor]
            else if mode st = VISUAL then updateMode NORMAL @ [buf h vim_clear_selection]
            else if mode st = VISUAL_LINE then updateMode VISUAL
            else [])
           @ [dispatch CLEAR_COUNT]) e
      else if sq = js ''V'' then
        returning True
          ((if mode st = NORMAL then updateMode VISUAL_LINE @ [buf h vim_set_selection_anchor]
            else if mode st = VISUAL_LINE then updateMode NORMAL @ [buf h vim_clear_selection]
            else if mode st = VISUAL then updateMode VISUAL_LINE
            else [])
           @ [dispatch CLEAR_COUNT]) e
      else if sq = js ''h'' then
        (if pendingOperator st = Some op_c then handleChangeMovement env move_h e
         else returning True [buf h (vim_move_left repeatCount), dispatch CLEAR_COUNT] e)
      else if sq = js ''j'' then
        (if passToHistory then returning False [] e
         else if pendingOperator st = Some op_c then handleChangeMovement env move_j e
         else returning True [buf h (vim_move_down repeatCount), dispatch CLEAR_COUNT] e)
      else if sq = js ''k'' then
        (if passToHistory then returning False [] e
         else if pendingOperator st = Some op_c then handleChangeMovement env move_k e
         else returning True [buf h (vim_move_up repeatCount), dispatch CLEAR_COUNT] e)
      else if sq = js ''l'' then
        (if pendingOperator st = Some op_c then handleChangeMovement env move_l e
         else returning True [buf h (vim_move_right repeatCount), dispatch CLEAR_COUNT] e)
      else if sq = js ''w'' then
        (if pendingInner st \<and> pendingOperator st = Some op_d then
           returning True [buf h (vim_delete_inner_word repeatCount),
                           dispatch CLEAR_PENDING_STATES, dispatch CLEAR_COUNT] e
         else if pendingInner st \<and> pendingOperator st = Some op_c then
           returning True (buf h (vim_change_inner_word repeatCount) # updateMode INSERT
                           @ [dispatch CLEAR_PENDING_STATES, dispatch CLEAR_COUNT]) e
         else if pendingInner st \<and> pendingOperator st = Some op_y then
           returning True [buf h (vim_yank_inner_word repeatCount),
                           dispatch CLEAR_PENDING_STATES, dispatch CLEAR_COUNT] e
         else if pendingOperator st = Some op_d then handleOperatorMotion env ''dw'' e
         else if pendingOperator st = Some op_c then handleOperatorMotion env ''cw'' e
         else returning True [buf h (vim_move_word_forward repeatCount), dispatch CLEAR_COUNT] e)
      else if sq = js ''b'' then
        (if pendingOperator st = Some op_d then handleOperatorMotion env ''db'' e
         else if pendingOperator st = Some op_c then handleOperatorMotion env ''cb'' e
         else returning True [buf h (vim_move_word_backward repeatCount), dispatch CLEAR_COUNT] e)
      else if sq = js ''e'' then
        (if pendingOperator st = Some op_d then handleOperatorMotion env ''de'' e
         else if pendingOperator st = Some op_c then handleOperatorMotion env ''ce'' e
         else returning True [buf h (vim_move_word_end repeatCount), dispatch CLEAR_COUNT] e)
      else if sq = js ''X'' then
        returning True [buf h (vim_delete_char_before repeatCount), dispatch CLEAR_COUNT] e
      else if sq = js ''x'' then
        (if isVisual (mode st) then
           returning True ([buf h vim_yank_selection, buf h (vim_delete_char 1)]
                           @ updateMode NORMAL @ [dispatch CLEAR_COUNT]) e
         else
           returning True [buf h (vim_delete_char repeatCount),
                           dispatch (SET_LAST_COMMAND (Some (''x'', repeatCount))),
                           dispatch CLEAR_COUNT] e)
      else if sq = js ''~'' then
        returning True [buf h (vim_toggle_case repeatCount), dispatch CLEAR_COUNT] e
      else if sq = js ''i'' then
        (if pendingOperator st \<noteq> None then returning True [dispatch (SET_PENDING_INNER True)] e
         else returning True (buf h vim_insert_at_cursor # updateMode INSERT
                              @ [dispatch CLEAR_COUNT]) e)
      else if sq = js ''a'' then
        returning True (buf h vim_append_at_cursor # updateMode INSERT @ [dispatch CLEAR_COUNT]) e
      else if sq = js ''o'' then
        returning True (buf h vim_open_line_below # updateMode INSERT @ [dispatch CLEAR_COUNT]) e
      else if sq = js ''O'' then
        returning True (buf h vim_open_line_above # updateMode INSERT @ [dispatch CLEAR_COUNT]) e
      else if sq = js ''0'' \<or> sq = js ''|'' then
        returning True [buf h vim_move_to_line_start, dispatch CLEAR_COUNT] e
      else if sq = js ''$'' then
        returning True [buf h vim_move_to_line_end, dispatch CLEAR_COUNT] e
      else if sq = js ''^'' then
        returning True [buf h vim_move_to_first_nonwhitespace, dispatch CLEAR_COUNT] e
      else if sq = js ''%'' then
        returning True [buf h vim_move_to_matching_pair, dispatch CLEAR_COUNT] e
      else if sq = js ''g'' then
        returning True
          ((if pendingOperator st = Some op_g
            then [buf h vim_move_to_first_line, dispatch (SET_PENDING_OPERATOR None)]
            else [dispatch (SET_PENDING_OPERATOR (Some op_g))])
           @ [dispatch CLEAR_COUNT]) e
      else if sq = js ''G'' then
        (if passToHistory then returning False [] e
         else returning True
                [if count st > 0 then buf h (vim_move_to_line (count st))
                 else buf h vim_move_to_last_line,
                 dispatch CLEAR_COUNT] e)
      else if sq = js ''I'' then
        returning True (buf h vim_insert_at_line_start # updateMode INSERT
                        @ [dispatch CLEAR_COUNT]) e
      else if sq = js ''A'' then
        returning True (buf h vim_append_at_line_end # updateMode INSERT
                        @ [dispatch CLEAR_COUNT]) e
      else if sq = js ''n'' then
        returning True [buf h (vim_search_next forward), dispatch CLEAR_COUNT] e
      else if sq = js ''N'' then
        returning True [buf h (vim_search_next backward), dispatch CLEAR_COUNT] e
      else if sq = js ''d'' then
        (if isVisual (mode st) then
           returning True ([buf h vim_yank_selection, buf h (vim_delete_char 1)]
                           @ updateMode NORMAL @ [dispatch CLEAR_COUNT]) e
         else if pendingOperator st = Some op_d then
           returning True
             (executeCommand h ''dd'' repeatCount
              @ [dispatch (SET_LAST_COMMAND (Some (''dd'', repeatCount))),
                 dispatch CLEAR_COUNT, dispatch (SET_PENDING_OPERATOR None)]) e
         else returning True [dispatch (SET_PENDING_OPERATOR (Some op_d))] e)
      else if sq = js ''c'' then
        (if isVisual (mode st) then
           returning True ([buf h vim_yank_selection, buf h (vim_delete_char 1)]
                           @ updateMode INSERT @ [dispatch CLEAR_COUNT]) e
         else if pendingOperator st = Some op_c then
           returning True
             (executeCommand h ''cc'' repeatCount
              @ [dispatch (SET_LAST_COMMAND (Some (''cc'', repeatCount))),
                 dispatch CLEAR_COUNT, dispatch (SET_PENDING_OPERATOR None)]) e
         else returning True [dispatch (SET_PENDING_OPERATOR (Some op_c))] e)
      else if sq = js ''D'' then
        returning True
          (executeCommand h ''D'' 1
           @ [dispatch (SET_LAST_COMMAND (Some (''D'', 1))), dispatch CLEAR_COUNT]) e
      else if sq = js ''C'' then
        returning True
          (executeCommand h ''C'' 1
           @ [dispatch (SET_LAST_COMMAND (Some (''C'', 1))), dispatch CLEAR_COUNT]) e
      else if sq = js ''y'' then
        (if isVisual (mode st) then
           returning True (buf h vim_yank_selection # updateMode NORMAL
                           @ [buf h vim_clear_selection, dispatch CLEAR_COUNT]) e
         else if pendingOperator st = Some op_y then
           (let currentLine = lineAt (lines (buffer e)) (cursorRow (buffer e))
            in returning True [buf h (vim_yank (currentLine @ [newline])),
                               dispatch CLEAR_COUNT, dispatch (SET_PENDING_OPERATOR None)] e)
         else returning True [dispatch (SET_PENDING_OPERATOR (Some op_y))] e)
      else if sq = js ''p'' then
        returning True [buf h (vim_paste after), dispatch CLEAR_COUNT] e
      else if sq = js ''P'' then
        returning True [buf h (vim_paste before), dispatch CLEAR_COUNT] e
      else if sq = js ''u'' then
        returning True [onBuffer undo, dispatch CLEAR_COUNT] e
      else if sq = js ''r'' then
        returning True [dispatch (SET_PENDING_REPLACE True), dispatch CLEAR_COUNT] e
      else if sq = js ''f'' \<or> sq = js ''F'' \<or> sq = js ''t'' \<or> sq = js ''T'' then
        (let findDirection = (if sq = js ''f'' \<or> sq = js ''t'' then forward else backward);
             findType = (if sq = js ''f'' \<or> sq = js ''F'' then inclusive else exclusive)
         in returning True [dispatch (SET_PENDING_FIND (Some ([], findDirection, findType))),
                            dispatch CLEAR_COUNT] e)
      else if sq = js '';'' then
        (case lastFind st of
           Some (c, dir, ftype) \<Rightarrow>
             returning True [buf h (vim_find_char c dir ftype), dispatch CLEAR_COUNT] e
         | None \<Rightarrow> returning False [] e)
      else if sq = js '','' then
        (case lastFind st of
           Some (c, dir, ftype) \<Rightarrow>
             returning True [buf h (vim_find_char c (if dir = forward then backward else forward)
                                      ftype),
                             dispatch CLEAR_COUNT] e
         | None \<Rightarrow> returning False [] e)
      else if sq = js ''.'' then
        returning True
          ((case lastCommand st of
              Some (cmdType, n) \<Rightarrow> executeCommand h cmdType n
            | None \<Rightarrow> [])
           @ [dispatch CLEAR_COUNT]) e
      else handleOtherKey env key e)"

text \<open>The branch of \<open>handleInput\<close> for NORMAL, VISUAL and VISUAL_LINE.\<close>

definition handleNormalModeInput :: "Env \<Rightarrow> Key \<Rightarrow> Editor \<Rightarrow> error + bool \<times> Editor" where
  "handleNormalModeInput env key e =
     (let st = vim e; sq = sequence key in
      if name key = ''escape'' then
        (if isVisual (mode st) then
           returning True (updateMode NORMAL
                           @ [buf (helpersOf env) vim_clear_selection,
                              dispatch CLEAR_PENDING_STATES]) e
         else if pendingOperator st \<noteq> None then
           returning True [dispatch CLEAR_PENDING_STATES] e
         else returning False [] e)
      else if mode st = NORMAL \<and> (sq = js '':'' \<or> sq = js ''/'' \<or> sq = js ''?'') then
        (if vimModeStyle env = bash_vim \<and> (sq = js ''/'' \<or> sq = js ''?'') then
           returning False [] e
         else if disableVimCommandMode env then
           returning True (updateMode INSERT @ [onBuffer (bufferHandleInput env key)]) e
         else returning True (updateMode COMMAND @ [dispatch (SET_COMMAND_BUFFER sq)]) e)
      else if isDigit1to9 sq \<or> (sq = js ''0'' \<and> count st > 0) then
        returning True [dispatch (INCREMENT_COUNT (parseDigit sq))] e
      else handleCommandKey env key e)"

text \<open>
  \<open>handleInput\<close>. \<open>normalizeKey\<close> fills in the fields a key lacks; a \<open>Key\<close> here has
  them all.
\<close>

definition handleInput :: "Env \<Rightarrow> Key \<Rightarrow> Editor \<Rightarrow> error + bool \<times> Editor" where
  "handleInput env key e =
     (let st = vim e; h = helpersOf env in
      if \<not> vimEnabled env then returning False [] e
      else if pendingReplace st then
        returning True [buf h (vim_replace_char (sequence key)),
                        dispatch (SET_PENDING_REPLACE False),
                        dispatch CLEAR_COUNT,
                        dispatch (SET_LAST_COMMAND (Some (''r'', 1)))] e
      else
        case pendingFind st of
          Some (c, dir, ftype) \<Rightarrow>
            returning True [buf h (vim_find_char (sequence key) dir ftype),
                            dispatch (SET_PENDING_FIND None),
                            dispatch (SET_LAST_FIND (Some (sequence key, dir, ftype))),
                            dispatch CLEAR_COUNT] e
        | None \<Rightarrow>
            if pendingChord st = Some ctrl_x then
              (if ctrl key \<and> name key = ''e'' then
                 returning True
                   [(\<lambda>e'. Inr (e'\<lparr> externalEditorOpened := Suc (externalEditorOpened e') \<rparr>)),
                    dispatch CLEAR_PENDING_STATES] e
               else returning True [dispatch CLEAR_PENDING_STATES] e)
            else if ctrl key \<and> name key = ''x'' then
              returning True [dispatch (SET_PENDING_CHORD (Some ctrl_x))] e
            else if mode st = INSERT then handleInsertModeInput env key e
            else if mode st = COMMAND then handleCommandModeInput env key e
            else handleNormalModeInput env key e)"

text \<open>A run of keys; a key that throws ends it.\<close>

fun handleKeys :: "Env \<Rightarrow> Key list \<Rightarrow> Editor \<Rightarrow> error + Editor" where
  "handleKeys env [] e = Inr e"
| "handleKeys env (key # keys) e =
     (case handleInput env key e of
        Inl x \<Rightarrow> Inl x
      | Inr (handled, e') \<Rightarrow> handleKeys env keys e')"

text \<open>A printable key without modifiers, as the key parser reports a typed character.\<close>

definition charKey :: "string \<Rightarrow> Key" where
  "charKey c = \<lparr> name = c, sequence = js c, ctrl = False, meta = False, shift = False,
                paste = False, insertable = True \<rparr>"

text \<open>
  Modelled from the spec: an instance of the text-insert path and of \<open>setText\<close> of the
  buffer (4.D: the controller forwards input to the buffer's primitive text-insert
  path), with the default settings: an insertable key inserts its sequence at the
  cursor, \<open>setText\<close> replaces the text and puts the cursor at its end.
\<close>

definition insertKey :: "Key \<Rightarrow> TextBufferState \<Rightarrow> TextBufferState" where
  "insertKey key b =
     (if insertable key
      then replaceRangeInternal (pushUndo b) (cursorRow b) (cursorCol b) (cursorRow b)
             (cursorCol b) (sequence key)
      else b)"

definition setTextOf :: "jsstring \<Rightarrow> TextBufferState \<Rightarrow> TextBufferState" where
  "setTextOf t b =
     (let b' = pushUndo b
      in b'\<lparr> lines := split_newline t,
             cursorRow := int (length (split_newline t)) - 1,
             cursorCol := cpLen (last (split_newline t)),
             preferredCol := None \<rparr>)"

definition defaultEnv :: Env where
  "defaultEnv =
     \<lparr> helpersOf = asciiHelpers, bufferHandleInput = insertKey, bufferSetText = setTextOf,
       onSubmitPresent = True, vimEnabled = True, vimModeStyle = vim_editor,
       disableVimCommandMode = False \<rparr>"

definition editorWith :: "jsstring list \<Rightarrow> Editor" where
  "editorWith lns =
     \<lparr> vim = initialVimState, buffer = initialState\<lparr> lines := lns \<rparr>, submitted = [],
       externalEditorOpened = 0 \<rparr>"

text \<open>
  \<open>["foo", "bar"]\<close> in NORMAL mode with the cursor at \<open>(1,0)\<close> and the first line,
  yanked linewise, in the clipboard.
\<close>

definition yankedSample :: Editor where
  "yankedSample =
     \<lparr> vim = initialVimState,
       buffer = initialState\<lparr> lines := [js ''foo'', js ''bar''], cursorRow := 1,
                               clipboard := js ''foo'' @ [newline] \<rparr>,
       submitted = [], externalEditorOpened = 0 \<rparr>"

text \<open>
  A visual selection: \<open>["hello"]\<close> in VISUAL mode with the anchor at \<open>(0,0)\<close> and the
  cursor at \<open>(0,2)\<close>, as the keys \<open>v\<close>, \<open>l\<close>, \<open>l\<close> leave it.
\<close>

definition visualSample :: Editor where
  "visualSample =
     \<lparr> vim = initialVimState\<lparr> mode := VISUAL \<rparr>,
       buffer = initialState\<lparr> lines := [js ''hello''], cursorCol := 2,
                               selectionAnchor := Some (0, 0) \<rparr>,
       submitted = [], externalEditorOpened = 0 \<rparr>"

section \<open>Input history (useInputHistory.ts)\<close>

text \<open>
  The state of the hook, its props at a call, and the calls it makes: the setter
  \<open>setOriginalQueryBeforeNav\<close> and the callbacks \<open>onChange\<close> and \<open>onSubmit\<close>.
  \<open>userMessages[i]\<close> is \<open>undefined\<close> (\<open>None\<close>) outside the array.
\<close>

record HistoryState =
  historyIndex :: int
  originalQueryBeforeNav :: jsstring

record HistoryProps =
  userMessages :: "jsstring list"
  isActive :: bool
  currentQuery :: jsstring

datatype history_event =
    SetOriginalQueryBeforeNav jsstring
  | OnChange "jsstring option"
  | OnSubmit jsstring

definition initialHistory :: HistoryState where
  "initialHistory = \<lparr> historyIndex = -1, originalQueryBeforeNav = [] \<rparr>"

definition messageAt :: "HistoryProps \<Rightarrow> int \<Rightarrow> jsstring option" where
  "messageAt p i = at_index (userMessages p) (int (length (userMessages p)) - 1 - i)"

definition navigateUp :: "HistoryProps \<Rightarrow> HistoryState \<Rightarrow> bool \<times> HistoryState \<times> history_event list" where
  "navigateUp p s =
     (if \<not> isActive p then (False, s, [])
      else if length (userMessages p) = 0 then (False, s, [])
      else
        let enter = (historyIndex s = -1);
            older = (historyIndex s < int (length (userMessages p)) - 1)
        in if \<not> enter \<and> \<not> older then (False, s, [])
           else
             let nextIndex = (if enter then 0 else historyIndex s + 1);
                 s1 = (if enter then s\<lparr> originalQueryBeforeNav := currentQuery p \<rparr> else s);
                 ev1 = (if enter then [SetOriginalQueryBeforeNav (currentQuery p)] else [])
             in if nextIndex \<noteq> historyIndex s
                then (True, s1\<lparr> historyIndex := nextIndex \<rparr>,
                      ev1 @ [OnChange (messageAt p nextIndex)])
                else (False, s1, ev1))"

definition navigateDown :: "HistoryProps \<Rightarrow> HistoryState \<Rightarrow> bool \<times> HistoryState \<times> history_event list" where
  "navigateDown p s =
     (if \<not> isActive p then (False, s, [])
      else if historyIndex s = -1 then (False, s, [])
      else
        let nextIndex = historyIndex s - 1
        in (True, s\<lparr> historyIndex := nextIndex \<rparr>,
            [if nextIndex = -1 then OnChange (Some (originalQueryBeforeNav s))
             else OnChange (messageAt p nextIndex)]))"

definition goToIndex :: "HistoryProps \<Rightarrow> int \<Rightarrow> HistoryState \<Rightarrow> bool \<times> HistoryState \<times> history_event list" where
  "goToIndex p i s =
     (if \<not> isActive p then (False, s, [])
      else if length (userMessages p) = 0 \<and> i \<noteq> -1 then (False, s, [])
      else
        let targetIndex = max (-1) (min i (int (length (userMessages p)) - 1));
            capture = (historyIndex s = -1 \<and> targetIndex \<noteq> -1);
            s1 = (if capture then s\<lparr> originalQueryBeforeNav := currentQuery p \<rparr> else s);
            ev1 = (if capture then [SetOriginalQueryBeforeNav (currentQuery p)] else [])
        in (True, s1\<lparr> historyIndex := targetIndex \<rparr>,
            ev1 @ [if targetIndex = -1 then OnChange (Some (originalQueryBeforeNav s))
                   else OnChange (messageAt p targetIndex)]))"

text \<open>\<open>value.trim()\<close>: without the white space at both ends.\<close>

definition trim :: "jsstring \<Rightarrow> jsstring" where
  "trim t = rev (dropWhile isWhiteSpaceUnit (rev (dropWhile isWhiteSpaceUnit t)))"

definition handleSubmit :: "jsstring \<Rightarrow> HistoryState \<Rightarrow> HistoryState \<times> history_event list" where
  "handleSubmit v s =
     (s\<lparr> historyIndex := -1, originalQueryBeforeNav := [] \<rparr>,
      if trim v \<noteq> [] then [OnSubmit (trim v)] else [])"

text \<open>
  A run of navigation calls, each with the \<open>currentQuery\<close> prop that the parent
  passes at that call; the messages and \<open>isActive\<close> stay the same.
\<close>

datatype nav = Up | Down

fun navigate ::
  "jsstring list \<Rightarrow> bool \<Rightarrow> (nav \<times> jsstring) list \<Rightarrow> HistoryState \<Rightarrow> HistoryState \<times> history_event list" where
  "navigate msgs active [] s = (s, [])"
| "navigate msgs active ((n, q) # calls) s =
     (let p = \<lparr> userMessages = msgs, isActive = active, currentQuery = q \<rparr>;
          (handled, s1, ev1) = (case n of Up \<Rightarrow> navigateUp p s | Down \<Rightarrow> navigateDown p s);
          (s2, ev2) = navigate msgs active calls s1
      in (s2, ev1 @ ev2))"

text \<open>The message that index \<open>j\<close> of the history shows: \<open>j = 0\<close> is the most recent.\<close>

definition shown :: "jsstring list \<Rightarrow> nat \<Rightarrow> history_event" where
  "shown msgs j = OnChange (Some (rev msgs ! j))"

definition isSnapshot :: "history_event \<Rightarrow> bool" where
  "isSnapshot ev = (case ev of SetOriginalQueryBeforeNav q \<Rightarrow> True | _ \<Rightarrow> False)"

text \<open>The history of the spec's scenario 6.\<close>

definition sampleMessages :: "jsstring list" where
  "sampleMessages = [js ''one'', js ''two'', js ''three'']"

section \<open>Waiting for a confirmation (scheduler/confirmation.ts)\<close>

text \<open>
  The members of \<open>ToolConfirmationOutcome\<close> that the sources name; the enum itself
  (\<open>tools/tools.ts\<close>) is not part of them.
\<close>

datatype ToolConfirmationOutcome = ProceedOnce | ProceedAlways | ModifyWithEditor | Cancel

record 'p ToolConfirmationResponse =
  correlationId :: string
  confirmed :: bool
  outcome :: "ToolConfirmationOutcome option"
  payload :: "'p option"

text \<open>\<open>ConfirmationResult\<close>: the outcome and the optional payload.\<close>

type_synonym 'p ConfirmationResult = "ToolConfirmationOutcome \<times> 'p option"

datatype confirmation_error = OperationCancelled | SubscribeError

datatype 'a promise = Pending | Resolved 'a | Rejected confirmation_error

text \<open>
  The promise that \<open>awaitConfirmation\<close> returns, and whether its two listeners are
  registered: \<open>onResponse\<close> on the message bus, \<open>onAbort\<close> on the abort signal.
\<close>

record 'p Waiter =
  result :: "'p ConfirmationResult promise"
  onResponseSubscribed :: bool
  onAbortListening :: bool

text \<open>\<open>resolve\<close> and \<open>reject\<close> settle a promise once; later calls do nothing.\<close>

definition resolve :: "'p ConfirmationResult \<Rightarrow> 'p Waiter \<Rightarrow> 'p Waiter" where
  "resolve v w = (if result w = Pending then w\<lparr> result := Resolved v \<rparr> else w)"

definition reject :: "confirmation_error \<Rightarrow> 'p Waiter \<Rightarrow> 'p Waiter" where
  "reject err w = (if result w = Pending then w\<lparr> result := Rejected err \<rparr> else w)"

definition cleanup :: "'p Waiter \<Rightarrow> 'p Waiter" where
  "cleanup w = w\<lparr> onResponseSubscribed := False, onAbortListening := False \<rparr>"

definition onAbort :: "'p Waiter \<Rightarrow> 'p Waiter" where
  "onAbort w = reject OperationCancelled (cleanup w)"

text \<open>\<open>msg.outcome ?? (msg.confirmed ? ProceedOnce : Cancel)\<close>\<close>

definition outcomeOf :: "'p ToolConfirmationResponse \<Rightarrow> ToolConfirmationOutcome" where
  "outcomeOf msg =
     (case outcome msg of
        Some oc \<Rightarrow> oc
      | None \<Rightarrow> if confirmed msg then ProceedOnce else Cancel)"

definition onResponse :: "string \<Rightarrow> 'p ToolConfirmationResponse \<Rightarrow> 'p Waiter \<Rightarrow> 'p Waiter" where
  "onResponse cid msg w =
     (if correlationId msg = cid then resolve (outcomeOf msg, payload msg) (cleanup w) else w)"

text \<open>
  \<open>awaitConfirmation\<close> up to the point where it returns its promise. \<open>aborted\<close> is
  \<open>signal.aborted\<close> on entry; \<open>subscribeThrows\<close> says whether \<open>messageBus.subscribe\<close>
  throws.
\<close>

definition awaitConfirmation :: "bool \<Rightarrow> bool \<Rightarrow> 'p Waiter" where
  "awaitConfirmation aborted subscribeThrows =
     (if aborted
      then \<lparr> result = Rejected OperationCancelled, onResponseSubscribed = False,
             onAbortListening = False \<rparr>
      else if subscribeThrows
      then reject SubscribeError
             (cleanup \<lparr> result = Pending, onResponseSubscribed = False,
                        onAbortListening = False \<rparr>)
      else \<lparr> result = Pending, onResponseSubscribed = True, onAbortListening = True \<rparr>)"

text \<open>
  Modelled from the spec: the message bus and the abort signal are not part of the
  sources. Spec 5: the waiter registers a listener on the bus; the token fires;
  after unsubscribing, responses no longer reach the waiter. One thing happens at
  a time: a response published on the bus is passed to \<open>onResponse\<close> while it is
  subscribed, the signal's abort event to \<open>onAbort\<close> while it is listening.
\<close>

datatype 'p bus_event = Response "'p ToolConfirmationResponse" | Abort

definition deliver :: "string \<Rightarrow> 'p bus_event \<Rightarrow> 'p Waiter \<Rightarrow> 'p Waiter" where
  "deliver cid ev w =
     (case ev of
        Response msg \<Rightarrow> if onResponseSubscribed w then onResponse cid msg w else w
      | Abort \<Rightarrow> if onAbortListening w then onAbort w else w)"

fun deliverAll :: "string \<Rightarrow> 'p bus_event list \<Rightarrow> 'p Waiter \<Rightarrow> 'p Waiter" where
  "deliverAll cid [] w = w"
| "deliverAll cid (ev # evs) w = deliverAll cid evs (deliver cid ev w)"

text \<open>The events that concern a waiter: the abort, and a response with its id.\<close>

definition concerns :: "string \<Rightarrow> 'p bus_event \<Rightarrow> bool" where
  "concerns cid ev = (case ev of Response msg \<Rightarrow> correlationId msg = cid | Abort \<Rightarrow> True)"

text \<open>
  The responses of \<open>confirmation.test.ts\<close> for the id \<open>''id-1''\<close>: confirmed without an
  outcome, not confirmed, an explicit outcome, and an outcome with a payload.
\<close>

definition confirmedResponse :: "string ToolConfirmationResponse" where
  "confirmedResponse = \<lparr> correlationId = ''id-1'', confirmed = True, outcome = None,
                         payload = None \<rparr>"

definition deniedResponse :: "string ToolConfirmationResponse" where
  "deniedResponse = \<lparr> correlationId = ''id-1'', confirmed = False, outcome = None,
                      payload = None \<rparr>"

definition alwaysResponse :: "string ToolConfirmationResponse" where
  "alwaysResponse = \<lparr> correlationId = ''id-1'', confirmed = True,
                      outcome = Some ProceedAlways, payload = None \<rparr>"

definition editedResponse :: "string ToolConfirmationResponse" where
  "editedResponse = \<lparr> correlationId = ''id-1'', confirmed = True,
                      outcome = Some ModifyWithEditor, payload = Some ''updated'' \<rparr>"

section \<open>Reachable states and the buffer invariant\<close>

text \<open>A run of reducer actions; an action that throws ends it.\<close>

fun runActions :: "helpers \<Rightarrow> VimAction list \<Rightarrow> TextBufferState \<Rightarrow> error + TextBufferState" where
  "runActions h [] s = Inr s"
| "runActions h (a # as) s =
     (case handleVimAction h s a of Inl x \<Rightarrow> Inl x | Inr s' \<Rightarrow> runActions h as s')"

text \<open>The invariant of spec 3: a line exists, the cursor is on a line and within it.\<close>

definition bufferInvariant :: "TextBufferState \<Rightarrow> bool" where
  "bufferInvariant s =
     (lines s \<noteq> [] \<and> 0 \<le> cursorRow s \<and> cursorRow s < int (length (lines s))
      \<and> 0 \<le> cursorCol s \<and> cursorCol s \<le> cpLen (lineAt (lines s) (cursorRow s)))"

text \<open>
  The line of three code points U+1F600, U+1F600, \<open>x\<close>: five UTF-16 code units, each
  U+1F600 being the surrogate pair D83D DE00.
\<close>

definition astralLine :: jsstring where
  "astralLine = [0xD83D, 0xDE00, 0xD83D, 0xDE00, 0x78]"

section \<open>The search that the spec describes\<close>

text \<open>
  Following the spec's words (3, 4.A, 4.C): a cursor position is a line and a
  code-point column of it; a search is a substring search across lines beginning
  from the cursor, wrapping around the end of the buffer to the cursor position.
  \<open>positionsOf lns r\<close> are the positions of the characters of line \<open>r\<close>, left to
  right. Forward, the search visits the positions after the cursor on its line, the
  lines below, and, wrapped around, the lines above from the top and the cursor
  line up to and including the cursor position. Backward, it visits the positions
  before the cursor on its line from right to left, the lines above from the
  bottom up, and, wrapped around, the lines below from the last one up and the
  cursor line from its end down to and including the cursor position. The query
  occurs at a position when its code points are the code points of the line from
  that column on; the search finds the first such position of its order.
\<close>

definition positionsOf :: "jsstring list \<Rightarrow> nat \<Rightarrow> (nat \<times> nat) list" where
  "positionsOf lns r = map (Pair r) [0 ..< length (toCodePoints (lns ! r))]"

definition forwardOrder :: "jsstring list \<Rightarrow> nat \<Rightarrow> nat \<Rightarrow> (nat \<times> nat) list" where
  "forwardOrder lns row col =
     drop (Suc col) (positionsOf lns row)
     @ concat (map (positionsOf lns) ([Suc row ..< length lns] @ [0 ..< row]))
     @ take (Suc col) (positionsOf lns row)"

definition backwardOrder :: "jsstring list \<Rightarrow> nat \<Rightarrow> nat \<Rightarrow> (nat \<times> nat) list" where
  "backwardOrder lns row col =
     rev (take col (positionsOf lns row))
     @ concat (map (\<lambda>r. rev (positionsOf lns r)) (rev [0 ..< row] @ rev [Suc row ..< length lns]))
     @ rev (drop col (positionsOf lns row))"

definition queryAt :: "jsstring list \<Rightarrow> jsstring \<Rightarrow> nat \<times> nat \<Rightarrow> bool" where
  "queryAt lns q p =
     (let points = toCodePoints (lns ! fst p); qs = toCodePoints q
      in snd p + length qs \<le> length points \<and> take (length qs) (drop (snd p) points) = qs)"

definition specSearch ::
  "jsstring list \<Rightarrow> nat \<Rightarrow> nat \<Rightarrow> jsstring \<Rightarrow> direction \<Rightarrow> (nat \<times> nat) option" where
  "specSearch lns row col q dir =
     find (queryAt lns q)
       (case dir of forward \<Rightarrow> forwardOrder lns row col | backward \<Rightarrow> backwardOrder lns row col)"

text \<open>
  The line of four code points U+1F600, \<open>x\<close>, U+1F600, \<open>x\<close> (six UTF-16 code units),
  and the actions that put it into the initial buffer and the cursor on its first
  \<open>x\<close>.
\<close>

definition astralSearchLine :: jsstring where
  "astralSearchLine = [0xD83D, 0xDE00, 0x78, 0xD83D, 0xDE00, 0x78]"

definition toFirstX :: "VimAction list" where
  "toFirstX = [vim_yank astralSearchLine, vim_paste before, vim_move_to_line_start,
               vim_move_right 1]"

text \<open>
  The actions that make the buffer \<open>["x", "x"]\<close> from the initial one and put the
  cursor at the start of its second line.
\<close>

definition toSecondLine :: "VimAction list" where
  "toSecondLine = [vim_yank (js ''x'' @ [newline] @ js ''x''), vim_paste before,
                   vim_move_to_line_start]"

section \<open>The text of a selection\<close>

text \<open>
  Following the spec's words: the selection is inclusive of both endpoints, ordered
  (3, 4.C). The selected text is the part of the buffer's text, counted in code
  points with one newline between lines, from the earlier of anchor and cursor up
  to and including the later one.
\<close>

fun joinWith :: "'a \<Rightarrow> 'a list list \<Rightarrow> 'a list" where
  "joinWith s [] = []"
| "joinWith s [r] = r"
| "joinWith s (r # r' # rs) = r @ s # joinWith s (r' # rs)"

definition rowOffset :: "'a list list \<Rightarrow> nat \<Rightarrow> nat" where
  "rowOffset rows r = (\<Sum>p\<leftarrow>take r rows. length p + 1)"

text \<open>The earlier and the later of two positions.\<close>

definition orderedPositions :: "nat \<times> nat \<Rightarrow> nat \<times> nat \<Rightarrow> (nat \<times> nat) \<times> (nat \<times> nat)" where
  "orderedPositions a c =
     (if fst a < fst c \<or> (fst a = fst c \<and> snd a < snd c) then (a, c) else (c, a))"

definition selectedText :: "jsstring list \<Rightarrow> nat \<times> nat \<Rightarrow> nat \<times> nat \<Rightarrow> jsstring" where
  "selectedText lns start fin =
     (let rows = map toCodePoints lns;
          a = rowOffset rows (fst start) + snd start;
          b = rowOffset rows (fst fin) + snd fin
      in concat (take (Suc b - a) (drop a (toCodePoints (bufferText lns)))))"

text \<open>
  Following the spec's words (4.B, 4.C): the operators apply to the ordered range with
  the end column inclusive, that is, to the range up to column \<open>end_col + 1\<close> of the
  end line, and a range of a line is a slice of its code points. \<open>textOffset\<close> is
  the number of code points of the buffer's text before a position, a column past
  the end of its line counting as the end of the line; \<open>textBetween\<close>, \<open>textBefore\<close>
  and \<open>textFrom\<close> are the parts of the buffer's text between two such offsets, before
  one and from one on.
\<close>

definition textOffset :: "jsstring list \<Rightarrow> nat \<times> nat \<Rightarrow> nat" where
  "textOffset lns p =
     rowOffset (map toCodePoints lns) (fst p)
     + min (snd p) (length (toCodePoints (lns ! fst p)))"

definition textBetween :: "jsstring list \<Rightarrow> nat \<Rightarrow> nat \<Rightarrow> jsstring" where
  "textBetween lns a b = concat (take (b - a) (drop a (toCodePoints (bufferText lns))))"

definition textBefore :: "jsstring list \<Rightarrow> nat \<Rightarrow> jsstring" where
  "textBefore lns a = concat (take a (toCodePoints (bufferText lns)))"

definition textFrom :: "jsstring list \<Rightarrow> nat \<Rightarrow> jsstring" where
  "textFrom lns b = concat (drop b (toCodePoints (bufferText lns)))"

text \<open>The position after a position on the same line.\<close>

definition nextColumn :: "nat \<times> nat \<Rightarrow> nat \<times> nat" where
  "nextColumn p = (fst p, Suc (snd p))"

text \<open>The keys \<open>v\<close>, \<open>j\<close>: a selection from \<open>(0,0)\<close> to the line below.\<close>

definition selectDown :: "Key list" where
  "selectDown = [charKey ''v'', charKey ''j'']"

text \<open>
  A visual selection that ends on an empty line: \<open>["ab", "", "cd"]\<close> in VISUAL mode
  with the anchor at \<open>(0,0)\<close> and the cursor at \<open>(1,0)\<close>.
\<close>

definition emptyLineSample :: Editor where
  "emptyLineSample =
     \<lparr> vim = initialVimState\<lparr> mode := VISUAL \<rparr>,
       buffer = initialState\<lparr> lines := [js ''ab'', [], js ''cd''], cursorRow := 1,
                               selectionAnchor := Some (0, 0) \<rparr>,
       submitted = [], externalEditorOpened = 0 \<rparr>"

section \<open>Properties of the reducer\<close>

text \<open>
  C9. With an empty clipboard, \<open>vim_paste\<close> in either direction returns the state
  unchanged; the undo stack is a field of the state, so nothing is pushed onto it.
\<close>

theorem paste_empty_clipboard:
  "clipboard state = [] \<Longrightarrow> handleVimAction h state (vim_paste dir) = Inr state"
  by (simp add: handleVimAction_def case_paste_def)

theorem paste_empty_clipboard_witness:
  "clipboard initialState = []
   \<and> handleVimAction asciiHelpers initialState (vim_paste after) = Inr initialState
   \<and> undoStack initialState = []"
proof -
  have c: "clipboard initialState = []" by (simp add: initialState_def)
  show ?thesis
    using c paste_empty_clipboard[OF c, of asciiHelpers after]
    by (simp add: initialState_def)
qed

text \<open>
  C5. Every motion action returns a state, and that state has the lines, the
  clipboard and the undo stack of the input state (and its selection anchor and
  last search query): only the cursor and the preferred column may change.
\<close>

theorem motion_frame:
  assumes "isMotion a"
  shows "\<exists>s'. handleVimAction h s a = Inr s' \<and> lines s' = lines s \<and> clipboard s' = clipboard s
           \<and> undoStack s' = undoStack s \<and> selectionAnchor s' = selectionAnchor s
           \<and> lastSearchQuery s' = lastSearchQuery s"
  using assms
  by (cases a)
     (auto simp: isMotion_def handleVimAction_def case_move_left_def case_move_right_def
        case_move_up_def case_move_down_def move_vertical_def case_move_word_forward_def
        case_move_word_backward_def case_move_word_end_def case_move_to_line_end_def
        case_move_to_first_nonwhitespace_def case_move_to_line_def
        case_move_to_matching_pair_def case_find_char_def Let_def
        split: prod.splits option.splits nat.splits)

theorem motion_frame_witness:
  "isMotion (vim_move_down 1)
   \<and> (\<exists>s'. handleVimAction asciiHelpers abcState (vim_move_down 1) = Inr s'
          \<and> lines s' = lines abcState \<and> clipboard s' = clipboard abcState
          \<and> undoStack s' = undoStack abcState \<and> selectionAnchor s' = selectionAnchor abcState
          \<and> lastSearchQuery s' = lastSearchQuery abcState)"
proof -
  have m: "isMotion (vim_move_down 1)" by (simp add: isMotion_def)
  show ?thesis using m motion_frame[OF m, of asciiHelpers abcState] by simp
qed

text \<open>
  C2 as stated fails: on \<open>["a", "b", "c"]\<close> with the cursor on row 1, \<open>delete_line(2)\<close>
  has \<open>n \<ge> lines_remaining\<close> and leaves \<open>["a"]\<close>, not \<open>[""]\<close>.
\<close>

theorem delete_line_remaining_counterexample:
  "int 2 \<ge> int (length (lines abcState)) - cursorRow abcState
   \<and> map_sum id lines (handleVimAction asciiHelpers abcState (vim_delete_line 2)) = Inr [js ''a'']
   \<and> map_sum id lines (handleVimAction asciiHelpers abcState (vim_delete_line 2)) \<noteq> Inr [[]]"
  by (simp add: abcState_def initialState_def handleVimAction_def case_delete_line_def
        pushUndo_def splice_def rel_index_def js_def Let_def)

text \<open>
  C2, amended. In a non-empty buffer with the cursor row inside it, \<open>delete_line(n)\<close>
  yields \<open>[""]\<close> with the cursor at \<open>(0,0)\<close> when the buffer has one line or when the
  cursor is on row 0 and \<open>n\<close> is at least the number of lines; otherwise it removes
  \<open>n\<close> rows from the cursor row (all of them to the end when \<open>n \<ge> lines_remaining\<close>,
  keeping the rows above, with the cursor on the last kept row). In every case the
  cursor column afterwards is 0.
\<close>

theorem delete_line_result:
  assumes "lines s \<noteq> []" "0 \<le> cursorRow s" "cursorRow s < int (length (lines s))"
  shows "\<exists>s'. handleVimAction h s (vim_delete_line n) = Inr s' \<and> cursorCol s' = 0
           \<and> (if length (lines s) = 1 \<or> (cursorRow s = 0 \<and> n \<ge> length (lines s))
               then lines s' = [[]] \<and> cursorRow s' = 0
               else lines s' = take (nat (cursorRow s)) (lines s)
                                 @ drop (nat (cursorRow s) + n) (lines s)
                    \<and> cursorRow s' = min (cursorRow s) (int (length (lines s')) - 1))
           \<and> (if 1 < length (lines s) \<and> 0 < cursorRow s
                  \<and> int (length (lines s)) - cursorRow s \<le> int n
               then lines s' = take (nat (cursorRow s)) (lines s)
                    \<and> cursorRow s' = cursorRow s - 1
               else True)"
  using assms
  by (auto simp: handleVimAction_def case_delete_line_def pushUndo_def splice_def
        rel_index_def Let_def min_def)

theorem delete_line_result_witness:
  "lines abcState \<noteq> [] \<and> 0 \<le> cursorRow abcState
   \<and> cursorRow abcState < int (length (lines abcState))
   \<and> (\<exists>s'. handleVimAction asciiHelpers abcState (vim_delete_line 2) = Inr s'
          \<and> cursorCol s' = 0 \<and> lines s' = [js ''a''] \<and> cursorRow s' = 0)"
proof -
  have a: "lines abcState \<noteq> []" "0 \<le> cursorRow abcState"
    "cursorRow abcState < int (length (lines abcState))"
    by (simp_all add: abcState_def initialState_def)
  show ?thesis
    using a delete_line_result[OF a, of asciiHelpers 2]
    by (auto simp: abcState_def initialState_def)
qed

section \<open>Properties of the controller\<close>

lemma replaceRangeInternal_frame:
  "clipboard (replaceRangeInternal b r1 c1 r2 c2 t) = clipboard b"
  "selectionAnchor (replaceRangeInternal b r1 c1 r2 c2 t) = selectionAnchor b"
  "undoStack (replaceRangeInternal b r1 c1 r2 c2 t) = undoStack b"
  "lastSearchQuery (replaceRangeInternal b r1 c1 r2 c2 t) = lastSearchQuery b"
  by (simp_all add: replaceRangeInternal_def Let_def)

lemma pushUndo_frame:
  "clipboard (pushUndo b) = clipboard b"
  "selectionAnchor (pushUndo b) = selectionAnchor b"
  "lines (pushUndo b) = lines b"
  "cursorRow (pushUndo b) = cursorRow b"
  "cursorCol (pushUndo b) = cursorCol b"
  "lastSearchQuery (pushUndo b) = lastSearchQuery b"
  by (simp_all add: pushUndo_def Let_def)

lemma concat_toCodePoints: "concat (toCodePoints s) = s"
  by (induction s rule: toCodePoints.induct) simp_all

lemma split_newline_nonempty: "split_newline t \<noteq> []"
  by (induction t) (simp_all split: list.splits)

lemma bufferText_Cons: "rest \<noteq> [] \<Longrightarrow> bufferText (l # rest) = l @ newline # bufferText rest"
  by (cases rest) simp_all

lemma bufferText_head: "bufferText ((u # l) # rest) = u # bufferText (l # rest)"
  by (cases rest) simp_all

text \<open>The parts of a text are its lines: no newline in them, the text when joined.\<close>

lemma split_newline_join: "bufferText (split_newline t) = t"
proof (induction t)
  case Nil
  show ?case by simp
next
  case (Cons u us)
  show ?case
  proof (cases "u = newline")
    case True
    then show ?thesis
      using Cons.IH split_newline_nonempty[of us] by (simp add: bufferText_Cons)
  next
    case False
    obtain l rest where s: "split_newline us = l # rest"
      using split_newline_nonempty[of us] by (cases "split_newline us") auto
    show ?thesis
      using False Cons.IH s by (simp add: bufferText_head)
  qed
qed

lemma split_newline_lines: "l \<in> set (split_newline t) \<Longrightarrow> newline \<notin> set l"
proof (induction t arbitrary: l)
  case Nil
  then show ?case by simp
next
  case (Cons u us)
  show ?case
  proof (cases "u = newline")
    case True
    then show ?thesis using Cons by auto
  next
    case False
    obtain k rest where s: "split_newline us = k # rest"
      using split_newline_nonempty[of us] by (cases "split_newline us") auto
    have "newline \<notin> set k" "\<And>m. m \<in> set rest \<Longrightarrow> newline \<notin> set m"
      using Cons.IH s by simp_all
    then show ?thesis
      using Cons.prems False s by auto
  qed
qed

lemma split_newline_single: "newline \<notin> set t \<Longrightarrow> split_newline t = [t]"
  by (induction t) auto

lemma slice_drop_last: "slice (t @ [u]) 0 (Some (- 1)) = t"
  by (simp add: slice_def rel_index_def Let_def)

lemma cpSlice_whole: "cpSlice l 0 (Some (cpLen l)) = l"
  by (simp add: cpSlice_def cpLen_def slice_def rel_index_def Let_def concat_toCodePoints)

lemma cpSlice_rest: "cpSlice l (cpLen l) None = []"
  by (simp add: cpSlice_def cpLen_def slice_def rel_index_def Let_def)

lemma paste_linewise_after:
  assumes "clipboard s = t @ [newline]" "cursorRow s = int r" "r < length (lines s)"
  shows "\<exists>s'. handleVimAction h s (vim_paste after) = Inr s'
           \<and> lines s' = take (Suc r) (lines s) @ split_newline t @ drop (Suc r) (lines s)
           \<and> clipboard s' = clipboard s"
proof -
  let ?l = "lines s ! r"
  have l: "lineAt (lines s) (int r) = ?l"
    using assms(3) by (simp add: lineAt_def at_index_def)
  have c: "clipboard s \<noteq> []" "includes_newline (clipboard s)" "endsWith_newline (clipboard s)"
    using assms(1) by (simp_all add: includes_newline_def endsWith_newline_def)
  have p: "split_newline (newline # t) = [] # split_newline t" by simp
  have len: "length ([] # split_newline t) \<noteq> 1"
    using split_newline_nonempty[of t] by simp
  have bl: "butlast (split_newline t) @ [last (split_newline t)] = split_newline t"
    using split_newline_nonempty[of t] by simp
  have m: "0 \<le> cpLen ?l" by (simp add: cpLen_def)
  have tk: "take (Suc r) (lines s) = take r (lines s) @ [?l]"
    using assms(3) by (simp add: take_Suc_conv_app_nth)
  have rr: "replaceRangeInternal (pushUndo s) (int r) (cpLen ?l) (int r) (cpLen ?l) (newline # t)
            = (pushUndo s)\<lparr> lines := take r (lines s) @ (?l # split_newline t) @ drop (Suc r) (lines s),
                 cursorRow := int r + int (length ([] # split_newline t)) - 1,
                 cursorCol := cpLen (last (split_newline t)),
                 preferredCol := None \<rparr>"
    unfolding replaceRangeInternal_def Let_def pushUndo_frame l p
    using len bl m split_newline_nonempty[of t]
    by (simp add: max_absorb1 cpSlice_whole cpSlice_rest)
  have "handleVimAction h s (vim_paste after)
        = Inr (replaceRangeInternal (pushUndo s) (int r) (cpLen ?l) (int r) (cpLen ?l) (newline # t))"
    using c assms(1,2)
    by (simp add: handleVimAction_def case_paste_def Let_def l slice_drop_last)
  then show ?thesis
    unfolding rr using tk by (simp add: pushUndo_frame)
qed

lemma normal_key_y:
  assumes "vimEnabled env" "\<not> pendingReplace (vim e)" "pendingFind (vim e) = None"
    "pendingChord (vim e) = None" "mode (vim e) = NORMAL"
  shows "handleInput env (charKey ''y'') e
         = (if pendingOperator (vim e) = Some op_y
            then returning True
                   [buf (helpersOf env)
                      (vim_yank (lineAt (lines (buffer e)) (cursorRow (buffer e)) @ [newline])),
                    dispatch CLEAR_COUNT, dispatch (SET_PENDING_OPERATOR None)] e
            else returning True [dispatch (SET_PENDING_OPERATOR (Some op_y))] e)"
  using assms
  by (simp add: handleInput_def handleNormalModeInput_def handleCommandKey_def
        charKey_def js_def isDigit1to9_def isVisual_def Let_def)

lemma normal_key_p:
  assumes "vimEnabled env" "\<not> pendingReplace (vim e)" "pendingFind (vim e) = None"
    "pendingChord (vim e) = None" "mode (vim e) = NORMAL"
  shows "handleInput env (charKey ''p'') e
         = returning True [buf (helpersOf env) (vim_paste after), dispatch CLEAR_COUNT] e"
  using assms
  by (simp add: handleInput_def handleNormalModeInput_def handleCommandKey_def
        charKey_def js_def isDigit1to9_def isVisual_def Let_def)


lemma yank_line_keys:
  assumes "vimEnabled env" "\<not> pendingReplace (vim e)" "pendingFind (vim e) = None"
    "pendingChord (vim e) = None" "mode (vim e) = NORMAL" "pendingOperator (vim e) = None"
    "cursorRow (buffer e) = int r" "r < length (lines (buffer e))"
  shows "handleKeys env [charKey ''y'', charKey ''y''] e
         = Inr (e\<lparr> vim := (vim e)\<lparr> pendingOperator := Some op_y, count := 0,
                                     pendingOperator := None \<rparr>,
                   buffer := (buffer e)\<lparr> clipboard := lines (buffer e) ! r @ [newline] \<rparr> \<rparr>)"
proof -
  let ?e1 = "e\<lparr> vim := (vim e)\<lparr> pendingOperator := Some op_y \<rparr> \<rparr>"
  have l: "lineAt (lines (buffer e)) (int r) = lines (buffer e) ! r"
    using assms(8) by (simp add: lineAt_def at_index_def)
  have 1: "handleInput env (charKey ''y'') e = Inr (True, ?e1)"
    using assms(6)
    by (simp add: normal_key_y[OF assms(1-5)] returning_def dispatch_def vimReducer_def)
  have a: "vimEnabled env" "\<not> pendingReplace (vim ?e1)" "pendingFind (vim ?e1) = None"
    "pendingChord (vim ?e1) = None" "mode (vim ?e1) = NORMAL"
    using assms(1-5) by simp_all
  have 2: "handleInput env (charKey ''y'') ?e1
           = Inr (True, e\<lparr> vim := (vim e)\<lparr> pendingOperator := Some op_y, count := 0,
                                     pendingOperator := None \<rparr>,
                   buffer := (buffer e)\<lparr> clipboard := lines (buffer e) ! r @ [newline] \<rparr> \<rparr>)"
    unfolding normal_key_y[OF a]
    using assms(7)
    by (simp add: returning_def dispatch_def vimReducer_def buf_def handleVimAction_def l)
  show ?thesis by (simp add: 1 2)
qed

lemma yank_paste_scenario:
  assumes "vimEnabled env" "vimModeStyle env = vim_editor"
  shows "map_sum id (lines \<circ> buffer)
           (handleKeys env [charKey ''y'', charKey ''y'', charKey ''j'', charKey ''p'']
              (editorWith [js ''foo'', js ''bar'']))
         = Inr [js ''foo'', js ''bar'', js ''foo'']"
  using assms
  apply (simp add: editorWith_def initialVimState_def initialState_def charKey_def
      handleInput_def handleNormalModeInput_def handleCommandKey_def returning_def
      dispatch_def buf_def vimReducer_def handleVimAction_def js_def isDigit1to9_def
      getCurrentCount_def isVisual_def Let_def)
  apply (simp add: lineAt_def at_index_def case_move_down_def move_vertical_def cpLen_def
      case_paste_def includes_newline_def endsWith_newline_def newline_def
      replaceRangeInternal_def pushUndo_def snapshot_def historyLimit_def cpSlice_def
      slice_def rel_index_def isHighSurrogate_def isLowSurrogate_def Let_def)
  done

text \<open>
  C7. With vim mode enabled and the \<open>vim-editor\<close> style (the default), the keys
  \<open>y\<close>, \<open>y\<close>, \<open>j\<close>, \<open>p\<close> on \<open>["foo", "bar"]\<close> from \<open>(0,0)\<close> in NORMAL mode give the lines
  \<open>["foo", "bar", "foo"]\<close>, whatever the word helpers are. In general, in NORMAL mode
  with no pending operator or prefix and the cursor on a line of the buffer: \<open>y\<close>, \<open>y\<close>
  put the cursor line followed by a newline into the clipboard and leave the rest of
  the buffer as it is; \<open>p\<close> with a clipboard that ends with a newline inserts the
  lines of the clipboard's content (the clipboard without that newline) between the
  cursor line and the line after it, and keeps the clipboard; so \<open>y\<close>, \<open>y\<close>, \<open>p\<close>
  repeat the cursor line directly below itself. The lines of a content are given
  by what they are: none holds a newline, there is at least one, and joined by
  newlines they are the content. The paste is stated for content without a carriage
  return: the insertion is done by \<open>replace_range\<close>, which is outside the sources,
  and the spec leaves open how it treats other line ends.
\<close>

theorem linewise_yank_paste:
  assumes "vimEnabled env" "vimModeStyle env = vim_editor"
    "\<not> pendingReplace (vim e)" "pendingFind (vim e) = None" "pendingChord (vim e) = None"
    "mode (vim e) = NORMAL" "pendingOperator (vim e) = None"
    "cursorRow (buffer e) = int r" "r < length (lines (buffer e))"
  shows "map_sum id (lines \<circ> buffer)
           (handleKeys env [charKey ''y'', charKey ''y'', charKey ''j'', charKey ''p'']
              (editorWith [js ''foo'', js ''bar'']))
         = Inr [js ''foo'', js ''bar'', js ''foo'']
       \<and> (\<exists>e1. handleKeys env [charKey ''y'', charKey ''y''] e = Inr e1
              \<and> buffer e1 = (buffer e)\<lparr> clipboard := lines (buffer e) ! r @ [newline] \<rparr>
              \<and> mode (vim e1) = NORMAL \<and> pendingOperator (vim e1) = None)
       \<and> (clipboard (buffer e) = t @ [newline] \<and> 0x0D \<notin> set t \<longrightarrow>
            (\<exists>e2 ls. handleInput env (charKey ''p'') e = Inr (True, e2)
               \<and> lines (buffer e2)
                   = take (Suc r) (lines (buffer e)) @ ls @ drop (Suc r) (lines (buffer e))
               \<and> ls \<noteq> [] \<and> bufferText ls = t \<and> (\<forall>l \<in> set ls. newline \<notin> set l)
               \<and> clipboard (buffer e2) = clipboard (buffer e)
               \<and> mode (vim e2) = NORMAL))
       \<and> (newline \<notin> set (lines (buffer e) ! r) \<and> 0x0D \<notin> set (lines (buffer e) ! r) \<longrightarrow>
            (\<exists>e3. handleKeys env [charKey ''y'', charKey ''y'', charKey ''p''] e = Inr e3
               \<and> lines (buffer e3)
                   = take (Suc r) (lines (buffer e)) @ [lines (buffer e) ! r]
                     @ drop (Suc r) (lines (buffer e))
               \<and> clipboard (buffer e3) = lines (buffer e) ! r @ [newline]))"
proof -
  let ?h = "helpersOf env"
  let ?lns = "lines (buffer e)"
  let ?e1 = "e\<lparr> vim := (vim e)\<lparr> pendingOperator := Some op_y, count := 0,
                                  pendingOperator := None \<rparr>,
                buffer := (buffer e)\<lparr> clipboard := ?lns ! r @ [newline] \<rparr> \<rparr>"
  have yy: "handleKeys env [charKey ''y'', charKey ''y''] e = Inr ?e1"
    by (rule yank_line_keys[OF assms(1) assms(3-9)])
  have paste: "\<exists>e2. handleInput env (charKey ''p'') d = Inr (True, e2)
               \<and> lines (buffer e2)
                   = take (Suc r) (lines (buffer d)) @ split_newline u
                     @ drop (Suc r) (lines (buffer d))
               \<and> clipboard (buffer e2) = clipboard (buffer d)
               \<and> mode (vim e2) = NORMAL"
    if d: "\<not> pendingReplace (vim d)" "pendingFind (vim d) = None" "pendingChord (vim d) = None"
      "mode (vim d) = NORMAL" "clipboard (buffer d) = u @ [newline]"
      "cursorRow (buffer d) = int r" "r < length (lines (buffer d))" for d u
  proof -
    from paste_linewise_after[OF d(5-7), of ?h]
    obtain s' where s': "handleVimAction ?h (buffer d) (vim_paste after) = Inr s'"
      "lines s' = take (Suc r) (lines (buffer d)) @ split_newline u
                  @ drop (Suc r) (lines (buffer d))"
      "clipboard s' = clipboard (buffer d)"
      by blast
    show ?thesis
      unfolding normal_key_p[OF assms(1) d(1-4)]
      using s' d(4) by (simp add: returning_def buf_def dispatch_def vimReducer_def)
  qed
  have c1: "\<exists>e1. handleKeys env [charKey ''y'', charKey ''y''] e = Inr e1
              \<and> buffer e1 = (buffer e)\<lparr> clipboard := ?lns ! r @ [newline] \<rparr>
              \<and> mode (vim e1) = NORMAL \<and> pendingOperator (vim e1) = None"
    using yy assms(6) by simp
  have c2: "clipboard (buffer e) = t @ [newline] \<and> 0x0D \<notin> set t \<longrightarrow>
            (\<exists>e2 ls. handleInput env (charKey ''p'') e = Inr (True, e2)
               \<and> lines (buffer e2) = take (Suc r) ?lns @ ls @ drop (Suc r) ?lns
               \<and> ls \<noteq> [] \<and> bufferText ls = t \<and> (\<forall>l \<in> set ls. newline \<notin> set l)
               \<and> clipboard (buffer e2) = clipboard (buffer e)
               \<and> mode (vim e2) = NORMAL)"
  proof
    assume h: "clipboard (buffer e) = t @ [newline] \<and> 0x0D \<notin> set t"
    from paste[OF assms(3-6) _ assms(8,9), of t] h
    obtain e2 where e2: "handleInput env (charKey ''p'') e = Inr (True, e2)"
      "lines (buffer e2) = take (Suc r) ?lns @ split_newline t @ drop (Suc r) ?lns"
      "clipboard (buffer e2) = clipboard (buffer e)" "mode (vim e2) = NORMAL"
      by blast
    have "split_newline t \<noteq> []" "bufferText (split_newline t) = t"
      "\<forall>l \<in> set (split_newline t). newline \<notin> set l"
      using split_newline_nonempty split_newline_join split_newline_lines by auto
    with e2 show "\<exists>e2 ls. handleInput env (charKey ''p'') e = Inr (True, e2)
               \<and> lines (buffer e2) = take (Suc r) ?lns @ ls @ drop (Suc r) ?lns
               \<and> ls \<noteq> [] \<and> bufferText ls = t \<and> (\<forall>l \<in> set ls. newline \<notin> set l)
               \<and> clipboard (buffer e2) = clipboard (buffer e)
               \<and> mode (vim e2) = NORMAL"
      by blast
  qed
  have "\<exists>e2. handleInput env (charKey ''p'') ?e1 = Inr (True, e2)
               \<and> lines (buffer e2)
                   = take (Suc r) (lines (buffer ?e1)) @ split_newline (?lns ! r)
                     @ drop (Suc r) (lines (buffer ?e1))
               \<and> clipboard (buffer e2) = clipboard (buffer ?e1)
               \<and> mode (vim e2) = NORMAL"
    by (rule paste) (use assms(3-9) in simp_all)
  then obtain e3 where e3: "handleInput env (charKey ''p'') ?e1 = Inr (True, e3)"
    "lines (buffer e3) = take (Suc r) ?lns @ split_newline (?lns ! r) @ drop (Suc r) ?lns"
    "clipboard (buffer e3) = ?lns ! r @ [newline]"
    by auto
  have k: "handleKeys env [charKey ''y'', charKey ''y'', charKey ''p''] e
           = (case handleKeys env [charKey ''y'', charKey ''y''] e of
                Inl x \<Rightarrow> Inl x
              | Inr e' \<Rightarrow> handleKeys env [charKey ''p''] e')"
    by (simp split: sum.splits prod.splits)
  have c3: "newline \<notin> set (?lns ! r) \<and> 0x0D \<notin> set (?lns ! r) \<longrightarrow>
            (\<exists>e3. handleKeys env [charKey ''y'', charKey ''y'', charKey ''p''] e = Inr e3
              \<and> lines (buffer e3) = take (Suc r) ?lns @ [?lns ! r] @ drop (Suc r) ?lns
              \<and> clipboard (buffer e3) = ?lns ! r @ [newline])"
    unfolding k yy using e3 by (simp add: split_newline_single)
  show ?thesis
    using yank_paste_scenario[OF assms(1,2)] c1 c2 c3 by blast
qed

theorem linewise_yank_paste_witness:
  "vimEnabled defaultEnv \<and> vimModeStyle defaultEnv = vim_editor
   \<and> mode (vim (editorWith [js ''foo'', js ''bar''])) = NORMAL
   \<and> cursorRow (buffer (editorWith [js ''foo'', js ''bar''])) = int 0
   \<and> map_sum id (clipboard \<circ> buffer)
        (handleKeys defaultEnv [charKey ''y'', charKey ''y''] (editorWith [js ''foo'', js ''bar'']))
      = Inr (js ''foo'' @ [newline])
   \<and> map_sum id (lines \<circ> buffer)
        (handleKeys defaultEnv [charKey ''y'', charKey ''y'', charKey ''p'']
           (editorWith [js ''foo'', js ''bar'']))
      = Inr [js ''foo'', js ''foo'', js ''bar'']
   \<and> map_sum id (lines \<circ> buffer)
        (handleKeys defaultEnv [charKey ''y'', charKey ''y'', charKey ''j'', charKey ''p'']
           (editorWith [js ''foo'', js ''bar'']))
      = Inr [js ''foo'', js ''bar'', js ''foo'']
   \<and> mode (vim yankedSample) = NORMAL \<and> cursorRow (buffer yankedSample) = int 1
   \<and> clipboard (buffer yankedSample) = js ''foo'' @ [newline] \<and> 0x0D \<notin> set (js ''foo'')
   \<and> map_sum id (lines \<circ> buffer \<circ> snd) (handleInput defaultEnv (charKey ''p'') yankedSample)
      = Inr [js ''foo'', js ''bar'', js ''foo'']"
proof -
  let ?e = "editorWith [js ''foo'', js ''bar'']"
  have a: "vimEnabled defaultEnv" "vimModeStyle defaultEnv = vim_editor"
    "\<not> pendingReplace (vim ?e)" "pendingFind (vim ?e) = None" "pendingChord (vim ?e) = None"
    "mode (vim ?e) = NORMAL" "pendingOperator (vim ?e) = None"
    "cursorRow (buffer ?e) = int 0" "0 < length (lines (buffer ?e))"
    by (simp_all add: defaultEnv_def editorWith_def initialVimState_def initialState_def)
  have s: "newline \<notin> set (js ''foo'')" "0x0D \<notin> set (js ''foo'')"
    "newline \<notin> set (lines (buffer ?e) ! 0) \<and> 0x0D \<notin> set (lines (buffer ?e) ! 0)"
    by (simp_all add: js_def newline_def editorWith_def initialState_def)
  from linewise_yank_paste[OF a] s(3)
  obtain e1 e3 where
    "handleKeys defaultEnv [charKey ''y'', charKey ''y''] ?e = Inr e1"
    "buffer e1 = (buffer ?e)\<lparr> clipboard := lines (buffer ?e) ! 0 @ [newline] \<rparr>"
    "handleKeys defaultEnv [charKey ''y'', charKey ''y'', charKey ''p''] ?e = Inr e3"
    "lines (buffer e3)
       = take (Suc 0) (lines (buffer ?e)) @ [lines (buffer ?e) ! 0]
         @ drop (Suc 0) (lines (buffer ?e))"
    by blast
  then have 1: "map_sum id (clipboard \<circ> buffer)
                  (handleKeys defaultEnv [charKey ''y'', charKey ''y''] ?e)
                = Inr (js ''foo'' @ [newline])"
    "map_sum id (lines \<circ> buffer)
       (handleKeys defaultEnv [charKey ''y'', charKey ''y'', charKey ''p''] ?e)
     = Inr [js ''foo'', js ''foo'', js ''bar'']"
    by (simp_all add: editorWith_def initialState_def)
  have 2: "map_sum id (lines \<circ> buffer)
             (handleKeys defaultEnv [charKey ''y'', charKey ''y'', charKey ''j'', charKey ''p''] ?e)
           = Inr [js ''foo'', js ''bar'', js ''foo'']"
    using linewise_yank_paste[OF a] by blast
  have b: "vimEnabled defaultEnv" "vimModeStyle defaultEnv = vim_editor"
    "\<not> pendingReplace (vim yankedSample)" "pendingFind (vim yankedSample) = None"
    "pendingChord (vim yankedSample) = None" "mode (vim yankedSample) = NORMAL"
    "pendingOperator (vim yankedSample) = None"
    "cursorRow (buffer yankedSample) = int 1" "1 < length (lines (buffer yankedSample))"
    by (simp_all add: defaultEnv_def yankedSample_def initialVimState_def initialState_def)
  have c: "clipboard (buffer yankedSample) = js ''foo'' @ [newline]"
    by (simp add: yankedSample_def)
  from linewise_yank_paste[OF b, of "js ''foo''"] c s(2)
  obtain e2 ls where e2:
    "handleInput defaultEnv (charKey ''p'') yankedSample = Inr (True, e2)"
    "lines (buffer e2)
       = take (Suc 1) (lines (buffer yankedSample)) @ ls
         @ drop (Suc 1) (lines (buffer yankedSample))"
    "ls \<noteq> []" "bufferText ls = js ''foo''" "\<forall>l \<in> set ls. newline \<notin> set l"
    by blast
  have "ls = [js ''foo'']"
  proof (cases ls)
    case Nil
    then show ?thesis using e2(3) by simp
  next
    case (Cons l rest)
    show ?thesis
    proof (cases rest)
      case Nil
      then show ?thesis using Cons e2(4) by simp
    next
      case (Cons m rest')
      then have "newline \<in> set (bufferText ls)"
        using \<open>ls = l # rest\<close> by simp
      then show ?thesis using e2(4) s(1) by simp
    qed
  qed
  then have 3: "map_sum id (lines \<circ> buffer \<circ> snd)
                  (handleInput defaultEnv (charKey ''p'') yankedSample)
                = Inr [js ''foo'', js ''bar'', js ''foo'']"
    using e2(1,2) by (simp add: yankedSample_def initialState_def)
  show ?thesis
    using a(1,2,6,8) b(6,8) c s(2) 1 2 3 by blast
qed




lemma yank_selection_some:
  "selectionAnchor b = Some a \<Longrightarrow>
   handleVimAction h b vim_yank_selection
     = Inr (b\<lparr> clipboard := yankedText (lines b) a (cursorRow b) (cursorCol b) \<rparr>)"
  by (simp add: handleVimAction_def case_yank_selection_def)

lemma visual_key_steps:
  assumes "vimEnabled env" "\<not> pendingReplace (vim e)" "pendingFind (vim e) = None"
    "pendingChord (vim e) = None" "isVisual (mode (vim e))"
    "c = ''d'' \<or> c = ''c'' \<or> c = ''x''"
  shows "handleInput env (charKey c) e
         = returning True ([buf (helpersOf env) vim_yank_selection,
                            buf (helpersOf env) (vim_delete_char 1)]
                           @ updateMode (if c = ''c'' then INSERT else NORMAL)
                           @ [dispatch CLEAR_COUNT]) e"
proof -
  have m: "mode (vim e) \<noteq> INSERT" "mode (vim e) \<noteq> COMMAND" "mode (vim e) \<noteq> NORMAL"
    using assms(5) by (auto simp: isVisual_def)
  from assms(6) show ?thesis
  proof (elim disjE)
    assume "c = ''d''"
    then show ?thesis using assms(1-5) m
      by (simp add: handleInput_def handleNormalModeInput_def handleCommandKey_def
            charKey_def js_def isDigit1to9_def Let_def)
  next
    assume "c = ''c''"
    then show ?thesis using assms(1-5) m
      by (simp add: handleInput_def handleNormalModeInput_def handleCommandKey_def
            charKey_def js_def isDigit1to9_def Let_def)
  next
    assume "c = ''x''"
    then show ?thesis using assms(1-5) m
      by (simp add: handleInput_def handleNormalModeInput_def handleCommandKey_def
            charKey_def js_def isDigit1to9_def Let_def)
  qed
qed

lemma rowOffset_0 [simp]: "rowOffset rows 0 = 0"
  by (simp add: rowOffset_def)

lemma rowOffset_Cons [simp]: "rowOffset (p # rows) (Suc r) = length p + 1 + rowOffset rows r"
  by (simp add: rowOffset_def)

lemma joinWith_Cons: "rows \<noteq> [] \<Longrightarrow> joinWith s (p # rows) = p @ s # joinWith s rows"
  by (cases rows) simp_all

lemma drop_join:
  "r < length rows \<Longrightarrow> c \<le> length (rows ! r) \<Longrightarrow>
   drop (rowOffset rows r + c) (joinWith s rows)
     = drop c (rows ! r)
       @ (if Suc r < length rows then s # joinWith s (drop (Suc r) rows) else [])"
proof (induction rows arbitrary: r)
  case Nil
  then show ?case by simp
next
  case (Cons p rows)
  show ?case
  proof (cases r)
    case 0
    then show ?thesis using Cons.prems by (cases rows) simp_all
  next
    case (Suc r')
    then have ne: "rows \<noteq> []" using Cons.prems by auto
    have "drop (rowOffset rows r' + c) (joinWith s rows)
            = drop c (rows ! r')
              @ (if Suc r' < length rows then s # joinWith s (drop (Suc r') rows) else [])"
      by (rule Cons.IH) (use Cons.prems Suc in auto)
    then show ?thesis using Suc by (simp add: joinWith_Cons[OF ne] add.assoc)
  qed
qed

lemma take_join:
  "r < length rows \<Longrightarrow> c \<le> length (rows ! r) \<Longrightarrow>
   take (rowOffset rows r + c) (joinWith s rows)
     = concat (map (\<lambda>p. p @ [s]) (take r rows)) @ take c (rows ! r)"
proof (induction rows arbitrary: r)
  case Nil
  then show ?case by simp
next
  case (Cons p rows)
  show ?case
  proof (cases r)
    case 0
    then show ?thesis using Cons.prems by (cases rows) simp_all
  next
    case (Suc r')
    then have ne: "rows \<noteq> []" using Cons.prems by auto
    have "take (rowOffset rows r' + c) (joinWith s rows)
            = concat (map (\<lambda>p. p @ [s]) (take r' rows)) @ take c (rows ! r')"
      by (rule Cons.IH) (use Cons.prems Suc in auto)
    then show ?thesis using Suc by (simp add: joinWith_Cons[OF ne] add.assoc)
  qed
qed

lemma rowOffset_drop:
  "a \<le> length rows \<Longrightarrow> rowOffset rows (a + d) = rowOffset rows a + rowOffset (drop a rows) d"
  by (simp add: rowOffset_def take_add)

lemma rowOffset_Suc:
  "r < length rows \<Longrightarrow> rowOffset rows (Suc r) = rowOffset rows r + length (rows ! r) + 1"
  by (simp add: rowOffset_def take_Suc_conv_app_nth)

text \<open>Code points of a text and of its lines.\<close>

lemma newline_not_surrogate: "\<not> isHighSurrogate newline" "\<not> isLowSurrogate newline"
  by (simp_all add: isHighSurrogate_def isLowSurrogate_def newline_def)

lemma toCodePoints_newline_Cons:
  "toCodePoints (newline # b) = [newline] # toCodePoints b"
  by (cases b) (simp_all add: newline_not_surrogate)

lemma toCodePoints_newline:
  "toCodePoints (a @ newline # b) = toCodePoints a @ [newline] # toCodePoints b"
proof (induction a rule: toCodePoints.induct)
  case 1
  show ?case by (simp add: toCodePoints_newline_Cons)
next
  case (2 u)
  show ?case by (simp add: newline_not_surrogate toCodePoints_newline_Cons)
next
  case (3 u v rest)
  then show ?case by simp
qed

lemma toCodePoints_bufferText:
  "toCodePoints (bufferText lns) = joinWith [newline] (map toCodePoints lns)"
  by (induction lns rule: bufferText.induct) (simp_all add: toCodePoints_newline)

lemma middleLines_concat:
  "a + n \<le> length lns \<Longrightarrow>
   middleLines lns (int a) n = concat (map (\<lambda>l. l @ [newline]) (take n (drop a lns)))"
proof (induction n arbitrary: a)
  case 0
  then show ?case by simp
next
  case (Suc n)
  have l: "lineAt lns (int a) = lns ! a"
    using Suc.prems by (simp add: lineAt_def at_index_def)
  have d: "drop a lns = lns ! a # drop (Suc a) lns"
    using Suc.prems by (simp add: Cons_nth_drop_Suc)
  have ih: "middleLines lns (int (Suc a)) n
            = concat (map (\<lambda>l. l @ [newline]) (take n (drop (Suc a) lns)))"
    by (rule Suc.IH) (use Suc.prems in simp)
  have s: "int a + 1 = int (Suc a)" by simp
  show ?case unfolding middleLines.simps l s ih d by simp
qed

lemma concat_rows_points:
  "concat (concat (map ((\<lambda>p. p @ [[newline]]) \<circ> toCodePoints) ls))
   = concat (map (\<lambda>l. l @ [newline]) ls)"
  by (induction ls) (simp_all add: concat_toCodePoints)

lemma slice_nat:
  "slice xs (int a) None = drop a xs"
  "slice xs (int a) (Some (int b)) = take (b - a) (drop a xs)"
  by (auto simp: slice_def rel_index_def Let_def min_def)


text \<open>A range of joined rows, given by its two ends.\<close>

lemma range_same_row:
  assumes "r < length rows" "a \<le> b" "b \<le> length (rows ! r)"
  shows "take (rowOffset rows r + b - (rowOffset rows r + a))
           (drop (rowOffset rows r + a) (joinWith s rows))
         = take (b - a) (drop a (rows ! r))"
proof -
  have "a \<le> length (rows ! r)" using assms by simp
  from drop_join[OF assms(1) this, of s] show ?thesis
    using assms by simp
qed

lemma range_rows:
  assumes "sr < er" "er < length rows" "a \<le> length (rows ! sr)" "b \<le> length (rows ! er)"
  shows "take (rowOffset rows er + b - (rowOffset rows sr + a))
           (drop (rowOffset rows sr + a) (joinWith s rows))
         = drop a (rows ! sr) @ s
           # concat (map (\<lambda>p. p @ [s]) (take (er - Suc sr) (drop (Suc sr) rows)))
           @ take b (rows ! er)"
proof -
  let ?rows' = "drop (Suc sr) rows"
  let ?r' = "er - Suc sr"
  have sr: "sr < length rows" "Suc sr < length rows" using assms by simp_all
  have d: "drop (rowOffset rows sr + a) (joinWith s rows)
           = drop a (rows ! sr) @ s # joinWith s ?rows'"
    using drop_join[OF sr(1) assms(3), of s] sr(2) by simp
  have er: "er = Suc sr + ?r'" using assms(1) by simp
  have off: "rowOffset rows er = rowOffset rows sr + length (rows ! sr) + 1 + rowOffset ?rows' ?r'"
    using rowOffset_drop[of "Suc sr" rows ?r'] sr er rowOffset_Suc[OF sr(1)] by simp
  have n: "rowOffset rows er + b - (rowOffset rows sr + a)
           = length (drop a (rows ! sr)) + Suc (rowOffset ?rows' ?r' + b)"
    using off assms(3) by simp
  have r': "?r' < length ?rows'" "?rows' ! ?r' = rows ! er"
    using assms(1,2) by simp_all
  have t: "take (rowOffset ?rows' ?r' + b) (joinWith s ?rows')
           = concat (map (\<lambda>p. p @ [s]) (take ?r' ?rows')) @ take b (?rows' ! ?r')"
    by (rule take_join) (use r' assms(4) in simp_all)
  show ?thesis
    unfolding d n using t by (simp add: r'(2))
qed

lemma take_drop_clamp:
  "a \<le> e \<Longrightarrow>
   take (Suc e - a) (drop a xs)
     = take (min (Suc e) (length xs) - min a (length xs)) (drop (min a (length xs)) xs)"
  by (cases "Suc e \<le> length xs"; cases "a \<le> length xs") (simp_all add: min_def)

lemma orderedSelection_positions:
  "orderedPositions (ar, ac) (cr, cc) = ((sr, sc), (er, ec)) \<Longrightarrow>
   orderedSelection (int ar, int ac) (int cr) (int cc) = ((int sr, int sc), (int er, int ec))
   \<and> (sr < er \<or> (sr = er \<and> sc \<le> ec))
   \<and> ((sr = ar \<and> er = cr) \<or> (sr = cr \<and> er = ar))"
  by (auto simp: orderedPositions_def orderedSelection_def split: if_splits)

text \<open>What \<open>vim_yank_selection\<close> copies, as a part of the buffer's text.\<close>

lemma yankedText_between:
  assumes "orderedPositions (ar, ac) (cr, cc) = ((sr, sc), (er, ec))"
    "ar < length lns" "cr < length lns"
  shows "yankedText lns (int ar, int ac) (int cr) (int cc)
         = textBetween lns (textOffset lns (sr, sc)) (textOffset lns (nextColumn (er, ec)))"
proof -
  let ?rows = "map toCodePoints lns"
  let ?a = "min sc (length (?rows ! sr))"
  let ?b = "min (Suc ec) (length (?rows ! er))"
  note o = orderedSelection_positions[OF assms(1)]
  have os: "orderedSelection (int ar, int ac) (int cr) (int cc)
            = ((int sr, int sc), (int er, int ec))"
    using o by simp
  have le: "sr < er \<or> (sr = er \<and> sc \<le> ec)" using o by simp
  have rg: "sr < length lns" "er < length lns" using o assms(2,3) by auto
  have ls: "lineAt lns (int sr) = lns ! sr" "lineAt lns (int er) = lns ! er"
    using rg by (simp_all add: lineAt_def at_index_def)
  have e1: "int ec + 1 = int (Suc ec)" by simp
  have tb: "textBetween lns (textOffset lns (sr, sc)) (textOffset lns (nextColumn (er, ec)))
            = concat (take (rowOffset ?rows er + ?b - (rowOffset ?rows sr + ?a))
                        (drop (rowOffset ?rows sr + ?a) (joinWith [newline] ?rows)))"
    using rg by (simp add: textBetween_def textOffset_def nextColumn_def toCodePoints_bufferText)
  from le show ?thesis
  proof
    assume lt: "sr < er"
    have sel: "take (rowOffset ?rows er + ?b - (rowOffset ?rows sr + ?a))
                 (drop (rowOffset ?rows sr + ?a) (joinWith [newline] ?rows))
               = drop ?a (?rows ! sr) @ [newline]
                 # concat (map (\<lambda>p. p @ [[newline]]) (take (er - Suc sr) (drop (Suc sr) ?rows)))
                 @ take ?b (?rows ! er)"
      by (rule range_rows) (use lt rg in simp_all)
    have m: "middleLines lns (int sr + 1) (nat (int er - (int sr + 1)))
             = concat (map (\<lambda>l. l @ [newline]) (take (er - Suc sr) (drop (Suc sr) lns)))"
    proof -
      have "int sr + 1 = int (Suc sr)" "nat (int er - int (Suc sr)) = er - Suc sr" by simp_all
      then show ?thesis
        using middleLines_concat[of "Suc sr" "er - Suc sr" lns] lt rg(2)
        by (simp add: add.commute)
    qed
    have y: "yankedText lns (int ar, int ac) (int cr) (int cc)
             = concat (drop sc (toCodePoints (lns ! sr))) @ [newline]
               @ concat (map (\<lambda>l. l @ [newline]) (take (er - Suc sr) (drop (Suc sr) lns)))
               @ concat (take (Suc ec) (toCodePoints (lns ! er)))"
      unfolding yankedText_def os using lt
      by (simp add: ls m cpSlice_def e1 slice_nat[of _ 0, simplified] slice_nat del: of_nat_Suc)
    have c: "drop ?a (?rows ! sr) = drop sc (toCodePoints (lns ! sr))"
      "take ?b (?rows ! er) = take (Suc ec) (toCodePoints (lns ! er))"
      using rg by (simp_all add: min_def)
    show ?thesis
      unfolding y tb sel c
      using rg by (simp add: concat_rows_points take_map drop_map)
  next
    assume eq: "sr = er \<and> sc \<le> ec"
    have sel: "take (rowOffset ?rows er + ?b - (rowOffset ?rows sr + ?a))
                 (drop (rowOffset ?rows sr + ?a) (joinWith [newline] ?rows))
               = take (?b - ?a) (drop ?a (?rows ! er))"
      using eq range_same_row[of er ?rows ?a ?b "[newline]"] rg by (simp add: min_def)
    have y: "yankedText lns (int ar, int ac) (int cr) (int cc)
             = concat (take (Suc ec - sc) (drop sc (toCodePoints (lns ! er))))"
      unfolding yankedText_def os using eq
      by (simp add: ls cpSlice_def e1 slice_nat del: of_nat_Suc)
    have c: "take (Suc ec - sc) (drop sc (toCodePoints (lns ! er)))
             = take (?b - ?a) (drop ?a (?rows ! er))"
      using take_drop_clamp[of sc ec "toCodePoints (lns ! er)"] eq rg by simp
    show ?thesis
      unfolding y tb sel c by (rule refl)
  qed
qed

text \<open>The selected text, when the selection ends on a character.\<close>

lemma selectedText_between:
  "snd start \<le> length (toCodePoints (lns ! fst start)) \<Longrightarrow>
   snd fin < length (toCodePoints (lns ! fst fin)) \<Longrightarrow>
   selectedText lns start fin
     = textBetween lns (textOffset lns start) (textOffset lns (nextColumn fin))"
  by (simp add: selectedText_def textBetween_def textOffset_def nextColumn_def Let_def min_def)

text \<open>The lines that \<open>vim_delete_char\<close> leaves of a selection.\<close>

lemma delete_selection_lines:
  assumes "selectionAnchor b = Some (int ar, int ac)" "cursorRow b = int cr"
    "cursorCol b = int cc" "orderedPositions (ar, ac) (cr, cc) = ((sr, sc), (er, ec))"
    "ar < length (lines b)" "cr < length (lines b)"
  shows "\<exists>b'. handleVimAction h b (vim_delete_char n) = Inr b'
           \<and> clipboard b' = clipboard b \<and> selectionAnchor b' = None
           \<and> lines b' = take sr (lines b)
                          @ [concat (take sc (toCodePoints (lines b ! sr)))
                             @ concat (drop (Suc ec) (toCodePoints (lines b ! er)))]
                          @ drop (Suc er) (lines b)"
proof -
  note o = orderedSelection_positions[OF assms(4)]
  have os: "orderedSelection (int ar, int ac) (int cr) (int cc)
            = ((int sr, int sc), (int er, int ec))"
    using o by simp
  have rg: "sr < length (lines b)" "er < length (lines b)" using o assms(5,6) by auto
  have ls: "lineAt (lines b) (int sr) = lines b ! sr" "lineAt (lines b) (int er) = lines b ! er"
    using rg by (simp_all add: lineAt_def at_index_def)
  have e1: "max (int ec + 1) 0 = int (Suc ec)" "max (int sc) 0 = int sc" by simp_all
  have rr: "lines (replaceRangeInternal (pushUndo b) (int sr) (int sc) (int er) (int ec + 1) [])
            = take sr (lines b)
              @ [concat (take sc (toCodePoints (lines b ! sr)))
                 @ concat (drop (Suc ec) (toCodePoints (lines b ! er)))]
              @ drop (Suc er) (lines b)"
    unfolding replaceRangeInternal_def Let_def pushUndo_frame ls e1
    by (simp add: cpSlice_def slice_nat[of _ 0, simplified] slice_nat del: of_nat_Suc)
  show ?thesis
    using assms(1-3) rr
    by (simp add: handleVimAction_def case_delete_char_def Let_def os
          replaceRangeInternal_frame pushUndo_frame)
qed

lemma bufferText_middle:
  "bufferText (A @ x # B)
     = concat (map (\<lambda>l. l @ [newline]) A) @ x
       @ (if B = [] then [] else newline # bufferText B)"
  by (induction A) (simp_all add: bufferText_Cons)

lemma bufferText_points: "concat (joinWith [newline] (map toCodePoints lns)) = bufferText lns"
  using toCodePoints_bufferText[of lns] concat_toCodePoints[of "bufferText lns"] by simp

lemma textBefore_offset:
  assumes "r < length lns"
  shows "textBefore lns (textOffset lns (r, c))
         = concat (map (\<lambda>l. l @ [newline]) (take r lns)) @ concat (take c (toCodePoints (lns ! r)))"
proof -
  let ?rows = "map toCodePoints lns"
  let ?c = "min c (length (?rows ! r))"
  have "take (rowOffset ?rows r + ?c) (joinWith [newline] ?rows)
        = concat (map (\<lambda>p. p @ [[newline]]) (take r ?rows)) @ take ?c (?rows ! r)"
    by (rule take_join) (use assms in simp_all)
  moreover have "take ?c (?rows ! r) = take c (toCodePoints (lns ! r))"
    using assms by (simp add: min_def)
  ultimately show ?thesis
    using assms
    by (simp add: textBefore_def textOffset_def toCodePoints_bufferText concat_rows_points
          take_map)
qed

lemma textFrom_offset:
  assumes "r < length lns"
  shows "textFrom lns (textOffset lns (r, c))
         = concat (drop c (toCodePoints (lns ! r)))
           @ (if Suc r < length lns then newline # bufferText (drop (Suc r) lns) else [])"
proof -
  let ?rows = "map toCodePoints lns"
  let ?c = "min c (length (?rows ! r))"
  have "drop (rowOffset ?rows r + ?c) (joinWith [newline] ?rows)
        = drop ?c (?rows ! r)
          @ (if Suc r < length ?rows then [newline] # joinWith [newline] (drop (Suc r) ?rows)
             else [])"
    by (rule drop_join) (use assms in simp_all)
  moreover have "drop ?c (?rows ! r) = drop c (toCodePoints (lns ! r))"
    using assms by (simp add: min_def)
  moreover have "concat (joinWith [newline] (drop (Suc r) ?rows)) = bufferText (drop (Suc r) lns)"
    using bufferText_points[of "drop (Suc r) lns"] by (simp add: drop_map)
  ultimately show ?thesis
    using assms
    by (simp add: textFrom_def textOffset_def toCodePoints_bufferText)
qed

text \<open>The text that \<open>vim_delete_char\<close> leaves of a selection.\<close>

lemma delete_selection_text:
  assumes "sr < length lns" "er < length lns"
  shows "bufferText (take sr lns
                      @ [concat (take sc (toCodePoints (lns ! sr)))
                         @ concat (drop (Suc ec) (toCodePoints (lns ! er)))]
                      @ drop (Suc er) lns)
         = textBefore lns (textOffset lns (sr, sc))
           @ textFrom lns (textOffset lns (nextColumn (er, ec)))"
  using assms
  by (simp add: bufferText_middle textBefore_offset textFrom_offset nextColumn_def)


text \<open>
  C10 as stated fails for a selection that ends on an empty line. On
  \<open>["ab", "", "cd"]\<close> the keys \<open>v\<close>, \<open>j\<close> select from \<open>(0,0)\<close> to \<open>(1,0)\<close>. The selected
  text, inclusive of both ends, is \<open>ab\<close>, its line break and the line break of the
  empty line; after \<open>d\<close> the clipboard holds \<open>ab\<close> and one line break only.
\<close>

theorem visual_yank_empty_line_counterexample:
  "map_sum id (\<lambda>e. (mode (vim e), selectionAnchor (buffer e), cursorRow (buffer e),
                        cursorCol (buffer e)))
       (handleKeys defaultEnv selectDown (editorWith [js ''ab'', [], js ''cd'']))
     = Inr (VISUAL, Some (0, 0), 1, 0)
   \<and> selectedText [js ''ab'', [], js ''cd''] (0, 0) (1, 0) = js ''ab'' @ [newline, newline]
   \<and> map_sum id (clipboard \<circ> buffer)
       (handleKeys defaultEnv (selectDown @ [charKey ''d''])
          (editorWith [js ''ab'', [], js ''cd'']))
     = Inr (js ''ab'' @ [newline])"
  by code_simp

text \<open>
  C10, amended. In VISUAL or VISUAL_LINE mode with no pending replace, find or chord
  prefix (which would consume the key), the anchor and the cursor on lines of the
  buffer, each of the keys \<open>d\<close>, \<open>c\<close>, \<open>x\<close> yanks the range from the earlier of the
  two positions up to column \<open>end_col + 1\<close> of the later one, at most the end of that
  line, and then deletes: afterwards the clipboard is that part of the buffer's
  text, whatever it held before, the anchor is cleared, and the mode is INSERT for
  \<open>c\<close> and NORMAL for \<open>d\<close> and \<open>x\<close>. When the later position is on a character,
  the clipboard is the selected text, inclusive of both ends, and the buffer's text
  afterwards is the text before the selection followed by the text after it. When
  the later position is at the end of its line (an empty line, for one), the line
  break there is not yanked; the range to delete then ends past that line, and what
  \<open>replace_range\<close>, which is outside the sources, makes of such a range is not
  stated here.
\<close>

theorem visual_operator_yanks:
  assumes "vimEnabled env" "\<not> pendingReplace (vim e)" "pendingFind (vim e) = None"
    "pendingChord (vim e) = None" "isVisual (mode (vim e))"
    "selectionAnchor (buffer e) = Some (int ar, int ac)"
    "cursorRow (buffer e) = int cr" "cursorCol (buffer e) = int cc"
    "ar < length (lines (buffer e))" "cr < length (lines (buffer e))"
    "orderedPositions (ar, ac) (cr, cc) = (start, fin)"
    "c = ''d'' \<or> c = ''c'' \<or> c = ''x''"
  shows "\<exists>e'. handleInput env (charKey c) e = Inr (True, e')
           \<and> clipboard (buffer e')
               = textBetween (lines (buffer e)) (textOffset (lines (buffer e)) start)
                   (textOffset (lines (buffer e)) (nextColumn fin))
           \<and> selectionAnchor (buffer e') = None
           \<and> mode (vim e') = (if c = ''c'' then INSERT else NORMAL)
           \<and> (snd fin < length (toCodePoints (lines (buffer e) ! fst fin))
              \<longrightarrow> bufferText (lines (buffer e'))
                    = textBefore (lines (buffer e)) (textOffset (lines (buffer e)) start)
                      @ textFrom (lines (buffer e))
                          (textOffset (lines (buffer e)) (nextColumn fin)))
           \<and> (snd start \<le> length (toCodePoints (lines (buffer e) ! fst start))
                \<and> snd fin < length (toCodePoints (lines (buffer e) ! fst fin))
              \<longrightarrow> clipboard (buffer e') = selectedText (lines (buffer e)) start fin)"
proof -
  let ?h = "helpersOf env"
  let ?lns = "lines (buffer e)"
  obtain sr sc er ec where p: "start = (sr, sc)" "fin = (er, ec)"
    by (cases start, cases fin) auto
  have o: "orderedPositions (ar, ac) (cr, cc) = ((sr, sc), (er, ec))"
    using assms(11) p by simp
  have rg: "sr < length ?lns" "er < length ?lns"
    using orderedSelection_positions[OF o] assms(9,10) by auto
  let ?y = "yankedText ?lns (int ar, int ac) (cursorRow (buffer e)) (cursorCol (buffer e))"
  let ?b1 = "(buffer e)\<lparr> clipboard := ?y \<rparr>"
  have y: "handleVimAction ?h (buffer e) vim_yank_selection = Inr ?b1"
    using assms(6) by (rule yank_selection_some)
  have yt: "?y = textBetween ?lns (textOffset ?lns start) (textOffset ?lns (nextColumn fin))"
    unfolding assms(7,8) p by (rule yankedText_between[OF o assms(9,10)])
  have "\<exists>b'. handleVimAction ?h ?b1 (vim_delete_char (Suc 0)) = Inr b'
           \<and> clipboard b' = clipboard ?b1 \<and> selectionAnchor b' = None
           \<and> lines b' = take sr (lines ?b1)
                          @ [concat (take sc (toCodePoints (lines ?b1 ! sr)))
                             @ concat (drop (Suc ec) (toCodePoints (lines ?b1 ! er)))]
                          @ drop (Suc er) (lines ?b1)"
    by (rule delete_selection_lines[where ar = ar and ac = ac and cr = cr and cc = cc])
       (use assms(6-10) o in simp_all)
  then obtain b2 where d: "handleVimAction ?h ?b1 (vim_delete_char (Suc 0)) = Inr b2"
    and c2: "clipboard b2 = ?y" and a2: "selectionAnchor b2 = None"
    and l2: "lines b2 = take sr ?lns
                          @ [concat (take sc (toCodePoints (?lns ! sr)))
                             @ concat (drop (Suc ec) (toCodePoints (?lns ! er)))]
                          @ drop (Suc er) ?lns"
    by auto
  have t2: "bufferText (lines b2)
            = textBefore ?lns (textOffset ?lns start) @ textFrom ?lns (textOffset ?lns (nextColumn fin))"
    unfolding l2 p by (rule delete_selection_text[OF rg])
  have sel: "snd start \<le> length (toCodePoints (?lns ! fst start))
               \<and> snd fin < length (toCodePoints (?lns ! fst fin))
             \<longrightarrow> ?y = selectedText ?lns start fin"
    unfolding yt using selectedText_between[of start ?lns fin] by simp
  have "\<exists>e'. handleInput env (charKey c) e = Inr (True, e')
           \<and> buffer e' = b2 \<and> mode (vim e') = (if c = ''c'' then INSERT else NORMAL)"
    unfolding visual_key_steps[OF assms(1-5) assms(12)]
    by (simp add: returning_def buf_def y d updateMode_def dispatch_def vimReducer_def)
  then obtain e' where e': "handleInput env (charKey c) e = Inr (True, e')" "buffer e' = b2"
    "mode (vim e') = (if c = ''c'' then INSERT else NORMAL)"
    by blast
  have "clipboard (buffer e')
          = textBetween ?lns (textOffset ?lns start) (textOffset ?lns (nextColumn fin))"
    using e'(2) c2 yt by simp
  moreover have "snd start \<le> length (toCodePoints (?lns ! fst start))
                   \<and> snd fin < length (toCodePoints (?lns ! fst fin))
                 \<longrightarrow> clipboard (buffer e') = selectedText ?lns start fin"
    using e'(2) c2 sel by simp
  ultimately show ?thesis
    using e' t2 a2 by auto
qed

theorem visual_operator_yanks_witness:
  "vimEnabled defaultEnv \<and> isVisual (mode (vim visualSample))
   \<and> selectionAnchor (buffer visualSample) = Some (int 0, int 0)
   \<and> cursorRow (buffer visualSample) = int 0 \<and> cursorCol (buffer visualSample) = int 2
   \<and> orderedPositions (0, 0) (0, 2) = ((0, 0), (0, 2))
   \<and> (\<exists>e'. handleInput defaultEnv (charKey ''d'') visualSample = Inr (True, e')
          \<and> clipboard (buffer e') = js ''hel''
          \<and> bufferText (lines (buffer e')) = js ''lo''
          \<and> selectionAnchor (buffer e') = None \<and> mode (vim e') = NORMAL)
   \<and> selectedText (lines (buffer visualSample)) (0, 0) (0, 2) = js ''hel''
   \<and> isVisual (mode (vim emptyLineSample))
   \<and> selectionAnchor (buffer emptyLineSample) = Some (int 0, int 0)
   \<and> cursorRow (buffer emptyLineSample) = int 1 \<and> cursorCol (buffer emptyLineSample) = int 0
   \<and> orderedPositions (0, 0) (1, 0) = ((0, 0), (1, 0))
   \<and> (\<exists>e'. handleInput defaultEnv (charKey ''c'') emptyLineSample = Inr (True, e')
          \<and> clipboard (buffer e') = js ''ab'' @ [newline]
          \<and> selectionAnchor (buffer e') = None \<and> mode (vim e') = INSERT)"
proof -
  have a: "vimEnabled defaultEnv" "\<not> pendingReplace (vim visualSample)"
    "pendingFind (vim visualSample) = None" "pendingChord (vim visualSample) = None"
    "isVisual (mode (vim visualSample))"
    "selectionAnchor (buffer visualSample) = Some (int 0, int 0)"
    "cursorRow (buffer visualSample) = int 0" "cursorCol (buffer visualSample) = int 2"
    "0 < length (lines (buffer visualSample))" "0 < length (lines (buffer visualSample))"
    "orderedPositions (0, 0) (0, 2) = ((0, 0), (0, 2))"
    "''d'' = ''d'' \<or> ''d'' = ''c'' \<or> ''d'' = ''x''"
    by (simp_all add: defaultEnv_def visualSample_def initialVimState_def initialState_def
          isVisual_def orderedPositions_def)
  have t: "textBetween (lines (buffer visualSample)) (textOffset (lines (buffer visualSample)) (0, 0))
             (textOffset (lines (buffer visualSample)) (nextColumn (0, 2))) = js ''hel''"
    "textBefore (lines (buffer visualSample)) (textOffset (lines (buffer visualSample)) (0, 0))
       @ textFrom (lines (buffer visualSample))
           (textOffset (lines (buffer visualSample)) (nextColumn (0, 2))) = js ''lo''"
    "selectedText (lines (buffer visualSample)) (0, 0) (0, 2) = js ''hel''"
    by code_simp+
  have on: "snd (0::nat, 2::nat) < length (toCodePoints (lines (buffer visualSample) ! fst (0::nat, 2::nat)))"
    by (simp add: visualSample_def initialState_def js_def isHighSurrogate_def
          isLowSurrogate_def)
  from visual_operator_yanks[OF a] on
  obtain e' where e: "handleInput defaultEnv (charKey ''d'') visualSample = Inr (True, e')"
    "clipboard (buffer e')
       = textBetween (lines (buffer visualSample)) (textOffset (lines (buffer visualSample)) (0, 0))
           (textOffset (lines (buffer visualSample)) (nextColumn (0, 2)))"
    "bufferText (lines (buffer e'))
       = textBefore (lines (buffer visualSample)) (textOffset (lines (buffer visualSample)) (0, 0))
         @ textFrom (lines (buffer visualSample))
             (textOffset (lines (buffer visualSample)) (nextColumn (0, 2)))"
    "selectionAnchor (buffer e') = None"
    "mode (vim e') = (if ''d'' = ''c'' then INSERT else NORMAL)"
    by blast
  have 1: "\<exists>e'. handleInput defaultEnv (charKey ''d'') visualSample = Inr (True, e')
          \<and> clipboard (buffer e') = js ''hel''
          \<and> bufferText (lines (buffer e')) = js ''lo''
          \<and> selectionAnchor (buffer e') = None \<and> mode (vim e') = NORMAL"
    using e t by simp
  have b: "vimEnabled defaultEnv" "\<not> pendingReplace (vim emptyLineSample)"
    "pendingFind (vim emptyLineSample) = None" "pendingChord (vim emptyLineSample) = None"
    "isVisual (mode (vim emptyLineSample))"
    "selectionAnchor (buffer emptyLineSample) = Some (int 0, int 0)"
    "cursorRow (buffer emptyLineSample) = int 1" "cursorCol (buffer emptyLineSample) = int 0"
    "0 < length (lines (buffer emptyLineSample))" "1 < length (lines (buffer emptyLineSample))"
    "orderedPositions (0, 0) (1, 0) = ((0, 0), (1, 0))"
    "''c'' = ''d'' \<or> ''c'' = ''c'' \<or> ''c'' = ''x''"
    by (simp_all add: defaultEnv_def emptyLineSample_def initialVimState_def initialState_def
          isVisual_def orderedPositions_def)
  have u: "textBetween (lines (buffer emptyLineSample))
             (textOffset (lines (buffer emptyLineSample)) (0, 0))
             (textOffset (lines (buffer emptyLineSample)) (nextColumn (1, 0)))
           = js ''ab'' @ [newline]"
    by code_simp
  from visual_operator_yanks[OF b]
  obtain e'' where f: "handleInput defaultEnv (charKey ''c'') emptyLineSample = Inr (True, e'')"
    "clipboard (buffer e'')
       = textBetween (lines (buffer emptyLineSample))
           (textOffset (lines (buffer emptyLineSample)) (0, 0))
           (textOffset (lines (buffer emptyLineSample)) (nextColumn (1, 0)))"
    "selectionAnchor (buffer e'') = None"
    "mode (vim e'') = (if ''c'' = ''c'' then INSERT else NORMAL)"
    by blast
  have 2: "\<exists>e'. handleInput defaultEnv (charKey ''c'') emptyLineSample = Inr (True, e')
          \<and> clipboard (buffer e') = js ''ab'' @ [newline]
          \<and> selectionAnchor (buffer e') = None \<and> mode (vim e') = INSERT"
    using f u by simp
  show ?thesis
    using a(1,5,6,7,8,11) b(5,6,7,8,11) t(3) 1 2 by blast
qed

section \<open>Properties of the history navigator\<close>

lemma navigate_append:
  "navigate msgs a (xs @ ys) s =
     (let (s1, e1) = navigate msgs a xs s; (s2, e2) = navigate msgs a ys s1 in (s2, e1 @ e2))"
  by (induction xs arbitrary: s) (auto simp: Let_def split: prod.splits)

lemma messageAt_rev:
  "j < length msgs \<Longrightarrow>
   messageAt \<lparr> userMessages = msgs, isActive = a, currentQuery = q \<rparr> (int j)
     = Some (rev msgs ! j)"
  by (auto simp: messageAt_def at_index_def rev_nth nat_diff_distrib' intro: arg_cong[where f="nth msgs"])

lemma ups_inside:
  assumes "historyIndex s = int i" "i + length qs < length msgs"
  shows "navigate msgs True (map (Pair Up) qs) s
         = (s\<lparr> historyIndex := int (i + length qs) \<rparr>, map (shown msgs) [Suc i ..< Suc (i + length qs)])"
  using assms
proof (induction qs arbitrary: s i)
  case Nil
  then show ?case by simp
next
  case (Cons q qs)
  have j: "Suc i < length msgs" using Cons.prems by simp
  have m: "messageAt \<lparr> userMessages = msgs, isActive = True, currentQuery = q \<rparr> (int i + 1) = Some (rev msgs ! Suc i)"
    using messageAt_rev[OF j, of True q] by (simp add: add.commute)
  have step: "navigateUp \<lparr> userMessages = msgs, isActive = True, currentQuery = q \<rparr> s
        = (True, s\<lparr> historyIndex := int (Suc i) \<rparr>, [shown msgs (Suc i)])"
    using Cons.prems j m by (auto simp: navigateUp_def Let_def shown_def)
  have ih: "navigate msgs True (map (Pair Up) qs) (s\<lparr> historyIndex := int (Suc i) \<rparr>)
      = (s\<lparr> historyIndex := int (Suc i) \<rparr>\<lparr> historyIndex := int (Suc i + length qs) \<rparr>,
         map (shown msgs) [Suc (Suc i) ..< Suc (Suc i + length qs)])"
    by (rule Cons.IH) (use Cons.prems in auto)
  have u: "[Suc i ..< Suc (i + length (q # qs))] = Suc i # [Suc (Suc i) ..< Suc (Suc i + length qs)]"
    by (simp add: upt_conv_Cons del: upt_Suc)
  show ?case
    using step ih unfolding u by (simp del: upt_Suc)
qed

lemma downs_inside:
  assumes "historyIndex s = int i" "length qs = Suc i" "i < length msgs"
  shows "navigate msgs True (map (Pair Down) qs) s
         = (s\<lparr> historyIndex := -1 \<rparr>,
            map (shown msgs) (rev [0 ..< i]) @ [OnChange (Some (originalQueryBeforeNav s))])"
  using assms
proof (induction i arbitrary: s qs)
  case 0
  then obtain q where "qs = [q]" by (cases qs) auto
  then show ?case using 0 by (simp add: navigateDown_def Let_def)
next
  case (Suc i)
  then obtain q qs' where qs: "qs = q # qs'" "length qs' = Suc i" by (cases qs) auto
  have j: "i < length msgs" using Suc.prems by simp
  have m: "messageAt \<lparr> userMessages = msgs, isActive = True, currentQuery = q \<rparr> (int i) = Some (rev msgs ! i)"
    by (rule messageAt_rev[OF j])
  have step: "navigateDown \<lparr> userMessages = msgs, isActive = True, currentQuery = q \<rparr> s
        = (True, s\<lparr> historyIndex := int i \<rparr>, [shown msgs i])"
    using Suc.prems m by (auto simp: navigateDown_def Let_def shown_def)
  have ih: "navigate msgs True (map (Pair Down) qs') (s\<lparr> historyIndex := int i \<rparr>)
      = (s\<lparr> historyIndex := int i \<rparr>\<lparr> historyIndex := -1 \<rparr>,
         map (shown msgs) (rev [0 ..< i]) @ [OnChange (Some (originalQueryBeforeNav (s\<lparr> historyIndex := int i \<rparr>)))])"
    by (rule Suc.IH) (use qs j in auto)
  show ?case using step ih qs by simp
qed

text \<open>
  C4. Starting outside the history (\<open>history_index = -1\<close>) with the hook active,
  \<open>k\<close> calls of \<open>navigateUp\<close> followed by \<open>k\<close> calls of \<open>navigateDown\<close>, for
  \<open>0 < k \<le> len(user_messages)\<close>, make exactly these calls: one snapshot of the
  draft shown at the first call, the \<open>k\<close> most recent messages going up, the same
  messages going back down, and last the snapshot itself. The index ends at \<open>-1\<close>.
  Whatever the parent passes as \<open>currentQuery\<close> at the later calls is not read.
\<close>

theorem history_round_trip:
  assumes "historyIndex s = -1" "0 < k" "k \<le> length msgs"
    "length qsUp = k" "length qsDown = k" "hd qsUp = draft"
  shows "navigate msgs True (map (Pair Up) qsUp @ map (Pair Down) qsDown) s
         = (s\<lparr> originalQueryBeforeNav := draft, historyIndex := -1 \<rparr>,
            SetOriginalQueryBeforeNav draft # map (shown msgs) [0 ..< k]
              @ map (shown msgs) (rev [0 ..< k - 1]) @ [OnChange (Some draft)])
         \<and> last (snd (navigate msgs True (map (Pair Up) qsUp @ map (Pair Down) qsDown) s))
             = OnChange (Some draft)
         \<and> filter isSnapshot
               (snd (navigate msgs True (map (Pair Up) qsUp @ map (Pair Down) qsDown) s))
             = [SetOriginalQueryBeforeNav draft]"
proof -
  have snap: "filter isSnapshot (map (shown msgs) js) = []" for js
    by (induction js) (simp_all add: shown_def isSnapshot_def)
  obtain qs where qsUp: "qsUp = draft # qs" "length qs = k - 1"
    using assms(2,4,6) by (cases qsUp) auto
  let ?s1 = "s\<lparr> originalQueryBeforeNav := draft, historyIndex := 0 \<rparr>"
  have j: "0 < length msgs" using assms(2,3) by linarith
  have m: "messageAt \<lparr> userMessages = msgs, isActive = True, currentQuery = draft \<rparr> 0 = Some (rev msgs ! 0)"
    using messageAt_rev[OF j, of True draft] by simp
  have first: "navigateUp \<lparr> userMessages = msgs, isActive = True, currentQuery = draft \<rparr> s
        = (True, ?s1, [SetOriginalQueryBeforeNav draft, shown msgs 0])"
    using assms(1) j m by (simp add: navigateUp_def Let_def shown_def)
  have rest: "navigate msgs True (map (Pair Up) qs) ?s1
        = (?s1\<lparr> historyIndex := int (0 + length qs) \<rparr>, map (shown msgs) [Suc 0 ..< Suc (0 + length qs)])"
    by (rule ups_inside) (use qsUp assms in auto)
  have ups: "navigate msgs True (map (Pair Up) qsUp) s
        = (?s1\<lparr> historyIndex := int (k - 1) \<rparr>,
           SetOriginalQueryBeforeNav draft # map (shown msgs) [0 ..< k])"
  proof -
    have u: "[0 ..< k] = 0 # [Suc 0 ..< Suc (0 + length qs)]"
      using qsUp assms(2) by (simp add: upt_conv_Cons del: upt_Suc)
    have k: "int (0 + length qs) = int (k - 1)" using qsUp by simp
    show ?thesis using k first rest unfolding u qsUp(1) by (simp del: upt_Suc)
  qed
  have downs: "navigate msgs True (map (Pair Down) qsDown) (?s1\<lparr> historyIndex := int (k - 1) \<rparr>)
        = (?s1\<lparr> historyIndex := int (k - 1) \<rparr>\<lparr> historyIndex := -1 \<rparr>,
           map (shown msgs) (rev [0 ..< k - 1])
             @ [OnChange (Some (originalQueryBeforeNav (?s1\<lparr> historyIndex := int (k - 1) \<rparr>)))])"
    by (rule downs_inside) (use assms in auto)
  have eq: "navigate msgs True (map (Pair Up) qsUp @ map (Pair Down) qsDown) s
         = (s\<lparr> originalQueryBeforeNav := draft, historyIndex := -1 \<rparr>,
            SetOriginalQueryBeforeNav draft # map (shown msgs) [0 ..< k]
              @ map (shown msgs) (rev [0 ..< k - 1]) @ [OnChange (Some draft)])"
    using ups downs by (simp add: navigate_append)
  show ?thesis
    unfolding eq by (simp add: snap isSnapshot_def del: upt_Suc)
qed

theorem history_round_trip_witness:
  "historyIndex initialHistory = -1 \<and> (0::nat) < 3 \<and> 3 \<le> length sampleMessages
   \<and> navigate sampleMessages True
        (map (Pair Up) [js ''draft'', js ''three'', js ''two'']
         @ map (Pair Down) [js ''one'', js ''two'', js ''three'']) initialHistory
      = (initialHistory\<lparr> originalQueryBeforeNav := js ''draft'' \<rparr>,
         [SetOriginalQueryBeforeNav (js ''draft''),
          OnChange (Some (js ''three'')), OnChange (Some (js ''two'')),
          OnChange (Some (js ''one'')), OnChange (Some (js ''two'')),
          OnChange (Some (js ''three'')), OnChange (Some (js ''draft''))])"
proof -
  have a: "historyIndex initialHistory = -1" "(0::nat) < 3" "3 \<le> length sampleMessages"
    "length [js ''draft'', js ''three'', js ''two''] = 3"
    "length [js ''one'', js ''two'', js ''three''] = 3"
    "hd [js ''draft'', js ''three'', js ''two''] = js ''draft''"
    by (simp_all add: initialHistory_def sampleMessages_def)
  have u: "[0 ..< 3] = [0, Suc 0, 2]" "[0 ..< 3 - 1] = [0, Suc 0]"
    by (simp_all add: upt_rec)
  show ?thesis
    using a(1-3) history_round_trip[OF a] unfolding u
    by (simp add: shown_def sampleMessages_def initialHistory_def)
qed

section \<open>Properties of the confirmation waiter\<close>

lemma deliverAll_unsubscribed:
  "\<not> onResponseSubscribed w \<Longrightarrow> \<not> onAbortListening w \<Longrightarrow> deliverAll cid evs w = w"
  by (induction evs) (simp_all add: deliver_def split: bus_event.splits)

lemma deliver_other:
  "\<not> concerns cid ev \<Longrightarrow> deliver cid ev w = w"
  by (cases ev) (simp_all add: deliver_def concerns_def onResponse_def)

lemma deliver_abort:
  "deliver cid Abort \<lparr> result = Pending, onResponseSubscribed = True, onAbortListening = True \<rparr>
     = \<lparr> result = Rejected OperationCancelled, onResponseSubscribed = False,
         onAbortListening = False \<rparr>"
  by (simp add: deliver_def onAbort_def reject_def cleanup_def)

lemma deliver_matching:
  "correlationId msg = cid \<Longrightarrow>
   deliver cid (Response msg)
     \<lparr> result = Pending, onResponseSubscribed = True, onAbortListening = True \<rparr>
     = \<lparr> result = Resolved (case outcome msg of
                               Some oc \<Rightarrow> oc
                             | None \<Rightarrow> if confirmed msg then ProceedOnce else Cancel,
                             payload msg),
         onResponseSubscribed = False, onAbortListening = False \<rparr>"
  by (simp add: deliver_def onResponse_def resolve_def cleanup_def outcomeOf_def)

lemma deliverAll_pending:
  "deliverAll cid evs \<lparr> result = Pending, onResponseSubscribed = True, onAbortListening = True \<rparr>
     = (case find (concerns cid) evs of
          None \<Rightarrow> \<lparr> result = Pending, onResponseSubscribed = True, onAbortListening = True \<rparr>
        | Some Abort \<Rightarrow>
            \<lparr> result = Rejected OperationCancelled, onResponseSubscribed = False,
              onAbortListening = False \<rparr>
        | Some (Response msg) \<Rightarrow>
            \<lparr> result = Resolved (case outcome msg of
                                      Some oc \<Rightarrow> oc
                                    | None \<Rightarrow> if confirmed msg then ProceedOnce else Cancel,
                                    payload msg),
              onResponseSubscribed = False, onAbortListening = False \<rparr>)"
proof (induction evs)
  case Nil
  then show ?case by simp
next
  case (Cons ev evs)
  show ?case
  proof (cases "concerns cid ev")
    case True
    show ?thesis
    proof (cases ev)
      case (Response msg)
      then have "correlationId msg = cid" using True by (simp add: concerns_def)
      then show ?thesis
        using True Response by (simp add: deliver_matching deliverAll_unsubscribed)
    next
      case Abort
      then show ?thesis
        using True by (simp add: deliver_abort deliverAll_unsubscribed)
    qed
  next
    case False
    then show ?thesis
      using Cons.IH by (simp add: deliver_other)
  qed
qed

text \<open>
  C8. A waiter that starts with the signal not aborted stays pending until the first
  event that concerns it. When that event is a response with its correlation id,
  it resolves with the outcome of that response and its payload: the response's
  \<open>outcome\<close> when it has one, else \<open>ProceedOnce\<close> for a confirmed and \<open>Cancel\<close> for an
  unconfirmed response. When it is the abort, it rejects with the cancellation
  error. Either way both listeners are removed, so nothing that follows changes the
  result: a late matching response after a cancellation is dropped. A waiter that
  starts with the signal already aborted is rejected with the cancellation error
  and never subscribes.
\<close>

theorem awaitConfirmation_settles:
  "deliverAll cid evs (awaitConfirmation False False)
     = (case find (concerns cid) evs of
          None \<Rightarrow> \<lparr> result = Pending, onResponseSubscribed = True, onAbortListening = True \<rparr>
        | Some Abort \<Rightarrow>
            \<lparr> result = Rejected OperationCancelled, onResponseSubscribed = False,
              onAbortListening = False \<rparr>
        | Some (Response msg) \<Rightarrow>
            \<lparr> result = Resolved (case outcome msg of
                                      Some oc \<Rightarrow> oc
                                    | None \<Rightarrow> if confirmed msg then ProceedOnce else Cancel,
                                    payload msg),
              onResponseSubscribed = False, onAbortListening = False \<rparr>)
   \<and> deliverAll cid evs (awaitConfirmation True subscribeThrows)
     = \<lparr> result = Rejected OperationCancelled, onResponseSubscribed = False,
         onAbortListening = False \<rparr>"
  by (simp add: awaitConfirmation_def deliverAll_pending deliverAll_unsubscribed)

theorem awaitConfirmation_settles_witness:
  "deliverAll ''id-1'' [Response (confirmedResponse\<lparr> correlationId := ''other'' \<rparr>), Abort,
                        Response confirmedResponse] (awaitConfirmation False False)
     = \<lparr> result = Rejected OperationCancelled, onResponseSubscribed = False,
         onAbortListening = False \<rparr>
   \<and> deliverAll ''id-1'' [Response (alwaysResponse\<lparr> correlationId := ''other'' \<rparr>),
                          Response confirmedResponse, Response deniedResponse, Abort]
        (awaitConfirmation False False)
     = \<lparr> result = Resolved (ProceedOnce, None), onResponseSubscribed = False,
         onAbortListening = False \<rparr>
   \<and> deliverAll ''id-1'' [Response deniedResponse, Response alwaysResponse]
        (awaitConfirmation False False)
     = \<lparr> result = Resolved (Cancel, None), onResponseSubscribed = False,
         onAbortListening = False \<rparr>
   \<and> deliverAll ''id-1'' [Response alwaysResponse, Abort] (awaitConfirmation False False)
     = \<lparr> result = Resolved (ProceedAlways, None), onResponseSubscribed = False,
         onAbortListening = False \<rparr>
   \<and> deliverAll ''id-1'' [Response editedResponse] (awaitConfirmation False False)
     = \<lparr> result = Resolved (ModifyWithEditor, Some ''updated''), onResponseSubscribed = False,
         onAbortListening = False \<rparr>
   \<and> deliverAll ''id-1'' [Response confirmedResponse] (awaitConfirmation True False)
     = \<lparr> result = Rejected OperationCancelled, onResponseSubscribed = False,
         onAbortListening = False \<rparr>"
  using awaitConfirmation_settles[of "''id-1''"
          "[Response (confirmedResponse\<lparr> correlationId := ''other'' \<rparr>), Abort,
            Response confirmedResponse]" False]
        awaitConfirmation_settles[of "''id-1''"
          "[Response (alwaysResponse\<lparr> correlationId := ''other'' \<rparr>),
            Response confirmedResponse, Response deniedResponse, Abort]" False]
        awaitConfirmation_settles[of "''id-1''"
          "[Response deniedResponse, Response alwaysResponse]" False]
        awaitConfirmation_settles[of "''id-1''" "[Response alwaysResponse, Abort]" False]
        awaitConfirmation_settles[of "''id-1''" "[Response editedResponse]" False]
        awaitConfirmation_settles[of "''id-1''" "[Response confirmedResponse]" False]
  by (simp add: concerns_def confirmedResponse_def deniedResponse_def alwaysResponse_def
        editedResponse_def)

section \<open>Properties of the search\<close>

text \<open>
  C6 fails on a line with a character outside the Basic Multilingual Plane. On the
  line U+1F600, \<open>x\<close>, U+1F600, \<open>x\<close> with the cursor on the first \<open>x\<close> (column 1), the
  next occurrence of \<open>x\<close> after the cursor is at column 3. The forward search passes
  the cursor column, a count of code points, to \<open>indexOf\<close> as a count of UTF-16 code
  units, finds the \<open>x\<close> under the cursor again at code unit 2, and stores 2 as the
  column: the cursor lands on the second U+1F600, where the query does not occur.
  The backward search has a second defect: at column 0, \<open>lastIndexOf(query, -1)\<close>
  looks at column 0 itself, so on \<open>["x", "x"]\<close> from \<open>(1,0)\<close> the search for \<open>x\<close> stays
  on the cursor and never reaches the occurrence on the line above.
\<close>

theorem search_lands_off_the_match:
  "map_sum id (\<lambda>s. (lines s, cursorRow s, cursorCol s))
       (runActions asciiHelpers toFirstX initialState) = Inr ([astralSearchLine], 0, 1)
   \<and> map_sum id bufferInvariant (runActions asciiHelpers toFirstX initialState) = Inr True
   \<and> queryAt [astralSearchLine] (js ''x'') (0, 1)
   \<and> specSearch [astralSearchLine] 0 1 (js ''x'') forward = Some (0, 3)
   \<and> map_sum id (\<lambda>s. (lines s, cursorRow s, cursorCol s, lastSearchQuery s))
       (runActions asciiHelpers (toFirstX @ [vim_search (js ''x'') forward]) initialState)
     = Inr ([astralSearchLine], 0, 2, js ''x'')
   \<and> toCodePoints astralSearchLine ! 2 = [0xD83D, 0xDE00]
   \<and> queryAt [astralSearchLine] (js ''x'') (0, 2) = False
   \<and> map_sum id (\<lambda>s. (lines s, cursorRow s, cursorCol s))
       (runActions asciiHelpers toSecondLine initialState) = Inr ([js ''x'', js ''x''], 1, 0)
   \<and> specSearch [js ''x'', js ''x''] 1 0 (js ''x'') backward = Some (0, 0)
   \<and> map_sum id (\<lambda>s. (cursorRow s, cursorCol s))
       (runActions asciiHelpers (toSecondLine @ [vim_search (js ''x'') backward]) initialState)
     = Inr (1, 0)"
  by code_simp

text \<open>
  C1 fails at a search on a line with a character outside the Basic Multilingual
  Plane. From the initial state, yanking and pasting the line of code points
  U+1F600, U+1F600, \<open>x\<close>, moving to the line start and searching forward for \<open>x\<close>
  leaves the cursor at column 4 of a line of 3 code points: \<open>indexOf\<close> counts UTF-16
  code units, and the reducer stores its result as the cursor column.
\<close>

theorem search_breaks_cursor_invariant:
  "bufferInvariant initialState
   \<and> cpLen astralLine = 3
   \<and> map_sum id lines
        (runActions asciiHelpers
           [vim_yank astralLine, vim_paste before, vim_move_to_line_start,
            vim_search (js ''x'') forward] initialState) = Inr [astralLine]
   \<and> map_sum id cursorRow
        (runActions asciiHelpers
           [vim_yank astralLine, vim_paste before, vim_move_to_line_start,
            vim_search (js ''x'') forward] initialState) = Inr 0
   \<and> map_sum id cursorCol
        (runActions asciiHelpers
           [vim_yank astralLine, vim_paste before, vim_move_to_line_start,
            vim_search (js ''x'') forward] initialState) = Inr 4
   \<and> map_sum id bufferInvariant
        (runActions asciiHelpers
           [vim_yank astralLine, vim_paste before, vim_move_to_line_start,
            vim_search (js ''x'') forward] initialState) = Inr False"
  by code_simp

end
